theory Spec2Isabelle
  imports Complex_Main "HOL-Library.Sublist"
begin

section \<open>Errors\<close>

text \<open>
  Go errors are values. \<open>Errorf msg e\<close> stands for
  \<^verbatim>\<open>fmt.Errorf("<msg>: %w", e)\<close>: a new error that wraps \<open>e\<close>.
  \<open>errUnknownMetric\<close> is the package-level sentinel of the cloudwatch package, and
  \<open>UpstreamError\<close> is whatever error an AWS client call hands back.
  \<open>errors_Is\<close> follows the chain of wrapped errors as Go's \<^verbatim>\<open>errors.Is\<close> does.
\<close>

datatype error =
    errUnknownMetric
  | UpstreamError string
  | Errorf string error


section \<open>Package cloudwatch: the per-instance sample\<close>

text \<open>
  A Go \<^verbatim>\<open>float64\<close> is carried as a real number: the code only stores, copies and
  counts with these values, it never rounds. A \<^verbatim>\<open>*float64\<close> field is an option:
  \<open>None\<close> is the nil pointer, so an absent measurement is distinct from zero.
\<close>

type_synonym float64 = real

record RdsMetrics =
  CPUUtilization :: "float64 option"
  DBLoad :: "float64 option"
  DBLoadCPU :: "float64 option"
  DBLoadNonCPU :: "float64 option"
  DatabaseConnections :: "float64 option"
  FreeStorageSpace :: "float64 option"
  FreeableMemory :: "float64 option"
  MaximumUsedTransactionIDs :: "float64 option"
  ReadIOPS :: "float64 option"
  ReadThroughput :: "float64 option"
  ReplicaLag :: "float64 option"
  ReplicationSlotDiskUsage :: "float64 option"
  SwapUsage :: "float64 option"
  TransactionLogsDiskUsage :: "float64 option"
  WriteIOPS :: "float64 option"
  WriteThroughput :: "float64 option"
  BufferCacheHitRatio :: "float64 option"
  Deadlocks :: "float64 option"
  Queries :: "float64 option"
  EngineUptime :: "float64 option"
  SumBinaryLogSize :: "float64 option"
  NumBinaryLogFiles :: "float64 option"
  AuroraBinlogReplicaLag :: "float64 option"
  BinLogDiskUsage :: "float64 option"

definition empty_RdsMetrics :: RdsMetrics where
  "empty_RdsMetrics = \<lparr>
     CPUUtilization = None, DBLoad = None, DBLoadCPU = None, DBLoadNonCPU = None,
     DatabaseConnections = None, FreeStorageSpace = None, FreeableMemory = None,
     MaximumUsedTransactionIDs = None, ReadIOPS = None, ReadThroughput = None,
     ReplicaLag = None, ReplicationSlotDiskUsage = None, SwapUsage = None,
     TransactionLogsDiskUsage = None, WriteIOPS = None, WriteThroughput = None,
     BufferCacheHitRatio = None, Deadlocks = None, Queries = None, EngineUptime = None,
     SumBinaryLogSize = None, NumBinaryLogFiles = None, AuroraBinlogReplicaLag = None,
     BinLogDiskUsage = None \<rparr>"

text \<open>
  \<^verbatim>\<open>func (m *RdsMetrics) Update(field string, value float64) error\<close> mutates the
  receiver and returns an error. The model returns the receiver after the call together
  with the error (\<open>None\<close> is Go's nil error). The cases keep the order of the switch.
\<close>

definition Update :: "string \<Rightarrow> float64 \<Rightarrow> RdsMetrics \<Rightarrow> RdsMetrics \<times> error option" where
  "Update field v m =
     (if field = ''DBLoad'' then (m\<lparr>DBLoad := Some v\<rparr>, None)
           else if field = ''DBLoadCPU'' then (m\<lparr>DBLoadCPU := Some v\<rparr>, None)
           else if field = ''DBLoadNonCPU'' then (m\<lparr>DBLoadNonCPU := Some v\<rparr>, None)
           else if field = ''CPUUtilization'' then (m\<lparr>CPUUtilization := Some v\<rparr>, None)
           else if field = ''DatabaseConnections'' then (m\<lparr>DatabaseConnections := Some v\<rparr>, None)
           else if field = ''FreeStorageSpace'' then (m\<lparr>FreeStorageSpace := Some v\<rparr>, None)
           else if field = ''FreeableMemory'' then (m\<lparr>FreeableMemory := Some v\<rparr>, None)
           else if field = ''SwapUsage'' then (m\<lparr>SwapUsage := Some v\<rparr>, None)
           else if field = ''WriteIOPS'' then (m\<lparr>WriteIOPS := Some v\<rparr>, None)
           else if field = ''ReadIOPS'' then (m\<lparr>ReadIOPS := Some v\<rparr>, None)
           else if field = ''ReplicaLag'' then (m\<lparr>ReplicaLag := Some v\<rparr>, None)
           else if field = ''ReplicationSlotDiskUsage'' then (m\<lparr>ReplicationSlotDiskUsage := Some v\<rparr>, None)
           else if field = ''MaximumUsedTransactionIDs'' then (m\<lparr>MaximumUsedTransactionIDs := Some v\<rparr>, None)
           else if field = ''ReadThroughput'' then (m\<lparr>ReadThroughput := Some v\<rparr>, None)
           else if field = ''WriteThroughput'' then (m\<lparr>WriteThroughput := Some v\<rparr>, None)
           else if field = ''TransactionLogsDiskUsage'' then (m\<lparr>TransactionLogsDiskUsage := Some v\<rparr>, None)
           else if field = ''BufferCacheHitRatio'' then (m\<lparr>BufferCacheHitRatio := Some v\<rparr>, None)
           else if field = ''Deadlocks'' then (m\<lparr>Deadlocks := Some v\<rparr>, None)
           else if field = ''Queries'' then (m\<lparr>Queries := Some v\<rparr>, None)
           else if field = ''EngineUptime'' then (m\<lparr>EngineUptime := Some v\<rparr>, None)
           else if field = ''SumBinaryLogSize'' then (m\<lparr>SumBinaryLogSize := Some v\<rparr>, None)
           else if field = ''NumBinaryLogFiles'' then (m\<lparr>NumBinaryLogFiles := Some v\<rparr>, None)
           else if field = ''AuroraBinlogReplicaLag'' then (m\<lparr>AuroraBinlogReplicaLag := Some v\<rparr>, None)
           else if field = ''BinLogDiskUsage'' then (m\<lparr>BinLogDiskUsage := Some v\<rparr>, None)
      else (m, Some (Errorf (''can't process '' @ [CHR 0x27] @ field @ [CHR 0x27] @ '' metrics'') errUnknownMetric)))"

text \<open>\<^verbatim>\<open>getCloudWatchMetricsName\<close>: the 24 names, in the order of the array literal.\<close>

definition getCloudWatchMetricsName :: "string list" where
  "getCloudWatchMetricsName =
     [''CPUUtilization'',
      ''DBLoad'',
      ''DBLoadCPU'',
      ''DBLoadNonCPU'',
      ''DatabaseConnections'',
      ''FreeStorageSpace'',
      ''FreeableMemory'',
      ''MaximumUsedTransactionIDs'',
      ''ReadIOPS'',
      ''ReadThroughput'',
      ''ReplicaLag'',
      ''ReplicationSlotDiskUsage'',
      ''SwapUsage'',
      ''TransactionLogsDiskUsage'',
      ''WriteIOPS'',
      ''WriteThroughput'',
      ''BufferCacheHitRatio'',
      ''Deadlocks'',
      ''Queries'',
      ''EngineUptime'',
      ''SumBinaryLogSize'',
      ''NumBinaryLogFiles'',
      ''AuroraBinlogReplicaLag'',
      ''BinLogDiskUsage'']"

text \<open>
  Reading a field of the sample by the name of the CloudWatch metric. The code has no
  such function; it is the vocabulary in which the frame property of \<open>Update\<close> and the
  emission of samples are stated. Names outside the 24 have no field.
\<close>

definition metric_field :: "string \<Rightarrow> RdsMetrics \<Rightarrow> float64 option" where
  "metric_field f m =
     (if f = ''CPUUtilization'' then CPUUtilization m
           else if f = ''DBLoad'' then DBLoad m
           else if f = ''DBLoadCPU'' then DBLoadCPU m
           else if f = ''DBLoadNonCPU'' then DBLoadNonCPU m
           else if f = ''DatabaseConnections'' then DatabaseConnections m
           else if f = ''FreeStorageSpace'' then FreeStorageSpace m
           else if f = ''FreeableMemory'' then FreeableMemory m
           else if f = ''MaximumUsedTransactionIDs'' then MaximumUsedTransactionIDs m
           else if f = ''ReadIOPS'' then ReadIOPS m
           else if f = ''ReadThroughput'' then ReadThroughput m
           else if f = ''ReplicaLag'' then ReplicaLag m
           else if f = ''ReplicationSlotDiskUsage'' then ReplicationSlotDiskUsage m
           else if f = ''SwapUsage'' then SwapUsage m
           else if f = ''TransactionLogsDiskUsage'' then TransactionLogsDiskUsage m
           else if f = ''WriteIOPS'' then WriteIOPS m
           else if f = ''WriteThroughput'' then WriteThroughput m
           else if f = ''BufferCacheHitRatio'' then BufferCacheHitRatio m
           else if f = ''Deadlocks'' then Deadlocks m
           else if f = ''Queries'' then Queries m
           else if f = ''EngineUptime'' then EngineUptime m
           else if f = ''SumBinaryLogSize'' then SumBinaryLogSize m
           else if f = ''NumBinaryLogFiles'' then NumBinaryLogFiles m
           else if f = ''AuroraBinlogReplicaLag'' then AuroraBinlogReplicaLag m
           else if f = ''BinLogDiskUsage'' then BinLogDiskUsage m
      else None)"

section \<open>Package cloudwatch: building the queries\<close>

text \<open>
  \<^verbatim>\<open>strings.ToLower\<close> on the bytes of a string: the upper-case ASCII letters
  move to lower case, every other byte stays. This is what Go does on ASCII text, and
  the only argument the code passes is one of the 24 ASCII metric names.
\<close>

definition ToLower_char :: "char \<Rightarrow> char" where
  "ToLower_char c =
     (if (65::nat) \<le> of_char c \<and> of_char c \<le> (90::nat)
      then char_of (of_char c + (32::nat)) else c)"

definition ToLower :: "string \<Rightarrow> string" where
  "ToLower s = map ToLower_char s"

text \<open>
  The verb \<^verbatim>\<open>%d\<close> of \<^verbatim>\<open>fmt.Sprintf\<close> on a slice index (never negative):
  the decimal digits, most significant first, no leading zero.
\<close>

definition digit_char :: "nat \<Rightarrow> char" where
  "digit_char d = char_of (48 + d)"

function Sprintf_d :: "nat \<Rightarrow> string" where
  "Sprintf_d n = (if n < 10 then [digit_char n] else Sprintf_d (n div 10) @ [digit_char (n mod 10)])"
  by pat_completeness auto
termination
  by (relation "measure id") auto

declare Sprintf_d.simps [simp del]

text \<open>
  The query id of metric \<open>metricName\<close> for the instance at index \<open>i\<close>:
  \<^verbatim>\<open>fmt.Sprintf("%s_%d", strings.ToLower(metricName), i)\<close>.
\<close>

definition query_id :: "string \<Rightarrow> nat \<Rightarrow> string" where
  "query_id metricName i = ToLower metricName @ ''_'' @ Sprintf_d i"

text \<open>
  The SDK's \<^verbatim>\<open>MetricDataQuery\<close>, with the nested \<^verbatim>\<open>MetricStat\<close> and
  \<^verbatim>\<open>Metric\<close> flattened, and the repository's \<^verbatim>\<open>CloudWatchMetricRequest\<close>.
  \<open>Minute\<close> is the constant 60 of the package.
\<close>

record MetricDataQuery =
  Query_Id :: string
  Namespace :: string
  Stat_MetricName :: string
  Dimensions :: "(string \<times> string) list"
  Stat :: string
  Period :: int

record CloudWatchMetricRequest =
  Dbidentifier :: string
  MetricName :: string
  Query :: MetricDataQuery

definition MaxQueriesPerCloudwatchRequest :: nat where
  "MaxQueriesPerCloudwatchRequest = 500"

definition Minute :: int where
  "Minute = 60"

definition generateCloudWatchQueryForInstance ::
    "string \<Rightarrow> string \<Rightarrow> string \<Rightarrow> CloudWatchMetricRequest" where
  "generateCloudWatchQueryForInstance queryID metricName dbIdentifier =
     \<lparr> Dbidentifier = dbIdentifier,
       MetricName = metricName,
       Query = \<lparr> Query_Id = queryID,
                 Namespace = ''AWS/RDS'',
                 Stat_MetricName = metricName,
                 Dimensions = [(''DBInstanceIdentifier'', dbIdentifier)],
                 Stat = ''Average'',
                 Period = Minute \<rparr> \<rparr>"

text \<open>
  \<^verbatim>\<open>generateCloudWatchQueriesForInstances\<close>: the Go map from query id to request
  is a partial function. The inner loop runs over the metric names for the instance at
  index \<open>i\<close>, the outer loop over the identifiers with their index.
\<close>

type_synonym requests = "string \<rightharpoonup> CloudWatchMetricRequest"

fun queries_of_instance :: "nat \<Rightarrow> string \<Rightarrow> string list \<Rightarrow> requests \<Rightarrow> requests" where
  "queries_of_instance i dbIdentifier [] queries = queries"
| "queries_of_instance i dbIdentifier (metricName # rest) queries =
     queries_of_instance i dbIdentifier rest
       (queries(query_id metricName i \<mapsto>
          generateCloudWatchQueryForInstance (query_id metricName i) metricName dbIdentifier))"

fun queries_of_instances :: "nat \<Rightarrow> string list \<Rightarrow> requests \<Rightarrow> requests" where
  "queries_of_instances i [] queries = queries"
| "queries_of_instances i (dbIdentifier # rest) queries =
     queries_of_instances (Suc i) rest
       (queries_of_instance i dbIdentifier getCloudWatchMetricsName queries)"

definition generateCloudWatchQueriesForInstances :: "string list \<Rightarrow> requests" where
  "generateCloudWatchQueriesForInstances dbIdentifiers =
     queries_of_instances 0 dbIdentifiers Map.empty"

section \<open>Package cloudwatch: the fetcher\<close>

text \<open>
  One entry of \<^verbatim>\<open>GetMetricDataOutput.MetricDataResults\<close>. \<open>Values = None\<close> is
  the nil slice, \<open>Some []\<close> an empty series. The SDK types \<open>Id\<close> and \<open>Label\<close> as
  string pointers; CloudWatch fills both in every result, and the model takes them as
  strings.
\<close>

record MetricDataResult =
  Result_Id :: string
  Label :: string
  Values :: "float64 list option"

text \<open>
  The request handed to the client. Instants are integers (nanoseconds);
  \<open>three_minutes\<close> is \<^verbatim>\<open>3 * time.Minute\<close>.
\<close>

record GetMetricDataInput =
  StartTime :: int
  EndTime :: int
  ScanBy :: string
  MetricDataQueries :: "MetricDataQuery list"

definition three_minutes :: int where
  "three_minutes = 3 * 60 * 1000000000"

text \<open>
  The fetcher. \<open>client\<close> answers a request with an error or with the list of results;
  the requests one call of \<^verbatim>\<open>GetRDSInstanceMetrics\<close> sends differ pairwise (their
  query ids do), so a function of the request can give every call an answer of its own.
  \<open>CloudWatchAPICall\<close> is the statistic the collector reads back. \<open>sent\<close> is not a
  field of the Go struct: it records, in order, every request that reached
  \<^verbatim>\<open>client.GetMetricData\<close>, so that the traffic can be talked about.
\<close>

record RdsFetcher =
  client :: "GetMetricDataInput \<Rightarrow> error + MetricDataResult list"
  CloudWatchAPICall :: float64
  sent :: "GetMetricDataInput list"

definition NewRDSFetcher :: "(GetMetricDataInput \<Rightarrow> error + MetricDataResult list) \<Rightarrow> RdsFetcher" where
  "NewRDSFetcher cl = \<lparr> client = cl, CloudWatchAPICall = 0, sent = [] \<rparr>"

text \<open>
  Indexing a Go map with a key it does not hold gives the zero value of the element
  type: here a request with empty identifier and empty metric name.
\<close>

definition zero_CloudWatchMetricRequest :: CloudWatchMetricRequest where
  "zero_CloudWatchMetricRequest =
     \<lparr> Dbidentifier = [], MetricName = [],
       Query = \<lparr> Query_Id = [], Namespace = [], Stat_MetricName = [],
                 Dimensions = [], Stat = [], Period = 0 \<rparr> \<rparr>"

definition lookup_request :: "requests \<Rightarrow> string \<Rightarrow> CloudWatchMetricRequest" where
  "lookup_request reqs key =
     (case reqs key of None \<Rightarrow> zero_CloudWatchMetricRequest | Some r \<Rightarrow> r)"

type_synonym instance_metrics = "string \<rightharpoonup> RdsMetrics"

text \<open>
  The loop over \<^verbatim>\<open>resp.MetricDataResults\<close> in
  \<^verbatim>\<open>updateMetricsWithCloudWatchQueriesResult\<close>. A result with nil values is
  skipped. Otherwise the request is looked up by the result's id, the instance's entry
  is created when missing, and the first value, when there is one, goes through
  \<open>Update\<close>; an error of \<open>Update\<close> ends the loop.
\<close>

fun process_results ::
    "requests \<Rightarrow> MetricDataResult list \<Rightarrow> instance_metrics \<Rightarrow> instance_metrics \<times> error option" where
  "process_results reqs [] metrics = (metrics, None)"
| "process_results reqs (m # ms) metrics =
     (case Values m of
        None \<Rightarrow> process_results reqs ms metrics
      | Some vals \<Rightarrow>
          (let val = lookup_request reqs (Result_Id m);
               cur = (case metrics (Dbidentifier val) of
                        None \<Rightarrow> empty_RdsMetrics | Some x \<Rightarrow> x);
               metrics1 = metrics(Dbidentifier val \<mapsto> cur)
           in (case vals of
                 [] \<Rightarrow> process_results reqs ms metrics1
               | v # _ \<Rightarrow>
                   (case Update (MetricName val) v cur of
                      (cur', Some err) \<Rightarrow>
                        (metrics1(Dbidentifier val \<mapsto> cur'),
                         Some (Errorf (''failed to process metrics '' @ MetricName val) err))
                    | (cur', None) \<Rightarrow>
                        process_results reqs ms (metrics1(Dbidentifier val \<mapsto> cur'))))))"

text \<open>
  \<^verbatim>\<open>updateMetricsWithCloudWatchQueriesResult\<close>: one request with the queries of
  the chunk (\<open>GetMetricDataInput_of\<close> is the value of \<^verbatim>\<open>params\<close> once the first
  loop has appended the query of every key), then the loop over the results. It returns the metrics map, the error, and
  the fetcher (whose \<open>sent\<close> has grown by the request).
\<close>

definition GetMetricDataInput_of :: "requests \<Rightarrow> int \<Rightarrow> int \<Rightarrow> string list \<Rightarrow> GetMetricDataInput" where
  "GetMetricDataInput_of reqs startTime endTime chunk =
     \<lparr> StartTime = startTime, EndTime = endTime,
       ScanBy = ''TimestampDescending'',
       MetricDataQueries = map (\<lambda>key. Query (lookup_request reqs key)) chunk \<rparr>"

definition updateMetricsWithCloudWatchQueriesResult ::
    "RdsFetcher \<Rightarrow> instance_metrics \<Rightarrow> requests \<Rightarrow> int \<Rightarrow> int \<Rightarrow> string list
      \<Rightarrow> (instance_metrics \<times> error option) \<times> RdsFetcher" where
  "updateMetricsWithCloudWatchQueriesResult c metrics reqs startTime endTime chunk =
     (let params = GetMetricDataInput_of reqs startTime endTime chunk;
          c1 = c\<lparr>sent := sent c @ [params]\<rparr>
      in (case client c params of
            Inl err \<Rightarrow> ((metrics, Some (Errorf ''error calling GetMetricData'' err)), c1)
          | Inr resp \<Rightarrow> (process_results reqs resp metrics, c1)))"

text \<open>
  The variables of the loop \<^verbatim>\<open>for query := range cloudWatchQueries\<close> of
  \<^verbatim>\<open>GetRDSInstanceMetrics\<close>. \<open>cloudWatchAPICalls\<close> is the local variable of that
  name.
\<close>

record loop_vars =
  fetcher :: RdsFetcher
  metrics_map :: instance_metrics
  chunk :: "string list"
  cloudWatchAPICalls :: float64

text \<open>
  Go visits the keys of a map in an order it does not specify; the loop takes the order
  of this visit as the list \<open>keys\<close>. It returns the variables when it stops, with the
  error that made it return early, if any.
\<close>

fun range_cloudWatchQueries ::
    "requests \<Rightarrow> int \<Rightarrow> int \<Rightarrow> string list \<Rightarrow> loop_vars \<Rightarrow> loop_vars \<times> error option" where
  "range_cloudWatchQueries reqs startTime endTime [] st = (st, None)"
| "range_cloudWatchQueries reqs startTime endTime (query # keys) st =
     (let chunk1 = chunk st @ [query] in
      if length chunk1 = MaxQueriesPerCloudwatchRequest then
        (case updateMetricsWithCloudWatchQueriesResult
                (fetcher st) (metrics_map st) reqs startTime endTime chunk1 of
           ((metrics1, Some err), c1) \<Rightarrow>
             (st\<lparr>fetcher := c1, metrics_map := metrics1, chunk := chunk1\<rparr>,
              Some (Errorf ''can't fetch Cloudwatch metrics'' err))
         | ((metrics1, None), c1) \<Rightarrow>
             range_cloudWatchQueries reqs startTime endTime keys
               (st\<lparr>fetcher := c1, metrics_map := metrics1, chunk := [],
                   cloudWatchAPICalls := cloudWatchAPICalls st + 1\<rparr>))
      else range_cloudWatchQueries reqs startTime endTime keys (st\<lparr>chunk := chunk1\<rparr>))"

text \<open>
  A visit order of a Go map: every key once.
\<close>

definition range_order :: "('k \<rightharpoonup> 'v) \<Rightarrow> 'k list \<Rightarrow> bool" where
  "range_order m keys = (distinct keys \<and> set keys = dom m)"

record CloudWatchMetrics =
  Instances :: instance_metrics

definition zero_CloudWatchMetrics :: CloudWatchMetrics where
  "zero_CloudWatchMetrics = \<lparr> Instances = Map.empty \<rparr>"

text \<open>
  \<^verbatim>\<open>GetRDSInstanceMetrics\<close>. \<open>now1\<close> and \<open>now2\<close> are the two readings of
  \<^verbatim>\<open>time.Now()\<close>, \<open>keys\<close> the order in which the range loop visits the queries.
  The result is the pair the Go function returns and the fetcher after the call. On an
  error the Go code returns the zero \<^verbatim>\<open>CloudWatchMetrics{}\<close>. The statistic
  \<open>CloudWatchAPICall\<close> moves only in the branch of the last batch.
\<close>

definition GetRDSInstanceMetrics ::
    "int \<Rightarrow> int \<Rightarrow> string list \<Rightarrow> RdsFetcher \<Rightarrow> string list
      \<Rightarrow> (CloudWatchMetrics \<times> error option) \<times> RdsFetcher" where
  "GetRDSInstanceMetrics now1 now2 keys c dbIdentifiers =
     (let cloudWatchQueries = generateCloudWatchQueriesForInstances dbIdentifiers;
          startTime = now1 - three_minutes;
          endTime = now2;
          st0 = \<lparr> fetcher = c, metrics_map = Map.empty, chunk = [], cloudWatchAPICalls = 0 \<rparr>
      in (case range_cloudWatchQueries cloudWatchQueries startTime endTime keys st0 of
            (st, Some err) \<Rightarrow> ((zero_CloudWatchMetrics, Some err), fetcher st)
          | (st, None) \<Rightarrow>
              if length (chunk st) > 0 then
                (case updateMetricsWithCloudWatchQueriesResult
                        (fetcher st) (metrics_map st) cloudWatchQueries startTime endTime (chunk st) of
                   ((metrics1, Some err), c1) \<Rightarrow>
                     ((zero_CloudWatchMetrics,
                       Some (Errorf ''can't fetch Cloudwatch metrics'' err)), c1)
                 | ((metrics1, None), c1) \<Rightarrow>
                     ((\<lparr> Instances = metrics1 \<rparr>, None),
                      c1\<lparr>CloudWatchAPICall := CloudWatchAPICall c1 + 1\<rparr>))
              else ((\<lparr> Instances = metrics_map st \<rparr>, None), fetcher st)))"

section \<open>Package exporter: descriptors and samples\<close>

text \<open>
  A Prometheus descriptor as the collector builds it with \<^verbatim>\<open>prometheus.NewDesc\<close>:
  the metric name, the text shown with it and the names of the variable labels (the
  constant labels are nil throughout). A sample made by
  \<^verbatim>\<open>prometheus.MustNewConstMetric\<close> carries its descriptor, the kind of value, the
  value and one label value per variable label.
\<close>

datatype ValueType = GaugeValue | CounterValue

record Desc =
  fqName :: string
  help_string :: string
  variableLabels :: "string list"

definition NewDesc :: "string \<Rightarrow> string \<Rightarrow> string list \<Rightarrow> Desc" where
  "NewDesc name text_of_help labels =
     \<lparr> fqName = name, help_string = text_of_help, variableLabels = labels \<rparr>"

record Metric =
  metric_desc :: Desc
  valueType :: ValueType
  metric_value :: float64
  labelValues :: "string list"

definition MustNewConstMetric :: "Desc \<Rightarrow> ValueType \<Rightarrow> float64 \<Rightarrow> string list \<Rightarrow> Metric" where
  "MustNewConstMetric d vt v lvs =
     \<lparr> metric_desc = d, valueType = vt, metric_value = v, labelValues = lvs \<rparr>"

definition exporterUpStatusCode :: float64 where
  "exporterUpStatusCode = 1"

definition exporterDownStatusCode :: float64 where
  "exporterDownStatusCode = 0"

text \<open>The descriptors of \<^verbatim>\<open>NewCollector\<close>, one per field of the collector.\<close>

definition desc_exporterBuildInformation :: Desc where
  "desc_exporterBuildInformation = NewDesc ''rds_exporter_build_info''
     ''A metric with constant '1' value labeled by version from which exporter was built''
     [''version'', ''commit_sha'', ''build_date'', ''aws_region'']"

definition desc_errors :: Desc where
  "desc_errors = NewDesc ''rds_exporter_errors_total''
     ''Total number of errors encountered by the exporter''
     [''aws_region'']"

definition desc_allocatedStorage :: Desc where
  "desc_allocatedStorage = NewDesc ''rds_allocated_storage_bytes''
     ''Allocated storage''
     [''aws_account_id'', ''aws_region'', ''dbidentifier'']"

definition desc_information :: Desc where
  "desc_information = NewDesc ''rds_instance_info''
     ''RDS instance information''
     [''aws_account_id'', ''aws_region'', ''dbidentifier'', ''dbi_resource_id'', ''instance_class'', ''engine'', ''engine_version'', ''storage_type'', ''multi_az'', ''deletion_protection'', ''role'', ''source_dbidentifier'', ''pending_modified_values'', ''pending_maintenance'', ''performance_insights_enabled'', ''ca_certificate_identifier'', ''arn'']"

definition desc_age :: Desc where
  "desc_age = NewDesc ''rds_instance_age_seconds''
     ''Time since instance creation''
     [''aws_account_id'', ''aws_region'', ''dbidentifier'']"

definition desc_maxAllocatedStorage :: Desc where
  "desc_maxAllocatedStorage = NewDesc ''rds_max_allocated_storage_bytes''
     ''Upper limit in gibibytes to which Amazon RDS can automatically scale the storage of the DB instance''
     [''aws_account_id'', ''aws_region'', ''dbidentifier'']"

definition desc_maxIops :: Desc where
  "desc_maxIops = NewDesc ''rds_max_disk_iops_average''
     ''Max IOPS for the instance''
     [''aws_account_id'', ''aws_region'', ''dbidentifier'']"

definition desc_storageThroughput :: Desc where
  "desc_storageThroughput = NewDesc ''rds_max_storage_throughput_bytes''
     ''Max storage throughput''
     [''aws_account_id'', ''aws_region'', ''dbidentifier'']"

definition desc_readThroughput :: Desc where
  "desc_readThroughput = NewDesc ''rds_read_throughput_bytes''
     ''Average number of bytes read from disk per second''
     [''aws_account_id'', ''aws_region'', ''dbidentifier'']"

definition desc_writeThroughput :: Desc where
  "desc_writeThroughput = NewDesc ''rds_write_throughput_bytes''
     ''Average number of bytes written to disk per second''
     [''aws_account_id'', ''aws_region'', ''dbidentifier'']"

definition desc_status :: Desc where
  "desc_status = NewDesc ''rds_instance_status''
     ''Instance status (1: ok, 0: can't scrap metrics)''
     [''aws_account_id'', ''aws_region'', ''dbidentifier'']"

definition desc_logFilesSize :: Desc where
  "desc_logFilesSize = NewDesc ''rds_instance_log_files_size_bytes''
     ''Total of log files on the instance''
     [''aws_account_id'', ''aws_region'', ''dbidentifier'']"

definition desc_instanceVCPU :: Desc where
  "desc_instanceVCPU = NewDesc ''rds_instance_vcpu_average''
     ''Total vCPU for this instance class''
     [''aws_account_id'', ''aws_region'', ''instance_class'']"

definition desc_instanceMemory :: Desc where
  "desc_instanceMemory = NewDesc ''rds_instance_memory_bytes''
     ''Instance class memory''
     [''aws_account_id'', ''aws_region'', ''instance_class'']"

definition desc_instanceTags :: Desc where
  "desc_instanceTags = NewDesc ''rds_instance_tags''
     ''AWS tags attached to the instance''
     [''aws_account_id'', ''aws_region'', ''dbidentifier'']"

definition desc_cpuUtilisation :: Desc where
  "desc_cpuUtilisation = NewDesc ''rds_cpu_usage_percent_average''
     ''Instance CPU used''
     [''aws_account_id'', ''aws_region'', ''dbidentifier'']"

definition desc_instanceMaximumThroughput :: Desc where
  "desc_instanceMaximumThroughput = NewDesc ''rds_instance_max_throughput_bytes''
     ''Maximum throughput of underlying EC2 instance class''
     [''aws_account_id'', ''aws_region'', ''instance_class'']"

definition desc_instanceMaximumIops :: Desc where
  "desc_instanceMaximumIops = NewDesc ''rds_instance_max_iops_average''
     ''Maximum IOPS of underlying EC2 instance class''
     [''aws_account_id'', ''aws_region'', ''instance_class'']"

definition desc_freeStorageSpace :: Desc where
  "desc_freeStorageSpace = NewDesc ''rds_free_storage_bytes''
     ''Free storage on the instance''
     [''aws_account_id'', ''aws_region'', ''dbidentifier'']"

definition desc_databaseConnections :: Desc where
  "desc_databaseConnections = NewDesc ''rds_database_connections_average''
     ''The number of client network connections to the database instance''
     [''aws_account_id'', ''aws_region'', ''dbidentifier'']"

definition desc_up :: Desc where
  "desc_up = NewDesc ''up''
     ''Was the last scrape of RDS successful''
     [''aws_region'']"

definition desc_swapUsage :: Desc where
  "desc_swapUsage = NewDesc ''rds_swap_usage_bytes''
     ''Amount of swap space used on the DB instance. This metric is not available for SQL Server''
     [''aws_account_id'', ''aws_region'', ''dbidentifier'']"

definition desc_writeIOPS :: Desc where
  "desc_writeIOPS = NewDesc ''rds_write_iops_average''
     ''Average number of disk write I/O operations per second''
     [''aws_account_id'', ''aws_region'', ''dbidentifier'']"

definition desc_readIOPS :: Desc where
  "desc_readIOPS = NewDesc ''rds_read_iops_average''
     ''Average number of disk read I/O operations per second''
     [''aws_account_id'', ''aws_region'', ''dbidentifier'']"

definition desc_replicaLag :: Desc where
  "desc_replicaLag = NewDesc ''rds_replica_lag_seconds''
     ''For read replica configurations, the amount of time a read replica DB instance lags behind the source DB instance. Applies to MariaDB, Microsoft SQL Server, MySQL, Oracle, and PostgreSQL read replicas''
     [''aws_account_id'', ''aws_region'', ''dbidentifier'']"

definition desc_replicationSlotDiskUsage :: Desc where
  "desc_replicationSlotDiskUsage = NewDesc ''rds_replication_slot_disk_usage_bytes''
     ''Disk space used by replication slot files. Applies to PostgreSQL''
     [''aws_account_id'', ''aws_region'', ''dbidentifier'']"

definition desc_maximumUsedTransactionIDs :: Desc where
  "desc_maximumUsedTransactionIDs = NewDesc ''rds_maximum_used_transaction_ids_average''
     ''Maximum transaction IDs that have been used. Applies to only PostgreSQL''
     [''aws_account_id'', ''aws_region'', ''dbidentifier'']"

definition desc_freeableMemory :: Desc where
  "desc_freeableMemory = NewDesc ''rds_freeable_memory_bytes''
     ''Amount of available random access memory. For MariaDB, MySQL, Oracle, and PostgreSQL DB instances, this metric reports the value of the MemAvailable field of /proc/meminfo''
     [''aws_account_id'', ''aws_region'', ''dbidentifier'']"

definition desc_apiCall :: Desc where
  "desc_apiCall = NewDesc ''rds_api_call_total''
     ''Number of call to AWS API''
     [''aws_account_id'', ''aws_region'', ''api'']"

definition desc_backupRetentionPeriod :: Desc where
  "desc_backupRetentionPeriod = NewDesc ''rds_backup_retention_period_seconds''
     ''Automatic DB snapshots retention period''
     [''aws_account_id'', ''aws_region'', ''dbidentifier'']"

definition desc_DBLoad :: Desc where
  "desc_DBLoad = NewDesc ''rds_dbload_average''
     ''Number of active sessions for the DB engine''
     [''aws_account_id'', ''aws_region'', ''dbidentifier'']"

definition desc_dBLoadCPU :: Desc where
  "desc_dBLoadCPU = NewDesc ''rds_dbload_cpu_average''
     ''Number of active sessions where the wait event type is CPU''
     [''aws_account_id'', ''aws_region'', ''dbidentifier'']"

definition desc_dBLoadNonCPU :: Desc where
  "desc_dBLoadNonCPU = NewDesc ''rds_dbload_noncpu_average''
     ''Number of active sessions where the wait event type is not CPU''
     [''aws_account_id'', ''aws_region'', ''dbidentifier'']"

definition desc_transactionLogsDiskUsage :: Desc where
  "desc_transactionLogsDiskUsage = NewDesc ''rds_transaction_logs_disk_usage_bytes''
     ''Disk space used by transaction logs (only on PostgreSQL)''
     [''aws_account_id'', ''aws_region'', ''dbidentifier'']"

definition desc_certificateValidTill :: Desc where
  "desc_certificateValidTill = NewDesc ''rds_certificate_expiry_timestamp_seconds''
     ''Timestamp of the expiration of the Instance certificate''
     [''aws_account_id'', ''aws_region'', ''dbidentifier'']"

definition desc_quotaDBInstances :: Desc where
  "desc_quotaDBInstances = NewDesc ''rds_quota_max_dbinstances_average''
     ''Maximum number of RDS instances allowed in the AWS account''
     [''aws_account_id'', ''aws_region'']"

definition desc_quotaTotalStorage :: Desc where
  "desc_quotaTotalStorage = NewDesc ''rds_quota_total_storage_bytes''
     ''Maximum total storage for all DB instances''
     [''aws_account_id'', ''aws_region'']"

definition desc_quotaMaxDBInstanceSnapshots :: Desc where
  "desc_quotaMaxDBInstanceSnapshots = NewDesc ''rds_quota_maximum_db_instance_snapshots_average''
     ''Maximum number of manual DB instance snapshots''
     [''aws_account_id'', ''aws_region'']"

definition desc_usageAllocatedStorage :: Desc where
  "desc_usageAllocatedStorage = NewDesc ''rds_usage_allocated_storage_bytes''
     ''Total storage used by AWS RDS instances''
     [''aws_account_id'', ''aws_region'']"

definition desc_usageDBInstances :: Desc where
  "desc_usageDBInstances = NewDesc ''rds_usage_db_instances_average''
     ''AWS RDS instance count''
     [''aws_account_id'', ''aws_region'']"

definition desc_usageManualSnapshots :: Desc where
  "desc_usageManualSnapshots = NewDesc ''rds_usage_manual_snapshots_average''
     ''Manual snapshots count''
     [''aws_account_id'', ''aws_region'']"

definition desc_BufferCacheHitRatio :: Desc where
  "desc_BufferCacheHitRatio = NewDesc ''rds_buffer_cache_hit_ratio''
     ''The percentage of requests that are served by the buffer cache''
     [''aws_account_id'', ''aws_region'', ''dbidentifier'']"

definition desc_Deadlocks :: Desc where
  "desc_Deadlocks = NewDesc ''rds_deadlocks''
     ''The number of deadlocks in the database''
     [''aws_account_id'', ''aws_region'', ''dbidentifier'']"

definition desc_Queries :: Desc where
  "desc_Queries = NewDesc ''rds_queries''
     ''The average number of queries executed per second''
     [''aws_account_id'', ''aws_region'', ''dbidentifier'']"

definition desc_EngineUptime :: Desc where
  "desc_EngineUptime = NewDesc ''rds_engine_uptime_seconds''
     ''The amount of time that the RDS instance has been running''
     [''aws_account_id'', ''aws_region'', ''dbidentifier'']"

definition desc_SumBinaryLogSize :: Desc where
  "desc_SumBinaryLogSize = NewDesc ''rds_sum_binary_log_size_bytes''
     ''The total size of all binary logs on the master''
     [''aws_account_id'', ''aws_region'', ''dbidentifier'']"

definition desc_NumBinaryLogFiles :: Desc where
  "desc_NumBinaryLogFiles = NewDesc ''rds_num_binary_log_files''
     ''The number of binary log files on the master''
     [''aws_account_id'', ''aws_region'', ''dbidentifier'']"

definition desc_AuroraBinlogReplicaLag :: Desc where
  "desc_AuroraBinlogReplicaLag = NewDesc ''rds_aurora_binlog_replica_lag_seconds''
     ''The amount of time a replica Aurora DB cluster lags behind the source DB cluster''
     [''aws_account_id'', ''aws_region'', ''dbidentifier'']"

definition desc_BinLogDiskUsage :: Desc where
  "desc_BinLogDiskUsage = NewDesc ''rds_binlog_disk_usage_bytes''
     ''binary log disk usage''
     [''aws_account_id'', ''aws_region'', ''dbidentifier'']"

section \<open>Package exporter: the collector and what it fetches\<close>

record Configuration =
  CollectInstanceMetrics :: bool
  CollectInstanceTags :: bool
  CollectInstanceTypes :: bool
  CollectLogsSize :: bool
  CollectMaintenances :: bool
  CollectQuotas :: bool
  CollectUsages :: bool

record Counters =
  CloudwatchAPICalls :: float64
  EC2APIcalls :: float64
  Errors :: float64
  RDSAPIcalls :: float64
  ServiceQuotasAPICalls :: float64
  UsageAPIcalls :: float64

text \<open>
  The result types of the packages rds, ec2 and servicequotas and of the usage fetcher
  are declared outside the files at hand; they are given here with the fields that
  \<^verbatim>\<open>Collect\<close> reads, under the names it reads them by. A pointer field is an
  option, an instant is its Unix time in seconds. A Go map that the collector only
  ranges over is the list of its entries in the order of the visit (\<open>Tags\<close>, and the
  instances of the rds and ec2 results).
\<close>

record RdsInstanceMetrics =
  Arn :: string
  AllocatedStorage :: int
  BackupRetentionPeriod :: int
  CACertificateIdentifier :: string
  CertificateValidTill :: "int option"
  DBInstanceClass :: string
  DbiResourceID :: string
  DeletionProtection :: bool
  Engine :: string
  EngineVersion :: string
  LogFilesSize :: "int option"
  MaxAllocatedStorage :: int
  MaxIops :: int
  MultiAZ :: bool
  PendingMaintenanceAction :: string
  PendingModifiedValues :: bool
  PerformanceInsightsEnabled :: bool
  Role :: string
  SourceDBInstanceIdentifier :: string
  Status :: int
  StorageThroughput :: int
  StorageType :: string
  Age :: "float64 option"
  Tags :: "(string \<times> string) list"

record rds_Metrics =
  rds_Instances :: "(string \<times> RdsInstanceMetrics) list"

record EC2InstanceMetrics =
  MaximumIops :: int
  MaximumThroughput :: float64
  Memory :: int
  Vcpu :: int

record ec2_Metrics =
  ec2_Instances :: "(string \<times> EC2InstanceMetrics) list"

record servicequotas_Metrics =
  DBinstances :: float64
  TotalStorage :: float64
  ManualDBInstanceSnapshots :: float64

record UsageMetrics =
  usage_AllocatedStorage :: float64
  usage_DBInstances :: float64
  usage_ManualSnapshots :: float64

record collector_metrics =
  ServiceQuota :: servicequotas_Metrics
  RDS :: rds_Metrics
  EC2 :: ec2_Metrics
  CloudwatchInstances :: CloudWatchMetrics
  CloudWatchUsage :: UsageMetrics

text \<open>
  The collector: the state that lives from scrape to scrape. Of the descriptors only
  \<open>instanceTags\<close> is a field here, because \<^verbatim>\<open>Collect\<close> assigns to it; the others
  never change after \<^verbatim>\<open>NewCollector\<close> and are the constants above.
\<close>

record RdsCollector =
  counters :: Counters
  metrics :: collector_metrics
  awsAccountID :: string
  awsRegion :: string
  configuration :: Configuration
  instanceTags :: Desc

definition NewCollector :: "Configuration \<Rightarrow> string \<Rightarrow> string \<Rightarrow> RdsCollector" where
  "NewCollector collectorConfiguration accountID region =
     \<lparr> counters = \<lparr> CloudwatchAPICalls = 0, EC2APIcalls = 0, Errors = 0, RDSAPIcalls = 0,
                     ServiceQuotasAPICalls = 0, UsageAPIcalls = 0 \<rparr>,
       metrics = \<lparr> ServiceQuota = \<lparr> DBinstances = 0, TotalStorage = 0,
                                      ManualDBInstanceSnapshots = 0 \<rparr>,
                   RDS = \<lparr> rds_Instances = [] \<rparr>,
                   EC2 = \<lparr> ec2_Instances = [] \<rparr>,
                   CloudwatchInstances = zero_CloudWatchMetrics,
                   CloudWatchUsage = \<lparr> usage_AllocatedStorage = 0, usage_DBInstances = 0,
                                         usage_ManualSnapshots = 0 \<rparr> \<rparr>,
       awsAccountID = accountID,
       awsRegion = region,
       configuration = collectorConfiguration,
       instanceTags = desc_instanceTags \<rparr>"

text \<open>
  Everything one scrape takes from outside the collector. The fetchers of the packages
  rds, ec2 and servicequotas and the usage fetcher are not among the files at hand: each
  is the value its call returns (result and error) with the API-call statistic the
  collector reads back from it. The inventory fetcher is given the two flags of its
  configuration, the instance-type fetcher the instance classes. \<open>GetMetricData\<close> is the
  CloudWatch client handed to the time-series fetcher, \<open>now1\<close> and \<open>now2\<close> its two clock
  readings. \<open>range_queries\<close>, \<open>range_labels\<close> (per instance identifier) and
  \<open>range_CloudwatchInstances\<close> are the orders in which the Go runtime visits the keys of
  the three maps that the code builds and then ranges over. The last three fields are
  the variables of the package build.
\<close>

record world =
  GetInstancesMetrics :: "bool \<Rightarrow> bool \<Rightarrow> (rds_Metrics \<times> error option) \<times> float64"
  GetRDSQuotas :: "(servicequotas_Metrics \<times> error option) \<times> float64"
  GetUsageMetrics :: "(UsageMetrics \<times> error option) \<times> float64"
  GetDBInstanceTypeInformation :: "string list \<Rightarrow> (ec2_Metrics \<times> error option) \<times> float64"
  GetMetricData :: "GetMetricDataInput \<Rightarrow> error + MetricDataResult list"
  now1 :: int
  now2 :: int
  range_queries :: "string list"
  range_labels :: "string \<Rightarrow> string list"
  range_CloudwatchInstances :: "string list"
  build_Version :: string
  build_CommitSHA :: string
  build_Date :: string

definition Describe :: "RdsCollector \<Rightarrow> Desc list" where
  "Describe c =
     [desc_DBLoad,
      desc_age,
      desc_allocatedStorage,
      desc_apiCall,
      desc_apiCall,
      desc_backupRetentionPeriod,
      desc_certificateValidTill,
      desc_cpuUtilisation,
      desc_dBLoadCPU,
      desc_dBLoadNonCPU,
      desc_databaseConnections,
      desc_errors,
      desc_exporterBuildInformation,
      desc_freeStorageSpace,
      desc_freeableMemory,
      desc_information,
      desc_instanceMaximumIops,
      desc_instanceMaximumThroughput,
      desc_instanceMemory,
      desc_instanceVCPU,
      desc_logFilesSize,
      desc_maxAllocatedStorage,
      desc_maxIops,
      desc_maximumUsedTransactionIDs,
      desc_quotaDBInstances,
      desc_quotaMaxDBInstanceSnapshots,
      desc_quotaTotalStorage,
      desc_readIOPS,
      desc_readThroughput,
      desc_replicaLag,
      desc_replicationSlotDiskUsage,
      desc_status,
      desc_storageThroughput,
      desc_swapUsage,
      desc_transactionLogsDiskUsage,
      desc_up,
      desc_usageAllocatedStorage,
      desc_usageDBInstances,
      desc_usageManualSnapshots,
      desc_writeIOPS,
      desc_writeThroughput,
      desc_BufferCacheHitRatio,
      desc_Deadlocks,
      desc_Queries,
      desc_EngineUptime,
      desc_SumBinaryLogSize,
      desc_NumBinaryLogFiles,
      desc_AuroraBinlogReplicaLag,
      desc_BinLogDiskUsage]"

text \<open>
  Ranging over a Go map that the code has built: the entries met when the keys are
  visited in the given order.
\<close>

definition range_entries :: "('k \<rightharpoonup> 'v) \<Rightarrow> 'k list \<Rightarrow> ('k \<times> 'v) list" where
  "range_entries m keys = List.map_filter (\<lambda>k. map_option (Pair k) (m k)) keys"

subsection \<open>The subtasks of a scrape\<close>

text \<open>
  Each of the four functions below runs in a goroutine of its own. It writes one slot of
  \<open>metrics\<close> and one API-call counter, and adds one to \<open>Errors\<close> when its fetcher fails.
  The model runs a subtask to its end at the place where the code launches it.
\<close>

definition add_error :: "RdsCollector \<Rightarrow> RdsCollector" where
  "add_error c = c\<lparr>counters := (counters c)\<lparr>Errors := Errors (counters c) + 1\<rparr>\<rparr>"

definition getCloudwatchMetrics :: "world \<Rightarrow> RdsCollector \<Rightarrow> string list \<Rightarrow> RdsCollector" where
  "getCloudwatchMetrics w c instanceIdentifiers =
     (case GetRDSInstanceMetrics (now1 w) (now2 w) (range_queries w)
             (NewRDSFetcher (GetMetricData w)) instanceIdentifiers of
        ((ms, err), fetcher1) \<Rightarrow>
          (let c1 = (if err \<noteq> None then add_error c else c) in
           c1\<lparr>counters := (counters c1)\<lparr>CloudwatchAPICalls :=
                   CloudwatchAPICalls (counters c1) + CloudWatchAPICall fetcher1\<rparr>,
              metrics := (metrics c1)\<lparr>CloudwatchInstances := ms\<rparr>\<rparr>))"

definition getUsagesMetrics :: "world \<Rightarrow> RdsCollector \<Rightarrow> RdsCollector" where
  "getUsagesMetrics w c =
     (case GetUsageMetrics w of
        ((ms, err), calls) \<Rightarrow>
          (let c1 = (if err \<noteq> None then add_error c else c) in
           c1\<lparr>counters := (counters c1)\<lparr>UsageAPIcalls := UsageAPIcalls (counters c1) + calls\<rparr>,
              metrics := (metrics c1)\<lparr>CloudWatchUsage := ms\<rparr>\<rparr>))"

definition getEC2Metrics :: "world \<Rightarrow> RdsCollector \<Rightarrow> string list \<Rightarrow> RdsCollector" where
  "getEC2Metrics w c instanceTypes =
     (case GetDBInstanceTypeInformation w instanceTypes of
        ((ms, err), calls) \<Rightarrow>
          (let c1 = (if err \<noteq> None then add_error c else c) in
           c1\<lparr>counters := (counters c1)\<lparr>EC2APIcalls := EC2APIcalls (counters c1) + calls\<rparr>,
              metrics := (metrics c1)\<lparr>EC2 := ms\<rparr>\<rparr>))"

definition getQuotasMetrics :: "world \<Rightarrow> RdsCollector \<Rightarrow> RdsCollector" where
  "getQuotasMetrics w c =
     (case GetRDSQuotas w of
        ((ms, err), calls) \<Rightarrow>
          (let c1 = (if err \<noteq> None then add_error c else c) in
           c1\<lparr>counters := (counters c1)\<lparr>ServiceQuotasAPICalls :=
                   ServiceQuotasAPICalls (counters c1) + calls\<rparr>,
              metrics := (metrics c1)\<lparr>ServiceQuota := ms\<rparr>\<rparr>))"

text \<open>
  Modelled from the spec: \<^verbatim>\<open>getUniqTypeAndIdentifiers\<close> is called by
  \<^verbatim>\<open>fetchMetrics\<close> and defined outside the files at hand. The specification has it
  derive ``the ordered list of instance identifiers and the deduplicated set of instance
  classes'' from the inventory.
\<close>

definition getUniqTypeAndIdentifiers ::
    "(string \<times> RdsInstanceMetrics) list \<Rightarrow> string list \<times> string list" where
  "getUniqTypeAndIdentifiers instances =
     (map fst instances, remdups (map (\<lambda>(dbidentifier, i). DBInstanceClass i) instances))"

text \<open>
  \<^verbatim>\<open>fetchMetrics\<close>. The quota and usage subtasks are launched before the inventory
  call; when that call fails the function returns at once with the error.
\<close>

definition fetchMetrics :: "world \<Rightarrow> RdsCollector \<Rightarrow> RdsCollector \<times> error option" where
  "fetchMetrics w c =
     (let c1 = (if CollectQuotas (configuration c) then getQuotasMetrics w c else c);
          c2 = (if CollectUsages (configuration c1) then getUsagesMetrics w c1 else c1)
      in (case GetInstancesMetrics w (CollectLogsSize (configuration c2))
                 (CollectMaintenances (configuration c2)) of
            ((rdsMetrics, Some err), calls) \<Rightarrow> (c2, Some (Errorf ''can't fetch RDS metrics'' err))
          | ((rdsMetrics, None), calls) \<Rightarrow>
              (let c3 = c2\<lparr>metrics := (metrics c2)\<lparr>RDS := rdsMetrics\<rparr>,
                          counters := (counters c2)\<lparr>RDSAPIcalls := RDSAPIcalls (counters c2) + calls\<rparr>\<rparr>;
                   (instanceIdentifiers, instanceTypes) =
                      getUniqTypeAndIdentifiers (rds_Instances rdsMetrics);
                   c4 = (if CollectInstanceTypes (configuration c3) \<and> length instanceTypes > 0
                         then getEC2Metrics w c3 instanceTypes else c3);
                   c5 = (if CollectInstanceMetrics (configuration c4)
                         then getCloudwatchMetrics w c4 instanceIdentifiers else c4)
               in (c5, None))))"

subsection \<open>Tag labels\<close>

text \<open>
  Modelled from the spec: \<^verbatim>\<open>ClearPrometheusLabel\<close> is called by
  \<^verbatim>\<open>getInstanceTagLabels\<close> and defined outside the files at hand. The specification
  has tag keys ``sanitized by replacing any character outside [A-Za-z0-9_] with _''.
\<close>

definition label_char :: "char \<Rightarrow> bool" where
  "label_char c =
     (let n = (of_char c :: nat) in
      (65 \<le> n \<and> n \<le> 90) \<or> (97 \<le> n \<and> n \<le> 122) \<or> (48 \<le> n \<and> n \<le> 57) \<or> n = 95)"

definition ClearPrometheusLabel :: "string \<Rightarrow> string" where
  "ClearPrometheusLabel str = map (\<lambda>c. if label_char c then c else CHR ''_'') str"

text \<open>
  \<^verbatim>\<open>getInstanceTagLabels\<close>: the map \<open>labels\<close> starts with the three fixed labels,
  takes one entry per tag in the order the tags are visited (a later entry replaces an
  earlier one with the same label name), and is then read out into the two result
  slices in the order \<open>order\<close> of a second visit.
\<close>

fun range_Tags :: "(string \<times> string) list \<Rightarrow> (string \<rightharpoonup> string) \<Rightarrow> (string \<rightharpoonup> string)" where
  "range_Tags [] labels = labels"
| "range_Tags ((k, v) # rest) labels =
     range_Tags rest (labels(''tag_'' @ ClearPrometheusLabel k \<mapsto> v))"

definition instance_labels :: "RdsCollector \<Rightarrow> string \<Rightarrow> RdsInstanceMetrics \<Rightarrow> (string \<rightharpoonup> string)" where
  "instance_labels c dbidentifier i =
     range_Tags (Tags i)
       [''aws_account_id'' \<mapsto> awsAccountID c,
        ''aws_region'' \<mapsto> awsRegion c,
        ''dbidentifier'' \<mapsto> dbidentifier]"

definition getInstanceTagLabels ::
    "RdsCollector \<Rightarrow> string list \<Rightarrow> string \<Rightarrow> RdsInstanceMetrics \<Rightarrow> string list \<times> string list" where
  "getInstanceTagLabels c order dbidentifier i =
     (let entries = range_entries (instance_labels c dbidentifier i) order
      in (map fst entries, map snd entries))"

subsection \<open>Collect\<close>

definition FormatBool :: "bool \<Rightarrow> string" where
  "FormatBool b = (if b then ''true'' else ''false'')"

text \<open>
  The body of the loop over \<^verbatim>\<open>c.metrics.RDS.Instances\<close>: the samples of one
  instance, and the collector after it (the tags branch assigns \<open>instanceTags\<close>).
\<close>

definition rds_instance_metrics ::
    "world \<Rightarrow> RdsCollector \<Rightarrow> string \<Rightarrow> RdsInstanceMetrics \<Rightarrow> Metric list \<times> RdsCollector" where
  "rds_instance_metrics w c dbidentifier i =
     (let fixed =
            [MustNewConstMetric desc_allocatedStorage GaugeValue (of_int (AllocatedStorage i))
               [awsAccountID c, awsRegion c, dbidentifier],
             MustNewConstMetric desc_information GaugeValue 1
               [awsAccountID c, awsRegion c, dbidentifier, DbiResourceID i, DBInstanceClass i,
                Engine i, EngineVersion i, StorageType i, FormatBool (MultiAZ i),
                FormatBool (DeletionProtection i), Role i, SourceDBInstanceIdentifier i,
                FormatBool (PendingModifiedValues i), PendingMaintenanceAction i,
                FormatBool (PerformanceInsightsEnabled i), CACertificateIdentifier i, Arn i],
             MustNewConstMetric desc_maxAllocatedStorage GaugeValue (of_int (MaxAllocatedStorage i))
               [awsAccountID c, awsRegion c, dbidentifier],
             MustNewConstMetric desc_maxIops GaugeValue (of_int (MaxIops i))
               [awsAccountID c, awsRegion c, dbidentifier],
             MustNewConstMetric desc_status GaugeValue (of_int (Status i))
               [awsAccountID c, awsRegion c, dbidentifier],
             MustNewConstMetric desc_storageThroughput GaugeValue (of_int (StorageThroughput i))
               [awsAccountID c, awsRegion c, dbidentifier],
             MustNewConstMetric desc_backupRetentionPeriod GaugeValue (of_int (BackupRetentionPeriod i))
               [awsAccountID c, awsRegion c, dbidentifier]];
          (tags, c1) =
            (if CollectInstanceTags (configuration c) then
               (case getInstanceTagLabels c (range_labels w dbidentifier) dbidentifier i of
                  (names, vals) \<Rightarrow>
                    (let c1 = c\<lparr>instanceTags :=
                                  NewDesc ''rds_instance_tags'' ''AWS tags attached to the instance'' names\<rparr>
                     in ([MustNewConstMetric (instanceTags c1) GaugeValue 0 vals], c1)))
             else ([], c));
          optional =
            (case CertificateValidTill i of None \<Rightarrow> [] | Some x \<Rightarrow>
               [MustNewConstMetric desc_certificateValidTill GaugeValue (of_int x)
                  [awsAccountID c, awsRegion c, dbidentifier]]) @
            (case Age i of None \<Rightarrow> [] | Some x \<Rightarrow>
               [MustNewConstMetric desc_age GaugeValue x
                  [awsAccountID c, awsRegion c, dbidentifier]]) @
            (case LogFilesSize i of None \<Rightarrow> [] | Some x \<Rightarrow>
               [MustNewConstMetric desc_logFilesSize GaugeValue (of_int x)
                  [awsAccountID c, awsRegion c, dbidentifier]])
      in (fixed @ tags @ optional, c1))"

fun range_rds_Instances ::
    "world \<Rightarrow> RdsCollector \<Rightarrow> (string \<times> RdsInstanceMetrics) list \<Rightarrow> Metric list \<times> RdsCollector" where
  "range_rds_Instances w c [] = ([], c)"
| "range_rds_Instances w c ((dbidentifier, i) # rest) =
     (case rds_instance_metrics w c dbidentifier i of
        (ms, c1) \<Rightarrow>
          (case range_rds_Instances w c1 rest of
             (ms', c2) \<Rightarrow> (ms @ ms', c2)))"

text \<open>
  The body of the loop over \<^verbatim>\<open>c.metrics.CloudwatchInstances.Instances\<close>: one
  \<^verbatim>\<open>if instance.X != nil\<close> per field, in the order of the code.
\<close>

definition cloudwatch_instance_metrics :: "RdsCollector \<Rightarrow> string \<Rightarrow> RdsMetrics \<Rightarrow> Metric list" where
  "cloudwatch_instance_metrics c dbidentifier instance =
     (case DatabaseConnections instance of None \<Rightarrow> [] | Some x \<Rightarrow>
        [MustNewConstMetric desc_databaseConnections GaugeValue x [awsAccountID c, awsRegion c, dbidentifier]]) @
     (case FreeStorageSpace instance of None \<Rightarrow> [] | Some x \<Rightarrow>
        [MustNewConstMetric desc_freeStorageSpace GaugeValue x [awsAccountID c, awsRegion c, dbidentifier]]) @
     (case FreeableMemory instance of None \<Rightarrow> [] | Some x \<Rightarrow>
        [MustNewConstMetric desc_freeableMemory GaugeValue x [awsAccountID c, awsRegion c, dbidentifier]]) @
     (case MaximumUsedTransactionIDs instance of None \<Rightarrow> [] | Some x \<Rightarrow>
        [MustNewConstMetric desc_maximumUsedTransactionIDs GaugeValue x [awsAccountID c, awsRegion c, dbidentifier]]) @
     (case ReadThroughput instance of None \<Rightarrow> [] | Some x \<Rightarrow>
        [MustNewConstMetric desc_readThroughput GaugeValue x [awsAccountID c, awsRegion c, dbidentifier]]) @
     (case ReplicaLag instance of None \<Rightarrow> [] | Some x \<Rightarrow>
        [MustNewConstMetric desc_replicaLag GaugeValue x [awsAccountID c, awsRegion c, dbidentifier]]) @
     (case ReplicationSlotDiskUsage instance of None \<Rightarrow> [] | Some x \<Rightarrow>
        [MustNewConstMetric desc_replicationSlotDiskUsage GaugeValue x [awsAccountID c, awsRegion c, dbidentifier]]) @
     (case SwapUsage instance of None \<Rightarrow> [] | Some x \<Rightarrow>
        [MustNewConstMetric desc_swapUsage GaugeValue x [awsAccountID c, awsRegion c, dbidentifier]]) @
     (case ReadIOPS instance of None \<Rightarrow> [] | Some x \<Rightarrow>
        [MustNewConstMetric desc_readIOPS GaugeValue x [awsAccountID c, awsRegion c, dbidentifier]]) @
     (case WriteIOPS instance of None \<Rightarrow> [] | Some x \<Rightarrow>
        [MustNewConstMetric desc_writeIOPS GaugeValue x [awsAccountID c, awsRegion c, dbidentifier]]) @
     (case WriteThroughput instance of None \<Rightarrow> [] | Some x \<Rightarrow>
        [MustNewConstMetric desc_writeThroughput GaugeValue x [awsAccountID c, awsRegion c, dbidentifier]]) @
     (case TransactionLogsDiskUsage instance of None \<Rightarrow> [] | Some x \<Rightarrow>
        [MustNewConstMetric desc_transactionLogsDiskUsage GaugeValue x [awsAccountID c, awsRegion c, dbidentifier]]) @
     (case DBLoad instance of None \<Rightarrow> [] | Some x \<Rightarrow>
        [MustNewConstMetric desc_DBLoad GaugeValue x [awsAccountID c, awsRegion c, dbidentifier]]) @
     (case CPUUtilization instance of None \<Rightarrow> [] | Some x \<Rightarrow>
        [MustNewConstMetric desc_cpuUtilisation GaugeValue x [awsAccountID c, awsRegion c, dbidentifier]]) @
     (case DBLoadCPU instance of None \<Rightarrow> [] | Some x \<Rightarrow>
        [MustNewConstMetric desc_dBLoadCPU GaugeValue x [awsAccountID c, awsRegion c, dbidentifier]]) @
     (case DBLoadNonCPU instance of None \<Rightarrow> [] | Some x \<Rightarrow>
        [MustNewConstMetric desc_dBLoadNonCPU GaugeValue x [awsAccountID c, awsRegion c, dbidentifier]]) @
     (case BufferCacheHitRatio instance of None \<Rightarrow> [] | Some x \<Rightarrow>
        [MustNewConstMetric desc_BufferCacheHitRatio GaugeValue x [awsAccountID c, awsRegion c, dbidentifier]]) @
     (case Deadlocks instance of None \<Rightarrow> [] | Some x \<Rightarrow>
        [MustNewConstMetric desc_Deadlocks GaugeValue x [awsAccountID c, awsRegion c, dbidentifier]]) @
     (case Queries instance of None \<Rightarrow> [] | Some x \<Rightarrow>
        [MustNewConstMetric desc_Queries GaugeValue x [awsAccountID c, awsRegion c, dbidentifier]]) @
     (case EngineUptime instance of None \<Rightarrow> [] | Some x \<Rightarrow>
        [MustNewConstMetric desc_EngineUptime GaugeValue x [awsAccountID c, awsRegion c, dbidentifier]]) @
     (case SumBinaryLogSize instance of None \<Rightarrow> [] | Some x \<Rightarrow>
        [MustNewConstMetric desc_SumBinaryLogSize GaugeValue x [awsAccountID c, awsRegion c, dbidentifier]]) @
     (case NumBinaryLogFiles instance of None \<Rightarrow> [] | Some x \<Rightarrow>
        [MustNewConstMetric desc_NumBinaryLogFiles GaugeValue x [awsAccountID c, awsRegion c, dbidentifier]]) @
     (case AuroraBinlogReplicaLag instance of None \<Rightarrow> [] | Some x \<Rightarrow>
        [MustNewConstMetric desc_AuroraBinlogReplicaLag GaugeValue x [awsAccountID c, awsRegion c, dbidentifier]]) @
     (case BinLogDiskUsage instance of None \<Rightarrow> [] | Some x \<Rightarrow>
        [MustNewConstMetric desc_BinLogDiskUsage GaugeValue x [awsAccountID c, awsRegion c, dbidentifier]])"

definition ec2_instance_metrics :: "RdsCollector \<Rightarrow> string \<Rightarrow> EC2InstanceMetrics \<Rightarrow> Metric list" where
  "ec2_instance_metrics c instanceType i =
     [MustNewConstMetric desc_instanceMaximumIops GaugeValue (of_int (MaximumIops i))
        [awsAccountID c, awsRegion c, instanceType],
      MustNewConstMetric desc_instanceMaximumThroughput GaugeValue (MaximumThroughput i)
        [awsAccountID c, awsRegion c, instanceType],
      MustNewConstMetric desc_instanceMemory GaugeValue (of_int (Memory i))
        [awsAccountID c, awsRegion c, instanceType],
      MustNewConstMetric desc_instanceVCPU GaugeValue (of_int (Vcpu i))
        [awsAccountID c, awsRegion c, instanceType]]"

text \<open>
  The five parts of \<^verbatim>\<open>Collect\<close> after the \<open>up\<close> sample, as its comments head them:
  RDS, Cloudwatch, usage, EC2 and serviceQuotas.
\<close>

definition collect_rds :: "world \<Rightarrow> RdsCollector \<Rightarrow> Metric list \<times> RdsCollector" where
  "collect_rds w c =
     (case range_rds_Instances w c (rds_Instances (RDS (metrics c))) of
        (ms, c1) \<Rightarrow>
          (MustNewConstMetric desc_apiCall CounterValue (RDSAPIcalls (counters c))
             [awsAccountID c, awsRegion c, ''rds''] # ms, c1))"

definition collect_cloudwatch :: "world \<Rightarrow> RdsCollector \<Rightarrow> Metric list" where
  "collect_cloudwatch w c =
     MustNewConstMetric desc_apiCall CounterValue (CloudwatchAPICalls (counters c))
       [awsAccountID c, awsRegion c, ''cloudwatch''] #
     concat (map (\<lambda>(dbidentifier, i). cloudwatch_instance_metrics c dbidentifier i)
               (range_entries (Instances (CloudwatchInstances (metrics c)))
                  (range_CloudwatchInstances w)))"

definition collect_usage :: "RdsCollector \<Rightarrow> Metric list" where
  "collect_usage c =
     (if CollectUsages (configuration c) then
        [MustNewConstMetric desc_apiCall CounterValue (UsageAPIcalls (counters c))
           [awsAccountID c, awsRegion c, ''usage''],
         MustNewConstMetric desc_usageAllocatedStorage GaugeValue
           (usage_AllocatedStorage (CloudWatchUsage (metrics c))) [awsAccountID c, awsRegion c],
         MustNewConstMetric desc_usageDBInstances GaugeValue
           (usage_DBInstances (CloudWatchUsage (metrics c))) [awsAccountID c, awsRegion c],
         MustNewConstMetric desc_usageManualSnapshots GaugeValue
           (usage_ManualSnapshots (CloudWatchUsage (metrics c))) [awsAccountID c, awsRegion c]]
      else [])"

definition collect_ec2 :: "RdsCollector \<Rightarrow> Metric list" where
  "collect_ec2 c =
     MustNewConstMetric desc_apiCall CounterValue (EC2APIcalls (counters c))
       [awsAccountID c, awsRegion c, ''ec2''] #
     concat (map (\<lambda>(instanceType, i). ec2_instance_metrics c instanceType i)
               (ec2_Instances (EC2 (metrics c))))"

definition collect_quotas :: "RdsCollector \<Rightarrow> Metric list" where
  "collect_quotas c =
     (if CollectQuotas (configuration c) then
        [MustNewConstMetric desc_apiCall CounterValue (ServiceQuotasAPICalls (counters c))
           [awsAccountID c, awsRegion c, ''servicequotas''],
         MustNewConstMetric desc_quotaDBInstances GaugeValue
           (DBinstances (ServiceQuota (metrics c))) [awsAccountID c, awsRegion c],
         MustNewConstMetric desc_quotaTotalStorage GaugeValue
           (TotalStorage (ServiceQuota (metrics c))) [awsAccountID c, awsRegion c],
         MustNewConstMetric desc_quotaMaxDBInstanceSnapshots GaugeValue
           (ManualDBInstanceSnapshots (ServiceQuota (metrics c))) [awsAccountID c, awsRegion c]]
      else [])"

text \<open>
  \<^verbatim>\<open>Collect\<close>: the samples sent on the channel, in order, and the collector after
  the scrape.
\<close>

definition Collect :: "world \<Rightarrow> RdsCollector \<Rightarrow> Metric list \<times> RdsCollector" where
  "Collect w c =
     (let first =
            [MustNewConstMetric desc_exporterBuildInformation GaugeValue 1
               [build_Version w, build_CommitSHA w, build_Date w, awsRegion c],
             MustNewConstMetric desc_errors CounterValue (Errors (counters c)) [awsRegion c]]
      in (case fetchMetrics w c of
            (c1, Some err) \<Rightarrow>
              (first @ [MustNewConstMetric desc_up GaugeValue exporterDownStatusCode [awsRegion c1]], c1)
          | (c1, None) \<Rightarrow>
              (case collect_rds w c1 of
                 (rds_part, c2) \<Rightarrow>
                   (first @
                    [MustNewConstMetric desc_up GaugeValue exporterUpStatusCode [awsRegion c2]] @
                    rds_part @ collect_cloudwatch w c2 @ collect_usage c2 @ collect_ec2 c2 @
                    collect_quotas c2, c2))))"

section \<open>Vocabulary of the statements\<close>

text \<open>
  The field \<open>name\<close> of the sample that a metrics map holds for an instance; an instance
  without an entry has no field. \<open>current_sample\<close> is the sample the loop over the
  results works on: the entry of the instance, or a fresh one.
\<close>

definition sample_field :: "instance_metrics \<Rightarrow> string \<Rightarrow> string \<Rightarrow> float64 option" where
  "sample_field ms dbidentifier name =
     (case ms dbidentifier of None \<Rightarrow> None | Some m \<Rightarrow> metric_field name m)"

definition current_sample :: "instance_metrics \<Rightarrow> string \<Rightarrow> RdsMetrics" where
  "current_sample ms dbidentifier =
     (case ms dbidentifier of None \<Rightarrow> empty_RdsMetrics | Some x \<Rightarrow> x)"

text \<open>
  One visit order of the generated queries: instance by instance, the metric names in
  the order of \<open>getCloudWatchMetricsName\<close>.
\<close>

definition canonical_keys :: "string list \<Rightarrow> string list" where
  "canonical_keys dbIdentifiers =
     concat (map (\<lambda>i. map (\<lambda>m. query_id m i) getCloudWatchMetricsName) [0..<length dbIdentifiers])"

text \<open>
  The descriptor under which \<open>Collect\<close> reports a field of the sample, by the name of the
  CloudWatch metric (read off the 24 \<^verbatim>\<open>if instance.X != nil\<close> blocks).
\<close>

definition cloudwatch_desc :: "string \<Rightarrow> Desc" where
  "cloudwatch_desc name =
     (if name = ''CPUUtilization'' then desc_cpuUtilisation
           else if name = ''DBLoad'' then desc_DBLoad
           else if name = ''DBLoadCPU'' then desc_dBLoadCPU
           else if name = ''DBLoadNonCPU'' then desc_dBLoadNonCPU
           else if name = ''DatabaseConnections'' then desc_databaseConnections
           else if name = ''FreeStorageSpace'' then desc_freeStorageSpace
           else if name = ''FreeableMemory'' then desc_freeableMemory
           else if name = ''MaximumUsedTransactionIDs'' then desc_maximumUsedTransactionIDs
           else if name = ''ReadIOPS'' then desc_readIOPS
           else if name = ''ReadThroughput'' then desc_readThroughput
           else if name = ''ReplicaLag'' then desc_replicaLag
           else if name = ''ReplicationSlotDiskUsage'' then desc_replicationSlotDiskUsage
           else if name = ''SwapUsage'' then desc_swapUsage
           else if name = ''TransactionLogsDiskUsage'' then desc_transactionLogsDiskUsage
           else if name = ''WriteIOPS'' then desc_writeIOPS
           else if name = ''WriteThroughput'' then desc_writeThroughput
           else if name = ''BufferCacheHitRatio'' then desc_BufferCacheHitRatio
           else if name = ''Deadlocks'' then desc_Deadlocks
           else if name = ''Queries'' then desc_Queries
           else if name = ''EngineUptime'' then desc_EngineUptime
           else if name = ''SumBinaryLogSize'' then desc_SumBinaryLogSize
           else if name = ''NumBinaryLogFiles'' then desc_NumBinaryLogFiles
           else if name = ''AuroraBinlogReplicaLag'' then desc_AuroraBinlogReplicaLag
      else desc_BinLogDiskUsage)"

text \<open>
  The four subtasks of a scrape, the samples that \<open>Collect\<close> makes from the result of
  each (told by the metric name, and by the \<open>api\<close> label for the API-call counters), when
  a subtask is launched and fails, and two worlds that differ at most in what one
  subtask's fetcher does. \<open>inventory\<close> is the call of the inventory fetcher as
  \<open>fetchMetrics\<close> makes it.
\<close>

datatype subtask = Quotas | Usages | InstanceTypes | InstanceMetrics

definition inventory :: "world \<Rightarrow> RdsCollector \<Rightarrow> (rds_Metrics \<times> error option) \<times> float64" where
  "inventory w c =
     GetInstancesMetrics w (CollectLogsSize (configuration c)) (CollectMaintenances (configuration c))"

definition instanceIdentifiers_of :: "world \<Rightarrow> RdsCollector \<Rightarrow> string list" where
  "instanceIdentifiers_of w c =
     fst (getUniqTypeAndIdentifiers (rds_Instances (fst (fst (inventory w c)))))"

definition instanceTypes_of :: "world \<Rightarrow> RdsCollector \<Rightarrow> string list" where
  "instanceTypes_of w c =
     snd (getUniqTypeAndIdentifiers (rds_Instances (fst (fst (inventory w c)))))"

definition time_series_fetch :: "world \<Rightarrow> RdsCollector \<Rightarrow> (CloudWatchMetrics \<times> error option) \<times> RdsFetcher" where
  "time_series_fetch w c =
     GetRDSInstanceMetrics (now1 w) (now2 w) (range_queries w) (NewRDSFetcher (GetMetricData w))
       (instanceIdentifiers_of w c)"

definition subtask_launched :: "world \<Rightarrow> RdsCollector \<Rightarrow> subtask \<Rightarrow> bool" where
  "subtask_launched w c t =
     (case t of
        Quotas \<Rightarrow> CollectQuotas (configuration c)
      | Usages \<Rightarrow> CollectUsages (configuration c)
      | InstanceTypes \<Rightarrow> CollectInstanceTypes (configuration c) \<and> instanceTypes_of w c \<noteq> []
      | InstanceMetrics \<Rightarrow> CollectInstanceMetrics (configuration c))"

definition subtask_error :: "world \<Rightarrow> RdsCollector \<Rightarrow> subtask \<Rightarrow> error option" where
  "subtask_error w c t =
     (case t of
        Quotas \<Rightarrow> snd (fst (GetRDSQuotas w))
      | Usages \<Rightarrow> snd (fst (GetUsageMetrics w))
      | InstanceTypes \<Rightarrow> snd (fst (GetDBInstanceTypeInformation w (instanceTypes_of w c)))
      | InstanceMetrics \<Rightarrow> snd (fst (time_series_fetch w c)))"

definition subtask_fails :: "world \<Rightarrow> RdsCollector \<Rightarrow> subtask \<Rightarrow> bool" where
  "subtask_fails w c t = (subtask_launched w c t \<and> subtask_error w c t \<noteq> None)"

definition failed_subtasks :: "world \<Rightarrow> RdsCollector \<Rightarrow> subtask list" where
  "failed_subtasks w c = filter (subtask_fails w c) [Quotas, Usages, InstanceTypes, InstanceMetrics]"


definition cloudwatch_names :: "string list" where
  "cloudwatch_names =
     [''rds_cpu_usage_percent_average'',
      ''rds_dbload_average'',
      ''rds_dbload_cpu_average'',
      ''rds_dbload_noncpu_average'',
      ''rds_database_connections_average'',
      ''rds_free_storage_bytes'',
      ''rds_freeable_memory_bytes'',
      ''rds_maximum_used_transaction_ids_average'',
      ''rds_read_iops_average'',
      ''rds_read_throughput_bytes'',
      ''rds_replica_lag_seconds'',
      ''rds_replication_slot_disk_usage_bytes'',
      ''rds_swap_usage_bytes'',
      ''rds_transaction_logs_disk_usage_bytes'',
      ''rds_write_iops_average'',
      ''rds_write_throughput_bytes'',
      ''rds_buffer_cache_hit_ratio'',
      ''rds_deadlocks'',
      ''rds_queries'',
      ''rds_engine_uptime_seconds'',
      ''rds_sum_binary_log_size_bytes'',
      ''rds_num_binary_log_files'',
      ''rds_aurora_binlog_replica_lag_seconds'',
      ''rds_binlog_disk_usage_bytes'']"

definition api_sample :: "string \<Rightarrow> Metric \<Rightarrow> bool" where
  "api_sample api s =
     (fqName (metric_desc s) = ''rds_api_call_total'' \<and> drop 2 (labelValues s) = [api])"

definition sample_of :: "subtask \<Rightarrow> Metric \<Rightarrow> bool" where
  "sample_of t s =
     (case t of
        Quotas \<Rightarrow>
          api_sample ''servicequotas'' s \<or>
          fqName (metric_desc s) \<in> set [''rds_quota_max_dbinstances_average'',
            ''rds_quota_total_storage_bytes'', ''rds_quota_maximum_db_instance_snapshots_average'']
      | Usages \<Rightarrow>
          api_sample ''usage'' s \<or>
          fqName (metric_desc s) \<in> set [''rds_usage_allocated_storage_bytes'',
            ''rds_usage_db_instances_average'', ''rds_usage_manual_snapshots_average'']
      | InstanceTypes \<Rightarrow>
          api_sample ''ec2'' s \<or>
          fqName (metric_desc s) \<in> set [''rds_instance_max_iops_average'',
            ''rds_instance_max_throughput_bytes'', ''rds_instance_memory_bytes'',
            ''rds_instance_vcpu_average'']
      | InstanceMetrics \<Rightarrow>
          api_sample ''cloudwatch'' s \<or> fqName (metric_desc s) \<in> set cloudwatch_names)"




definition instanceTags_samples :: "Metric list \<Rightarrow> Metric list" where
  "instanceTags_samples out = filter (\<lambda>s. fqName (metric_desc s) = ''rds_instance_tags'') out"

subsection \<open>A scrape of one instance\<close>

text \<open>
  The second scenario of the specification as a world: one instance \<open>db-a\<close> of class
  \<open>db.t3.small\<close> with 20 GiB allocated and two tags; the time series
  \<open>CPUUtilization = [12.5]\<close> and \<open>DatabaseConnections = []\<close>; every fetcher succeeds.
\<close>

definition S2_instance :: RdsInstanceMetrics where
  "S2_instance =
     \<lparr> Arn = ''arn:aws:rds:eu-west-3:123456789012:db:db-a'',
       AllocatedStorage = 21474836480,
       BackupRetentionPeriod = 604800,
       CACertificateIdentifier = ''rds-ca-rsa2048-g1'',
       CertificateValidTill = None,
       DBInstanceClass = ''db.t3.small'',
       DbiResourceID = ''db-ABCDEFGH'',
       DeletionProtection = False,
       Engine = ''mysql'',
       EngineVersion = ''8.0.35'',
       LogFilesSize = None,
       MaxAllocatedStorage = 0,
       MaxIops = 3000,
       MultiAZ = False,
       PendingMaintenanceAction = [],
       PendingModifiedValues = False,
       PerformanceInsightsEnabled = False,
       Role = ''primary'',
       SourceDBInstanceIdentifier = [],
       Status = 1,
       StorageThroughput = 0,
       StorageType = ''gp3'',
       Age = Some 3600,
       Tags = [(''Team'', ''payments''), (''cost-center'', ''42'')] \<rparr>"

definition S2_response :: "MetricDataResult list" where
  "S2_response =
     [\<lparr> Result_Id = ''cpuutilization_0'', Label = ''CPUUtilization'', Values = Some [25 / 2] \<rparr>,
      \<lparr> Result_Id = ''databaseconnections_0'', Label = ''DatabaseConnections'', Values = Some [] \<rparr>]"

definition S2_world :: world where
  "S2_world =
     \<lparr> GetInstancesMetrics =
         (\<lambda>logs maintenances. ((\<lparr> rds_Instances = [(''db-a'', S2_instance)] \<rparr>, None), 1)),
       GetRDSQuotas =
         ((\<lparr> DBinstances = 40, TotalStorage = 107374182400000,
             ManualDBInstanceSnapshots = 100 \<rparr>, None), 3),
       GetUsageMetrics =
         ((\<lparr> usage_AllocatedStorage = 21474836480, usage_DBInstances = 1,
             usage_ManualSnapshots = 0 \<rparr>, None), 1),
       GetDBInstanceTypeInformation =
         (\<lambda>instanceTypes.
            ((\<lparr> ec2_Instances =
                  [(''db.t3.small'', \<lparr> MaximumIops = 11800, MaximumThroughput = 260620000,
                                        Memory = 2147483648, Vcpu = 2 \<rparr>)] \<rparr>, None), 1)),
       GetMetricData = (\<lambda>params. Inr S2_response),
       now1 = 1700000000000000000,
       now2 = 1700000000000000001,
       range_queries = canonical_keys [''db-a''],
       range_labels =
         (\<lambda>dbidentifier. [''tag_cost_center'', ''aws_region'', ''dbidentifier'', ''tag_Team'',
                          ''aws_account_id'']),
       range_CloudwatchInstances = [''db-a''],
       build_Version = ''0.0.0'',
       build_CommitSHA = ''0123abc'',
       build_Date = ''2024-01-01'' \<rparr>"

definition S2_collector :: RdsCollector where
  "S2_collector =
     NewCollector
       \<lparr> CollectInstanceMetrics = True, CollectInstanceTags = True, CollectInstanceTypes = True,
         CollectLogsSize = True, CollectMaintenances = True, CollectQuotas = True,
         CollectUsages = True \<rparr>
       ''123456789012'' ''eu-west-3''"

section \<open>Facts about the sample and its 24 fields\<close>

lemma getCloudWatchMetricsName_length: "length getCloudWatchMetricsName = 24"
  by (simp add: getCloudWatchMetricsName_def)

lemma getCloudWatchMetricsName_distinct: "distinct getCloudWatchMetricsName"
  by (simp add: getCloudWatchMetricsName_def)

lemma Update_known_eqs:
  "Update ''CPUUtilization'' v m = (m\<lparr>CPUUtilization := Some v\<rparr>, None)"
  "Update ''DBLoad'' v m = (m\<lparr>DBLoad := Some v\<rparr>, None)"
  "Update ''DBLoadCPU'' v m = (m\<lparr>DBLoadCPU := Some v\<rparr>, None)"
  "Update ''DBLoadNonCPU'' v m = (m\<lparr>DBLoadNonCPU := Some v\<rparr>, None)"
  "Update ''DatabaseConnections'' v m = (m\<lparr>DatabaseConnections := Some v\<rparr>, None)"
  "Update ''FreeStorageSpace'' v m = (m\<lparr>FreeStorageSpace := Some v\<rparr>, None)"
  "Update ''FreeableMemory'' v m = (m\<lparr>FreeableMemory := Some v\<rparr>, None)"
  "Update ''MaximumUsedTransactionIDs'' v m = (m\<lparr>MaximumUsedTransactionIDs := Some v\<rparr>, None)"
  "Update ''ReadIOPS'' v m = (m\<lparr>ReadIOPS := Some v\<rparr>, None)"
  "Update ''ReadThroughput'' v m = (m\<lparr>ReadThroughput := Some v\<rparr>, None)"
  "Update ''ReplicaLag'' v m = (m\<lparr>ReplicaLag := Some v\<rparr>, None)"
  "Update ''ReplicationSlotDiskUsage'' v m = (m\<lparr>ReplicationSlotDiskUsage := Some v\<rparr>, None)"
  "Update ''SwapUsage'' v m = (m\<lparr>SwapUsage := Some v\<rparr>, None)"
  "Update ''TransactionLogsDiskUsage'' v m = (m\<lparr>TransactionLogsDiskUsage := Some v\<rparr>, None)"
  "Update ''WriteIOPS'' v m = (m\<lparr>WriteIOPS := Some v\<rparr>, None)"
  "Update ''WriteThroughput'' v m = (m\<lparr>WriteThroughput := Some v\<rparr>, None)"
  "Update ''BufferCacheHitRatio'' v m = (m\<lparr>BufferCacheHitRatio := Some v\<rparr>, None)"
  "Update ''Deadlocks'' v m = (m\<lparr>Deadlocks := Some v\<rparr>, None)"
  "Update ''Queries'' v m = (m\<lparr>Queries := Some v\<rparr>, None)"
  "Update ''EngineUptime'' v m = (m\<lparr>EngineUptime := Some v\<rparr>, None)"
  "Update ''SumBinaryLogSize'' v m = (m\<lparr>SumBinaryLogSize := Some v\<rparr>, None)"
  "Update ''NumBinaryLogFiles'' v m = (m\<lparr>NumBinaryLogFiles := Some v\<rparr>, None)"
  "Update ''AuroraBinlogReplicaLag'' v m = (m\<lparr>AuroraBinlogReplicaLag := Some v\<rparr>, None)"
  "Update ''BinLogDiskUsage'' v m = (m\<lparr>BinLogDiskUsage := Some v\<rparr>, None)"
  by (simp_all add: Update_def)

lemma metric_field_eqs:
  "metric_field ''CPUUtilization'' m = CPUUtilization m"
  "metric_field ''DBLoad'' m = DBLoad m"
  "metric_field ''DBLoadCPU'' m = DBLoadCPU m"
  "metric_field ''DBLoadNonCPU'' m = DBLoadNonCPU m"
  "metric_field ''DatabaseConnections'' m = DatabaseConnections m"
  "metric_field ''FreeStorageSpace'' m = FreeStorageSpace m"
  "metric_field ''FreeableMemory'' m = FreeableMemory m"
  "metric_field ''MaximumUsedTransactionIDs'' m = MaximumUsedTransactionIDs m"
  "metric_field ''ReadIOPS'' m = ReadIOPS m"
  "metric_field ''ReadThroughput'' m = ReadThroughput m"
  "metric_field ''ReplicaLag'' m = ReplicaLag m"
  "metric_field ''ReplicationSlotDiskUsage'' m = ReplicationSlotDiskUsage m"
  "metric_field ''SwapUsage'' m = SwapUsage m"
  "metric_field ''TransactionLogsDiskUsage'' m = TransactionLogsDiskUsage m"
  "metric_field ''WriteIOPS'' m = WriteIOPS m"
  "metric_field ''WriteThroughput'' m = WriteThroughput m"
  "metric_field ''BufferCacheHitRatio'' m = BufferCacheHitRatio m"
  "metric_field ''Deadlocks'' m = Deadlocks m"
  "metric_field ''Queries'' m = Queries m"
  "metric_field ''EngineUptime'' m = EngineUptime m"
  "metric_field ''SumBinaryLogSize'' m = SumBinaryLogSize m"
  "metric_field ''NumBinaryLogFiles'' m = NumBinaryLogFiles m"
  "metric_field ''AuroraBinlogReplicaLag'' m = AuroraBinlogReplicaLag m"
  "metric_field ''BinLogDiskUsage'' m = BinLogDiskUsage m"
  by (simp_all add: metric_field_def)

lemma metric_field_update_other:
  "g \<noteq> ''CPUUtilization'' \<Longrightarrow> metric_field g (m\<lparr>CPUUtilization := w\<rparr>) = metric_field g m"
  "g \<noteq> ''DBLoad'' \<Longrightarrow> metric_field g (m\<lparr>DBLoad := w\<rparr>) = metric_field g m"
  "g \<noteq> ''DBLoadCPU'' \<Longrightarrow> metric_field g (m\<lparr>DBLoadCPU := w\<rparr>) = metric_field g m"
  "g \<noteq> ''DBLoadNonCPU'' \<Longrightarrow> metric_field g (m\<lparr>DBLoadNonCPU := w\<rparr>) = metric_field g m"
  "g \<noteq> ''DatabaseConnections'' \<Longrightarrow> metric_field g (m\<lparr>DatabaseConnections := w\<rparr>) = metric_field g m"
  "g \<noteq> ''FreeStorageSpace'' \<Longrightarrow> metric_field g (m\<lparr>FreeStorageSpace := w\<rparr>) = metric_field g m"
  "g \<noteq> ''FreeableMemory'' \<Longrightarrow> metric_field g (m\<lparr>FreeableMemory := w\<rparr>) = metric_field g m"
  "g \<noteq> ''MaximumUsedTransactionIDs'' \<Longrightarrow> metric_field g (m\<lparr>MaximumUsedTransactionIDs := w\<rparr>) = metric_field g m"
  "g \<noteq> ''ReadIOPS'' \<Longrightarrow> metric_field g (m\<lparr>ReadIOPS := w\<rparr>) = metric_field g m"
  "g \<noteq> ''ReadThroughput'' \<Longrightarrow> metric_field g (m\<lparr>ReadThroughput := w\<rparr>) = metric_field g m"
  "g \<noteq> ''ReplicaLag'' \<Longrightarrow> metric_field g (m\<lparr>ReplicaLag := w\<rparr>) = metric_field g m"
  "g \<noteq> ''ReplicationSlotDiskUsage'' \<Longrightarrow> metric_field g (m\<lparr>ReplicationSlotDiskUsage := w\<rparr>) = metric_field g m"
  "g \<noteq> ''SwapUsage'' \<Longrightarrow> metric_field g (m\<lparr>SwapUsage := w\<rparr>) = metric_field g m"
  "g \<noteq> ''TransactionLogsDiskUsage'' \<Longrightarrow> metric_field g (m\<lparr>TransactionLogsDiskUsage := w\<rparr>) = metric_field g m"
  "g \<noteq> ''WriteIOPS'' \<Longrightarrow> metric_field g (m\<lparr>WriteIOPS := w\<rparr>) = metric_field g m"
  "g \<noteq> ''WriteThroughput'' \<Longrightarrow> metric_field g (m\<lparr>WriteThroughput := w\<rparr>) = metric_field g m"
  "g \<noteq> ''BufferCacheHitRatio'' \<Longrightarrow> metric_field g (m\<lparr>BufferCacheHitRatio := w\<rparr>) = metric_field g m"
  "g \<noteq> ''Deadlocks'' \<Longrightarrow> metric_field g (m\<lparr>Deadlocks := w\<rparr>) = metric_field g m"
  "g \<noteq> ''Queries'' \<Longrightarrow> metric_field g (m\<lparr>Queries := w\<rparr>) = metric_field g m"
  "g \<noteq> ''EngineUptime'' \<Longrightarrow> metric_field g (m\<lparr>EngineUptime := w\<rparr>) = metric_field g m"
  "g \<noteq> ''SumBinaryLogSize'' \<Longrightarrow> metric_field g (m\<lparr>SumBinaryLogSize := w\<rparr>) = metric_field g m"
  "g \<noteq> ''NumBinaryLogFiles'' \<Longrightarrow> metric_field g (m\<lparr>NumBinaryLogFiles := w\<rparr>) = metric_field g m"
  "g \<noteq> ''AuroraBinlogReplicaLag'' \<Longrightarrow> metric_field g (m\<lparr>AuroraBinlogReplicaLag := w\<rparr>) = metric_field g m"
  "g \<noteq> ''BinLogDiskUsage'' \<Longrightarrow> metric_field g (m\<lparr>BinLogDiskUsage := w\<rparr>) = metric_field g m"
  by (simp_all add: metric_field_def)


lemma Update_unknown:
  "f \<notin> set getCloudWatchMetricsName \<Longrightarrow>
   Update f v m =
     (m, Some (Errorf (''can't process '' @ [CHR 0x27] @ f @ [CHR 0x27] @ '' metrics'')
                 errUnknownMetric))"
  by (simp add: Update_def getCloudWatchMetricsName_def)

lemma metric_field_unknown:
  "f \<notin> set getCloudWatchMetricsName \<Longrightarrow> metric_field f m = None"
  by (simp add: metric_field_def getCloudWatchMetricsName_def)

lemma Update_known:
  assumes "f \<in> set getCloudWatchMetricsName"
  shows "snd (Update f v m) = None"
    and "metric_field f (fst (Update f v m)) = Some v"
    and "g \<noteq> f \<Longrightarrow> metric_field g (fst (Update f v m)) = metric_field g m"
  using assms unfolding getCloudWatchMetricsName_def set_simps insert_iff empty_iff
  by (elim disjE FalseE; simp add: Update_known_eqs metric_field_eqs metric_field_update_other)+

lemma RdsMetrics_eqI:
  "(\<forall>g \<in> set getCloudWatchMetricsName. metric_field g m = metric_field g m') \<Longrightarrow> m = (m' :: RdsMetrics)"
  by (cases m, cases m') (simp add: getCloudWatchMetricsName_def metric_field_eqs)

section \<open>Facts about the query ids\<close>

lemma ToLower_names:
  "map ToLower getCloudWatchMetricsName =
    [''cpuutilization'', ''dbload'', ''dbloadcpu'', ''dbloadnoncpu'', ''databaseconnections'',
     ''freestoragespace'', ''freeablememory'', ''maximumusedtransactionids'', ''readiops'',
     ''readthroughput'', ''replicalag'', ''replicationslotdiskusage'', ''swapusage'',
     ''transactionlogsdiskusage'', ''writeiops'', ''writethroughput'', ''buffercachehitratio'',
     ''deadlocks'', ''queries'', ''engineuptime'', ''sumbinarylogsize'', ''numbinarylogfiles'',
     ''aurorabinlogreplicalag'', ''binlogdiskusage'']"
  by code_simp

lemma ToLower_names_distinct: "distinct (map ToLower getCloudWatchMetricsName)"
  unfolding ToLower_names by simp

lemma ToLower_names_no_underscore:
  "m \<in> set getCloudWatchMetricsName \<Longrightarrow> CHR ''_'' \<notin> set (ToLower m)"
proof -
  have "\<forall>s \<in> set (map ToLower getCloudWatchMetricsName). CHR ''_'' \<notin> set s"
    unfolding ToLower_names by simp
  then show "m \<in> set getCloudWatchMetricsName \<Longrightarrow> CHR ''_'' \<notin> set (ToLower m)"
    by simp
qed

lemma digit_char_inj: "a < 10 \<Longrightarrow> b < 10 \<Longrightarrow> digit_char a = digit_char b \<Longrightarrow> a = b"
proof -
  assume a: "a < 10" and b: "b < 10" and e: "digit_char a = digit_char b"
  have "(of_char (digit_char a) :: nat) = of_char (digit_char b)" using e by simp
  then have "(48 + a) mod 256 = (48 + b) mod 256"
    by (simp add: digit_char_def)
  with a b show "a = b" by simp
qed


lemma Sprintf_d_small: "n < 10 \<Longrightarrow> Sprintf_d n = [digit_char n]"
  by (subst Sprintf_d.simps) simp

lemma Sprintf_d_big: "\<not> n < 10 \<Longrightarrow> Sprintf_d n = Sprintf_d (n div 10) @ [digit_char (n mod 10)]"
  by (subst Sprintf_d.simps) simp

lemma Sprintf_d_nonempty: "Sprintf_d n \<noteq> []"
proof (cases "n < 10")
  case True
  from Sprintf_d_small [OF True] show ?thesis by simp
next
  case False
  from Sprintf_d_big [OF False] show ?thesis by simp
qed

lemma Sprintf_d_length: "\<not> n < 10 \<Longrightarrow> 2 \<le> length (Sprintf_d n)"
proof -
  assume h: "\<not> n < 10"
  have "length (Sprintf_d (n div 10)) \<noteq> 0"
    using Sprintf_d_nonempty [of "n div 10"] by simp
  moreover have "length (Sprintf_d n) = length (Sprintf_d (n div 10)) + 1"
    using Sprintf_d_big [OF h] by simp
  ultimately show ?thesis by linarith
qed

lemma Sprintf_d_inj: "Sprintf_d n = Sprintf_d k \<Longrightarrow> n = k"
proof (induction n arbitrary: k rule: Sprintf_d.induct)
  case (1 n)
  show ?case
  proof (cases "n < 10")
    case True
    then have n1: "Sprintf_d n = [digit_char n]" by (rule Sprintf_d_small)
    show ?thesis
    proof (cases "k < 10")
      case k: True
      then have "Sprintf_d k = [digit_char k]" by (rule Sprintf_d_small)
      with n1 "1.prems" have "digit_char n = digit_char k" by simp
      with True k show ?thesis by (rule digit_char_inj)
    next
      case False
      then have "2 \<le> length (Sprintf_d k)" by (rule Sprintf_d_length)
      with n1 "1.prems" show ?thesis by simp
    qed
  next
    case False
    then have n2: "Sprintf_d n = Sprintf_d (n div 10) @ [digit_char (n mod 10)]"
      by (rule Sprintf_d_big)
    show ?thesis
    proof (cases "k < 10")
      case True
      then have "Sprintf_d k = [digit_char k]" by (rule Sprintf_d_small)
      moreover from False have "2 \<le> length (Sprintf_d n)" by (rule Sprintf_d_length)
      ultimately show ?thesis using "1.prems" by simp
    next
      case k: False
      then have "Sprintf_d k = Sprintf_d (k div 10) @ [digit_char (k mod 10)]"
        by (rule Sprintf_d_big)
      with n2 "1.prems" have e1: "Sprintf_d (n div 10) = Sprintf_d (k div 10)"
        and e2: "digit_char (n mod 10) = digit_char (k mod 10)" by simp_all
      from "1.IH" [OF False e1] have d: "n div 10 = k div 10" .
      have "n mod 10 = k mod 10" by (rule digit_char_inj [OF _ _ e2]) simp_all
      with d show ?thesis by (metis div_mult_mod_eq)
    qed
  qed
qed

lemma split_at_sep:
  "a \<notin> set xs \<Longrightarrow> a \<notin> set xs' \<Longrightarrow> xs @ a # ys = xs' @ a # ys' \<Longrightarrow> xs = xs' \<and> ys = ys'"
proof (induction xs arbitrary: xs')
  case Nil
  then show ?case by (cases xs') auto
next
  case (Cons x xs)
  then show ?case by (cases xs') auto
qed

lemma query_id_inj:
  assumes "m \<in> set getCloudWatchMetricsName" and "m' \<in> set getCloudWatchMetricsName"
    and "query_id m i = query_id m' i'"
  shows "m = m' \<and> i = i'"
proof -
  have "ToLower m @ CHR ''_'' # Sprintf_d i = ToLower m' @ CHR ''_'' # Sprintf_d i'"
    using assms(3) by (simp add: query_id_def)
  then have "ToLower m = ToLower m' \<and> Sprintf_d i = Sprintf_d i'"
    by (rule split_at_sep [OF ToLower_names_no_underscore [OF assms(1)]
          ToLower_names_no_underscore [OF assms(2)]])
  moreover have "inj_on ToLower (set getCloudWatchMetricsName)"
    using ToLower_names_distinct by (simp add: distinct_map)
  ultimately show ?thesis using assms(1,2) by (auto dest: inj_onD Sprintf_d_inj)
qed

section \<open>Facts about the generated queries\<close>

lemma queries_of_instance_other:
  "(\<forall>m \<in> set ms. query_id m i \<noteq> k) \<Longrightarrow> queries_of_instance i d ms q k = q k"
  by (induction ms arbitrary: q) auto

lemma queries_of_instance_hit:
  "m \<in> set ms \<Longrightarrow> set ms \<subseteq> set getCloudWatchMetricsName \<Longrightarrow> distinct ms \<Longrightarrow>
   queries_of_instance i d ms q (query_id m i) =
     Some (generateCloudWatchQueryForInstance (query_id m i) m d)"
proof (induction ms arbitrary: q)
  case Nil
  then show ?case by simp
next
  case (Cons a ms)
  show ?case
  proof (cases "m = a")
    case True
    have "\<forall>m' \<in> set ms. query_id m' i \<noteq> query_id m i"
    proof
      fix m' assume m': "m' \<in> set ms"
      with Cons.prems True have "m' \<noteq> m" by auto
      moreover have "m' \<in> set getCloudWatchMetricsName" "m \<in> set getCloudWatchMetricsName"
        using Cons.prems m' by auto
      ultimately show "query_id m' i \<noteq> query_id m i"
        using query_id_inj by blast
    qed
    then show ?thesis using True by (simp add: queries_of_instance_other)
  next
    case False
    with Cons show ?thesis by simp
  qed
qed

lemma queries_of_instance_dom:
  "dom (queries_of_instance i d ms q) = dom q \<union> (\<lambda>m. query_id m i) ` set ms"
  by (induction ms arbitrary: q) auto

lemma queries_of_instances_other:
  "(\<forall>m \<in> set getCloudWatchMetricsName. \<forall>i. j \<le> i \<and> i < j + length ds \<longrightarrow> query_id m i \<noteq> k) \<Longrightarrow>
   queries_of_instances j ds q k = q k"
proof (induction ds arbitrary: j q)
  case Nil
  then show ?case by simp
next
  case (Cons d ds)
  have "queries_of_instances (Suc j) ds (queries_of_instance j d getCloudWatchMetricsName q) k
        = queries_of_instance j d getCloudWatchMetricsName q k"
    by (rule Cons.IH) (use Cons.prems in auto)
  also have "\<dots> = q k"
    by (rule queries_of_instance_other) (use Cons.prems in auto)
  finally show ?case by simp
qed

lemma queries_of_instances_hit:
  "m \<in> set getCloudWatchMetricsName \<Longrightarrow> j \<le> i \<Longrightarrow> i < j + length ds \<Longrightarrow>
   queries_of_instances j ds q (query_id m i) =
     Some (generateCloudWatchQueryForInstance (query_id m i) m (ds ! (i - j)))"
proof (induction ds arbitrary: j q)
  case Nil
  then show ?case by simp
next
  case (Cons d ds)
  show ?case
  proof (cases "i = j")
    case True
    have "queries_of_instances (Suc j) ds (queries_of_instance j d getCloudWatchMetricsName q) (query_id m i)
          = queries_of_instance j d getCloudWatchMetricsName q (query_id m i)"
    proof (rule queries_of_instances_other, intro ballI allI impI)
      fix m' i' assume "m' \<in> set getCloudWatchMetricsName" "Suc j \<le> i' \<and> i' < Suc j + length ds"
      with True Cons.prems(1) show "query_id m' i' \<noteq> query_id m i"
        using query_id_inj [of m' m i' i] by auto
    qed
    also have "\<dots> = Some (generateCloudWatchQueryForInstance (query_id m i) m d)"
      unfolding True
      by (rule queries_of_instance_hit) (use Cons.prems getCloudWatchMetricsName_distinct in auto)
    finally show ?thesis using True by simp
  next
    case False
    with Cons.prems have "Suc j \<le> i" "i < Suc j + length ds" by auto
    from Cons.IH [OF Cons.prems(1) this] False Cons.prems show ?thesis
      by (simp add: Suc_diff_le)
  qed
qed

lemma queries_of_instances_dom:
  "dom (queries_of_instances j ds q) =
     dom q \<union> {query_id m i | m i. m \<in> set getCloudWatchMetricsName \<and> j \<le> i \<and> i < j + length ds}"
proof (induction ds arbitrary: j q)
  case Nil
  then show ?case by auto
next
  case (Cons d ds)
  have "{query_id m i | m i. m \<in> set getCloudWatchMetricsName \<and> j \<le> i \<and> i < j + length (d # ds)}
      = (\<lambda>m. query_id m j) ` set getCloudWatchMetricsName \<union>
        {query_id m i | m i. m \<in> set getCloudWatchMetricsName \<and> Suc j \<le> i \<and> i < Suc j + length ds}"
    (is "?A = ?B \<union> ?C")
  proof (intro set_eqI iffI)
    fix x assume "x \<in> ?A"
    then obtain m i where x: "x = query_id m i" "m \<in> set getCloudWatchMetricsName" "j \<le> i" "i < j + length (d # ds)"
      by blast
    show "x \<in> ?B \<union> ?C"
    proof (cases "i = j")
      case True with x show ?thesis by blast
    next
      case False
      with x have "Suc j \<le> i \<and> i < Suc j + length ds" by simp
      with x show ?thesis by blast
    qed
  next
    fix x assume "x \<in> ?B \<union> ?C"
    then show "x \<in> ?A"
    proof
      assume "x \<in> ?B"
      then obtain m where "x = query_id m j" "m \<in> set getCloudWatchMetricsName" by blast
      then show ?thesis by force
    next
      assume "x \<in> ?C"
      then obtain m i where "x = query_id m i" "m \<in> set getCloudWatchMetricsName" "Suc j \<le> i" "i < Suc j + length ds"
        by blast
      then show ?thesis by force
    qed
  qed
  then show ?case by (simp add: Cons.IH queries_of_instance_dom Un_assoc)
qed

lemma generate_lookup:
  "m \<in> set getCloudWatchMetricsName \<Longrightarrow> i < length D \<Longrightarrow>
   generateCloudWatchQueriesForInstances D (query_id m i) =
     Some (generateCloudWatchQueryForInstance (query_id m i) m (D ! i))"
  unfolding generateCloudWatchQueriesForInstances_def
  using queries_of_instances_hit [of m 0 i D Map.empty] by simp

lemma generate_dom:
  "dom (generateCloudWatchQueriesForInstances D) =
     {query_id m i | m i. m \<in> set getCloudWatchMetricsName \<and> i < length D}"
  unfolding generateCloudWatchQueriesForInstances_def
  by (simp add: queries_of_instances_dom)

section \<open>Facts about the fetcher\<close>

lemma updateMetrics_fetcher:
  "snd (updateMetricsWithCloudWatchQueriesResult c ms reqs s e ch) =
     c\<lparr>sent := sent c @ [GetMetricDataInput_of reqs s e ch]\<rparr>"
  by (simp add: updateMetricsWithCloudWatchQueriesResult_def Let_def split: sum.split)

lemma updateMetrics_result:
  "fst (updateMetricsWithCloudWatchQueriesResult c ms reqs s e ch) =
     (case client c (GetMetricDataInput_of reqs s e ch) of
        Inl err \<Rightarrow> (ms, Some (Errorf ''error calling GetMetricData'' err))
      | Inr resp \<Rightarrow> process_results reqs resp ms)"
  by (simp add: updateMetricsWithCloudWatchQueriesResult_def Let_def split: sum.split)

lemma range_cloudWatchQueries_chunks:
  "range_cloudWatchQueries reqs s e keys st = (st', err) \<Longrightarrow>
   length (chunk st) < MaxQueriesPerCloudwatchRequest \<Longrightarrow>
   \<exists>cs. fetcher st' = (fetcher st)\<lparr>sent := sent (fetcher st) @ map (GetMetricDataInput_of reqs s e) cs\<rparr> \<and>
        (\<forall>ch \<in> set cs. length ch = MaxQueriesPerCloudwatchRequest) \<and>
        (err = None \<longrightarrow> concat cs @ chunk st' = chunk st @ keys \<and>
                         length (chunk st') < MaxQueriesPerCloudwatchRequest) \<and>
        (err \<noteq> None \<longrightarrow> prefix (concat cs) (chunk st @ keys))"
proof (induction keys arbitrary: st)
  case Nil
  then have "st' = st" "err = None" by simp_all
  then show ?case using Nil.prems(2) by (intro exI [of _ "[]"]) simp
next
  case (Cons q keys)
  let ?chunk1 = "chunk st @ [q]"
  show ?case
  proof (cases "length ?chunk1 = MaxQueriesPerCloudwatchRequest")
    case full: True
    obtain ms1 e1 c1 where u:
      "updateMetricsWithCloudWatchQueriesResult (fetcher st) (metrics_map st) reqs s e ?chunk1 = ((ms1, e1), c1)"
      by (metis prod.exhaust)
    have c1: "c1 = (fetcher st)\<lparr>sent := sent (fetcher st) @ [GetMetricDataInput_of reqs s e ?chunk1]\<rparr>"
      using updateMetrics_fetcher [of "fetcher st" "metrics_map st" reqs s e ?chunk1] u by simp
    show ?thesis
    proof (cases e1)
      case (Some err1)
      with Cons.prems(1) full u have
        "st' = st\<lparr>fetcher := c1, metrics_map := ms1, chunk := ?chunk1\<rparr>" "err \<noteq> None"
        by (auto simp: Let_def)
      then show ?thesis using c1 full
        by (intro exI [of _ "[?chunk1]"]) simp
    next
      case None
      let ?st2 = "st\<lparr>fetcher := c1, metrics_map := ms1, chunk := [],
                      cloudWatchAPICalls := cloudWatchAPICalls st + 1\<rparr>"
      from Cons.prems(1) full u None
      have r: "range_cloudWatchQueries reqs s e keys ?st2 = (st', err)"
        by (simp add: Let_def)
      have "length (chunk ?st2) < MaxQueriesPerCloudwatchRequest"
        by (simp add: MaxQueriesPerCloudwatchRequest_def)
      from Cons.IH [OF r this] obtain cs where cs:
        "fetcher st' = (fetcher ?st2)\<lparr>sent := sent (fetcher ?st2) @ map (GetMetricDataInput_of reqs s e) cs\<rparr>"
        "\<forall>ch \<in> set cs. length ch = MaxQueriesPerCloudwatchRequest"
        "err = None \<longrightarrow> concat cs @ chunk st' = chunk ?st2 @ keys \<and>
                         length (chunk st') < MaxQueriesPerCloudwatchRequest"
        "err \<noteq> None \<longrightarrow> prefix (concat cs) (chunk ?st2 @ keys)"
        by blast
      show ?thesis
        using cs c1 full by (intro exI [of _ "?chunk1 # cs"]) auto
    qed
  next
    case notfull: False
    let ?st2 = "st\<lparr>chunk := ?chunk1\<rparr>"
    from Cons.prems(1) notfull
    have r: "range_cloudWatchQueries reqs s e keys ?st2 = (st', err)"
      by (simp add: Let_def)
    have "length (chunk ?st2) < MaxQueriesPerCloudwatchRequest"
      using Cons.prems(2) notfull by simp
    from Cons.IH [OF r this] show ?thesis by simp
  qed
qed


lemma Update_ok:
  "Update f v m = (m', None) \<Longrightarrow> f \<in> set getCloudWatchMetricsName"
  using Update_unknown [of f v m] by (cases "f \<in> set getCloudWatchMetricsName") auto


lemma process_results_nil_values:
  "Values r = None \<Longrightarrow> process_results reqs (r # resp) ms = process_results reqs resp ms"
  by simp

lemma process_results_empty_values:
  "Values r = Some [] \<Longrightarrow>
   process_results reqs (r # resp) ms =
     process_results reqs resp
       (ms(Dbidentifier (lookup_request reqs (Result_Id r)) \<mapsto>
             current_sample ms (Dbidentifier (lookup_request reqs (Result_Id r)))))"
  by (simp add: Let_def current_sample_def)

lemma process_results_known:
  assumes "Values r = Some (v # vs)"
    and "MetricName (lookup_request reqs (Result_Id r)) \<in> set getCloudWatchMetricsName"
  shows "process_results reqs (r # resp) ms =
     process_results reqs resp
       (ms(Dbidentifier (lookup_request reqs (Result_Id r)) \<mapsto>
             fst (Update (MetricName (lookup_request reqs (Result_Id r))) v
                    (current_sample ms (Dbidentifier (lookup_request reqs (Result_Id r)))))))"
proof -
  let ?val = "lookup_request reqs (Result_Id r)"
  let ?cur = "current_sample ms (Dbidentifier ?val)"
  obtain cur' e1 where u: "Update (MetricName ?val) v ?cur = (cur', e1)" by (metis prod.exhaust)
  with Update_known(1) [OF assms(2), of v ?cur] have "e1 = None" by simp
  with u assms(1) show ?thesis
    by (simp add: Let_def current_sample_def)
qed

lemma process_results_unknown:
  assumes "Values r = Some (v # vs)"
    and "MetricName (lookup_request reqs (Result_Id r)) \<notin> set getCloudWatchMetricsName"
  shows "process_results reqs (r # resp) ms =
     (ms(Dbidentifier (lookup_request reqs (Result_Id r)) \<mapsto>
           current_sample ms (Dbidentifier (lookup_request reqs (Result_Id r)))),
      Some (Errorf (''failed to process metrics '' @ MetricName (lookup_request reqs (Result_Id r)))
             (Errorf (''can't process '' @ [CHR 0x27] @ MetricName (lookup_request reqs (Result_Id r))
                        @ [CHR 0x27] @ '' metrics'') errUnknownMetric)))"
  using assms(1) Update_unknown [OF assms(2)]
  by (simp add: Let_def current_sample_def)

declare process_results.simps(2) [simp del]

lemma sample_field_touch:
  "sample_field (ms(d \<mapsto> current_sample ms d)) d' name = sample_field ms d' name"
  by (simp add: sample_field_def current_sample_def metric_field_eqs metric_field_def
        empty_RdsMetrics_def split: option.split)

lemma sample_field_Update:
  assumes "f \<in> set getCloudWatchMetricsName"
  shows "sample_field (ms(d \<mapsto> fst (Update f v (current_sample ms d)))) d' name =
           (if d' = d \<and> name = f then Some v else sample_field ms d' name)"
proof (cases "d' = d")
  case False
  then show ?thesis by (simp add: sample_field_def)
next
  case True
  have cur: "metric_field name (current_sample ms d) = sample_field ms d name"
    using sample_field_touch [of ms d d name] by (simp add: sample_field_def)
  show ?thesis
  proof (cases "name = f")
    case True
    with \<open>d' = d\<close> Update_known(2) [OF assms] show ?thesis by (simp add: sample_field_def)
  next
    case False
    with \<open>d' = d\<close> Update_known(3) [OF assms False] cur show ?thesis
      by (simp add: sample_field_def)
  qed
qed


lemma process_results_quiet:
  assumes "\<forall>r \<in> set resp. Dbidentifier (lookup_request reqs (Result_Id r)) = d \<longrightarrow>
             MetricName (lookup_request reqs (Result_Id r)) = name \<longrightarrow>
             Values r = None \<or> Values r = Some []"
  shows "sample_field (fst (process_results reqs resp ms)) d name = sample_field ms d name"
  using assms
proof (induction resp arbitrary: ms)
  case Nil
  then show ?case by simp
next
  case (Cons a resp)
  from Cons.prems have rest: "\<forall>r \<in> set resp. Dbidentifier (lookup_request reqs (Result_Id r)) = d \<longrightarrow>
             MetricName (lookup_request reqs (Result_Id r)) = name \<longrightarrow>
             Values r = None \<or> Values r = Some []" by simp
  note IH = Cons.IH [OF rest]
  let ?d = "Dbidentifier (lookup_request reqs (Result_Id a))"
  let ?n = "MetricName (lookup_request reqs (Result_Id a))"
  show ?case
  proof (cases "Values a")
    case None
    then have "process_results reqs (a # resp) ms = process_results reqs resp ms"
      by (rule process_results_nil_values)
    with IH [of ms] show ?thesis by simp
  next
    case (Some vals)
    show ?thesis
    proof (cases vals)
      case Nil
      with Some have "process_results reqs (a # resp) ms =
          process_results reqs resp (ms(?d \<mapsto> current_sample ms ?d))"
        by (simp only: process_results_empty_values)
      then have "sample_field (fst (process_results reqs (a # resp) ms)) d name =
          sample_field (ms(?d \<mapsto> current_sample ms ?d)) d name"
        using IH [of "ms(?d \<mapsto> current_sample ms ?d)"] by (simp only:)
      then show ?thesis by (simp only: sample_field_touch)
    next
      case (Cons w ws)
      show ?thesis
      proof (cases "?n \<in> set getCloudWatchMetricsName")
        case True
        have miss: "\<not> (d = ?d \<and> name = ?n)"
          using Cons.prems Some \<open>vals = w # ws\<close> by auto
        from Some \<open>vals = w # ws\<close> have v: "Values a = Some (w # ws)" by simp
        have "process_results reqs (a # resp) ms =
          process_results reqs resp (ms(?d \<mapsto> fst (Update ?n w (current_sample ms ?d))))"
          by (rule process_results_known [OF v True])
        then have "sample_field (fst (process_results reqs (a # resp) ms)) d name =
          sample_field (ms(?d \<mapsto> fst (Update ?n w (current_sample ms ?d)))) d name"
          using IH [of "ms(?d \<mapsto> fst (Update ?n w (current_sample ms ?d)))"] by (simp only:)
        also have "\<dots> = sample_field ms d name"
          using miss by (simp only: sample_field_Update [OF True] if_False)
        finally show ?thesis .
      next
        case False
        from Some \<open>vals = w # ws\<close> have v: "Values a = Some (w # ws)" by simp
        show ?thesis
          by (simp only: process_results_unknown [OF v False] fst_conv sample_field_touch)
      qed
    qed
  qed
qed

lemma updateMetrics_quiet:
  assumes "\<forall>p resp. client c p = Inr resp \<longrightarrow>
             (\<forall>r \<in> set resp. Dbidentifier (lookup_request reqs (Result_Id r)) = d \<longrightarrow>
                MetricName (lookup_request reqs (Result_Id r)) = name \<longrightarrow>
                Values r = None \<or> Values r = Some [])"
  shows "sample_field (fst (fst (updateMetricsWithCloudWatchQueriesResult c ms reqs s e ch))) d name
           = sample_field ms d name"
proof (cases "client c (GetMetricDataInput_of reqs s e ch)")
  case (Inl err)
  then show ?thesis by (simp add: updateMetrics_result)
next
  case (Inr resp)
  with assms have "\<forall>r \<in> set resp. Dbidentifier (lookup_request reqs (Result_Id r)) = d \<longrightarrow>
                MetricName (lookup_request reqs (Result_Id r)) = name \<longrightarrow>
                Values r = None \<or> Values r = Some []" by blast
  from process_results_quiet [OF this] Inr show ?thesis by (simp add: updateMetrics_result)
qed

lemma range_cloudWatchQueries_client:
  "range_cloudWatchQueries reqs s e keys st = (st', err) \<Longrightarrow>
   client (fetcher st') = client (fetcher st) \<and>
   CloudWatchAPICall (fetcher st') = CloudWatchAPICall (fetcher st)"
proof (induction keys arbitrary: st)
  case Nil
  then show ?case by simp
next
  case (Cons q keys)
  let ?chunk1 = "chunk st @ [q]"
  show ?case
  proof (cases "length ?chunk1 = MaxQueriesPerCloudwatchRequest")
    case full: True
    obtain ms1 e1 c1 where u:
      "updateMetricsWithCloudWatchQueriesResult (fetcher st) (metrics_map st) reqs s e ?chunk1 = ((ms1, e1), c1)"
      by (metis prod.exhaust)
    have c1: "c1 = (fetcher st)\<lparr>sent := sent (fetcher st) @ [GetMetricDataInput_of reqs s e ?chunk1]\<rparr>"
      using updateMetrics_fetcher [of "fetcher st" "metrics_map st" reqs s e ?chunk1] u by simp
    show ?thesis
    proof (cases e1)
      case (Some err1)
      with Cons.prems(1) full u c1 show ?thesis by (auto simp: Let_def)
    next
      case None
      let ?st2 = "st\<lparr>fetcher := c1, metrics_map := ms1, chunk := [],
                      cloudWatchAPICalls := cloudWatchAPICalls st + 1\<rparr>"
      from Cons.prems(1) full u None
      have r: "range_cloudWatchQueries reqs s e keys ?st2 = (st', err)"
        by (simp add: Let_def)
      from Cons.IH [OF r] c1 show ?thesis by simp
    qed
  next
    case notfull: False
    let ?st2 = "st\<lparr>chunk := ?chunk1\<rparr>"
    from Cons.prems(1) notfull
    have r: "range_cloudWatchQueries reqs s e keys ?st2 = (st', err)"
      by (simp add: Let_def)
    from Cons.IH [OF r] show ?thesis by simp
  qed
qed

lemma range_cloudWatchQueries_quiet:
  assumes "\<forall>p resp. client (fetcher st) p = Inr resp \<longrightarrow>
             (\<forall>r \<in> set resp. Dbidentifier (lookup_request reqs (Result_Id r)) = d \<longrightarrow>
                MetricName (lookup_request reqs (Result_Id r)) = name \<longrightarrow>
                Values r = None \<or> Values r = Some [])"
    and "range_cloudWatchQueries reqs s e keys st = (st', err)"
  shows "sample_field (metrics_map st') d name = sample_field (metrics_map st) d name"
  using assms
proof (induction keys arbitrary: st)
  case Nil
  then show ?case by simp
next
  case (Cons q keys)
  let ?chunk1 = "chunk st @ [q]"
  show ?case
  proof (cases "length ?chunk1 = MaxQueriesPerCloudwatchRequest")
    case full: True
    obtain ms1 e1 c1 where u:
      "updateMetricsWithCloudWatchQueriesResult (fetcher st) (metrics_map st) reqs s e ?chunk1 = ((ms1, e1), c1)"
      by (metis prod.exhaust)
    have c1: "c1 = (fetcher st)\<lparr>sent := sent (fetcher st) @ [GetMetricDataInput_of reqs s e ?chunk1]\<rparr>"
      using updateMetrics_fetcher [of "fetcher st" "metrics_map st" reqs s e ?chunk1] u by simp
    have ms1: "sample_field ms1 d name = sample_field (metrics_map st) d name"
      using updateMetrics_quiet [OF Cons.prems(1), of "metrics_map st" s e ?chunk1] u by simp
    show ?thesis
    proof (cases e1)
      case (Some err1)
      with Cons.prems(2) full u ms1 show ?thesis by (auto simp: Let_def)
    next
      case None
      let ?st2 = "st\<lparr>fetcher := c1, metrics_map := ms1, chunk := [],
                      cloudWatchAPICalls := cloudWatchAPICalls st + 1\<rparr>"
      from Cons.prems(2) full u None
      have r: "range_cloudWatchQueries reqs s e keys ?st2 = (st', err)"
        by (simp add: Let_def)
      have q: "\<forall>p resp. client (fetcher ?st2) p = Inr resp \<longrightarrow>
             (\<forall>r \<in> set resp. Dbidentifier (lookup_request reqs (Result_Id r)) = d \<longrightarrow>
                MetricName (lookup_request reqs (Result_Id r)) = name \<longrightarrow>
                Values r = None \<or> Values r = Some [])"
        using Cons.prems(1) c1 by simp
      from Cons.IH [OF q r] ms1 show ?thesis by simp
    qed
  next
    case notfull: False
    let ?st2 = "st\<lparr>chunk := ?chunk1\<rparr>"
    from Cons.prems(2) notfull
    have r: "range_cloudWatchQueries reqs s e keys ?st2 = (st', err)"
      by (simp add: Let_def)
    have q: "\<forall>p resp. client (fetcher ?st2) p = Inr resp \<longrightarrow>
             (\<forall>r \<in> set resp. Dbidentifier (lookup_request reqs (Result_Id r)) = d \<longrightarrow>
                MetricName (lookup_request reqs (Result_Id r)) = name \<longrightarrow>
                Values r = None \<or> Values r = Some [])"
      using Cons.prems(1) by simp
    from Cons.IH [OF q r] show ?thesis by simp
  qed
qed


lemma length_concat_const:
  "(\<forall>ch \<in> set cs. length ch = n) \<Longrightarrow> length (concat cs) = n * length cs"
  by (induction cs) simp_all

lemma ceil_div_chunks:
  fixes a r :: nat
  assumes "r < 500"
  shows "(500 * a + r + 499) div 500 = (if r = 0 then a else a + 1)"
    and "(500 * a + r) mod 500 = r"
  using assms by auto

text \<open>
  What one call of \<open>GetRDSInstanceMetrics\<close> does to the fetcher: the requests it
  sends are the queries of consecutive chunks \<open>cs\<close> of the visited keys.
\<close>

lemma GetRDSInstanceMetrics_chunks:
  assumes "GetRDSInstanceMetrics n1 n2 keys c D = ((res, err), c')"
  shows "\<exists>cs. sent c' = sent c @ map (GetMetricDataInput_of (generateCloudWatchQueriesForInstances D)
                                     (n1 - three_minutes) n2) cs \<and>
          client c' = client c \<and>
          (\<forall>ch \<in> set cs. 0 < length ch \<and> length ch \<le> MaxQueriesPerCloudwatchRequest) \<and>
          (\<forall>ch \<in> set (butlast cs). length ch = MaxQueriesPerCloudwatchRequest) \<and>
          prefix (concat cs) keys \<and>
          (err = None \<longrightarrow> concat cs = keys \<and>
             length cs = (length keys + 499) div 500 \<and>
             CloudWatchAPICall c' = CloudWatchAPICall c + (if length keys mod 500 = 0 then 0 else 1)) \<and>
          (err \<noteq> None \<longrightarrow> res = zero_CloudWatchMetrics \<and> CloudWatchAPICall c' = CloudWatchAPICall c)"
proof -
  let ?reqs = "generateCloudWatchQueriesForInstances D"
  let ?s = "n1 - three_minutes"
  let ?st0 = "\<lparr> fetcher = c, metrics_map = Map.empty, chunk = [], cloudWatchAPICalls = 0 \<rparr>"
  obtain st err0 where loop: "range_cloudWatchQueries ?reqs ?s n2 keys ?st0 = (st, err0)"
    by (metis prod.exhaust)
  have "length (chunk ?st0) < MaxQueriesPerCloudwatchRequest"
    by (simp add: MaxQueriesPerCloudwatchRequest_def)
  from range_cloudWatchQueries_chunks [OF loop this] obtain cs where cs:
    "fetcher st = c\<lparr>sent := sent c @ map (GetMetricDataInput_of ?reqs ?s n2) cs\<rparr>"
    "\<forall>ch \<in> set cs. length ch = MaxQueriesPerCloudwatchRequest"
    "err0 = None \<longrightarrow> concat cs @ chunk st = keys \<and> length (chunk st) < MaxQueriesPerCloudwatchRequest"
    "err0 \<noteq> None \<longrightarrow> prefix (concat cs) keys"
    by auto
  have full: "\<forall>ch \<in> set cs. 0 < length ch \<and> length ch \<le> MaxQueriesPerCloudwatchRequest"
    using cs(2) by (simp add: MaxQueriesPerCloudwatchRequest_def)
  have bl: "\<forall>ch \<in> set (butlast cs). length ch = MaxQueriesPerCloudwatchRequest"
    using cs(2) by (auto dest: in_set_butlastD)
  show ?thesis
  proof (cases err0)
    case (Some e0)
    with assms loop have "res = zero_CloudWatchMetrics" "err = Some e0" "c' = fetcher st"
      by (simp_all add: GetRDSInstanceMetrics_def Let_def)
    with cs(1,4) Some full bl show ?thesis
      by (intro exI [of _ cs]) simp
  next
    case None
    with cs(3) have keys: "concat cs @ chunk st = keys"
      and short: "length (chunk st) < MaxQueriesPerCloudwatchRequest" by simp_all
    have len: "length keys = 500 * length cs + length (chunk st)"
      using keys length_concat_const [OF cs(2)]
      by (metis MaxQueriesPerCloudwatchRequest_def length_append)
    show ?thesis
    proof (cases "chunk st = []")
      case True
      with assms loop None have r: "res = \<lparr> Instances = metrics_map st \<rparr>" "err = None" "c' = fetcher st"
        by (simp_all add: GetRDSInstanceMetrics_def Let_def)
      from True len have "length keys = 500 * length cs" by simp
      then have "(length keys + 499) div 500 = length cs" "length keys mod 500 = 0"
        by simp_all
      with r cs(1) keys True full bl show ?thesis
        by (intro exI [of _ cs]) simp
    next
      case False
      then have pos: "0 < length (chunk st)" by simp
      obtain ms1 e1 c1 where u:
        "updateMetricsWithCloudWatchQueriesResult (fetcher st) (metrics_map st) ?reqs ?s n2 (chunk st) = ((ms1, e1), c1)"
        by (metis prod.exhaust)
      have c1: "c1 = (fetcher st)\<lparr>sent := sent (fetcher st) @ [GetMetricDataInput_of ?reqs ?s n2 (chunk st)]\<rparr>"
        using updateMetrics_fetcher [of "fetcher st" "metrics_map st" ?reqs ?s n2 "chunk st"] u by simp
      let ?cs = "cs @ [chunk st]"
      have all: "\<forall>ch \<in> set ?cs. 0 < length ch \<and> length ch \<le> MaxQueriesPerCloudwatchRequest"
        using full pos short by auto
      have cat: "concat ?cs = keys" using keys by simp
      have bl2: "\<forall>ch \<in> set (butlast ?cs). length ch = MaxQueriesPerCloudwatchRequest"
        using cs(2) by simp
      have snt: "sent c1 = sent c @ map (GetMetricDataInput_of ?reqs ?s n2) ?cs"
        using c1 cs(1) by simp
      have cl: "client c1 = client c" "CloudWatchAPICall c1 = CloudWatchAPICall c"
        using c1 cs(1) by simp_all
      show ?thesis
      proof (cases e1)
        case (Some e2)
        with assms loop None pos u have "res = zero_CloudWatchMetrics" "err \<noteq> None" "c' = c1"
          by (auto simp: GetRDSInstanceMetrics_def Let_def)
        with snt cl all cat bl2 show ?thesis
          by (intro exI [of _ ?cs]) auto
      next
        case e1: None
        with assms loop None pos u have r: "err = None"
          "c' = c1\<lparr>CloudWatchAPICall := CloudWatchAPICall c1 + 1\<rparr>"
          by (simp_all add: GetRDSInstanceMetrics_def Let_def)
        from short have lt: "length (chunk st) < 500"
          by (simp add: MaxQueriesPerCloudwatchRequest_def)
        have "(length keys + 499) div 500 = length cs + 1" "length keys mod 500 \<noteq> 0"
          using ceil_div_chunks [OF lt, of "length cs"] len pos by simp_all
        with r snt cl all cat bl2 show ?thesis
          by (intro exI [of _ ?cs]) simp
      qed
    qed
  qed
qed


lemma sample_field_empty: "sample_field Map.empty d name = None"
  by (simp add: sample_field_def)

lemma GetRDSInstanceMetrics_quiet:
  assumes "\<forall>p resp. client c p = Inr resp \<longrightarrow>
             (\<forall>r \<in> set resp.
                Dbidentifier (lookup_request (generateCloudWatchQueriesForInstances D) (Result_Id r)) = d \<longrightarrow>
                MetricName (lookup_request (generateCloudWatchQueriesForInstances D) (Result_Id r)) = name \<longrightarrow>
                Values r = None \<or> Values r = Some [])"
  shows "sample_field (Instances (fst (fst (GetRDSInstanceMetrics n1 n2 keys c D)))) d name = None"
proof -
  let ?reqs = "generateCloudWatchQueriesForInstances D"
  let ?s = "n1 - three_minutes"
  let ?st0 = "\<lparr> fetcher = c, metrics_map = Map.empty, chunk = [], cloudWatchAPICalls = 0 \<rparr>"
  obtain st err0 where loop: "range_cloudWatchQueries ?reqs ?s n2 keys ?st0 = (st, err0)"
    by (metis prod.exhaust)
  have cl: "client (fetcher st) = client c"
    using range_cloudWatchQueries_client [OF loop] by simp
  have "sample_field (metrics_map st) d name = sample_field (metrics_map ?st0) d name"
    by (rule range_cloudWatchQueries_quiet [OF _ loop]) (use assms in simp)
  then have st: "sample_field (metrics_map st) d name = None"
    by (simp add: sample_field_empty)
  obtain ms1 e1 c1 where u:
    "updateMetricsWithCloudWatchQueriesResult (fetcher st) (metrics_map st) ?reqs ?s n2 (chunk st) = ((ms1, e1), c1)"
    by (metis prod.exhaust)
  have "sample_field ms1 d name = sample_field (metrics_map st) d name"
    using updateMetrics_quiet [of "fetcher st" ?reqs d name "metrics_map st" ?s n2 "chunk st"] u assms cl
    by simp
  with st have ms1: "sample_field ms1 d name = None" by simp
  show ?thesis
    using loop u st ms1
    by (cases err0; cases e1)
       (simp_all add: GetRDSInstanceMetrics_def Let_def zero_CloudWatchMetrics_def sample_field_empty)
qed

lemma lookup_request_generated:
  "m \<in> set getCloudWatchMetricsName \<Longrightarrow> i < length D \<Longrightarrow>
   lookup_request (generateCloudWatchQueriesForInstances D) (query_id m i) =
     generateCloudWatchQueryForInstance (query_id m i) m (D ! i)"
  by (simp add: lookup_request_def generate_lookup)

lemma lookup_request_foreign:
  "q \<notin> dom (generateCloudWatchQueriesForInstances D) \<Longrightarrow>
   lookup_request (generateCloudWatchQueriesForInstances D) q = zero_CloudWatchMetricRequest"
  by (auto simp: lookup_request_def split: option.split)

lemma lookup_request_name:
  "MetricName (lookup_request (generateCloudWatchQueriesForInstances D) q) \<in> set getCloudWatchMetricsName
     \<longleftrightarrow> q \<in> dom (generateCloudWatchQueriesForInstances D)"
proof
  assume "q \<in> dom (generateCloudWatchQueriesForInstances D)"
  then obtain m i where "q = query_id m i" "m \<in> set getCloudWatchMetricsName" "i < length D"
    unfolding generate_dom by blast
  then show "MetricName (lookup_request (generateCloudWatchQueriesForInstances D) q) \<in> set getCloudWatchMetricsName"
    by (simp add: lookup_request_generated generateCloudWatchQueryForInstance_def)
next
  assume a: "MetricName (lookup_request (generateCloudWatchQueriesForInstances D) q) \<in> set getCloudWatchMetricsName"
  show "q \<in> dom (generateCloudWatchQueriesForInstances D)"
  proof (rule ccontr)
    assume "q \<notin> dom (generateCloudWatchQueriesForInstances D)"
    from lookup_request_foreign [OF this] a show False
      by (simp add: zero_CloudWatchMetricRequest_def getCloudWatchMetricsName_def)
  qed
qed

lemma generate_dom_image:
  "dom (generateCloudWatchQueriesForInstances D) =
     (\<lambda>(m, i). query_id m i) ` (set getCloudWatchMetricsName \<times> {..<length D})"
  unfolding generate_dom by auto

lemma query_id_inj_on:
  "inj_on (\<lambda>(m, i). query_id m i) (set getCloudWatchMetricsName \<times> A)"
  by (rule inj_onI) (auto dest: query_id_inj)

lemma generate_card:
  "card (dom (generateCloudWatchQueriesForInstances D)) = 24 * length D"
proof -
  have "card (dom (generateCloudWatchQueriesForInstances D)) =
          card (set getCloudWatchMetricsName \<times> {..<length D})"
    unfolding generate_dom_image by (rule card_image) (rule query_id_inj_on)
  also have "\<dots> = card (set getCloudWatchMetricsName) * length D"
    by (simp add: card_cartesian_product)
  also have "card (set getCloudWatchMetricsName) = 24"
    using distinct_card [OF getCloudWatchMetricsName_distinct]
    by (simp add: getCloudWatchMetricsName_length)
  finally show ?thesis .
qed

lemma range_order_length:
  "range_order (generateCloudWatchQueriesForInstances D) keys \<Longrightarrow> length keys = 24 * length D"
  using generate_card [of D] distinct_card [of keys] by (simp add: range_order_def)

lemma canonical_keys_set:
  "set (canonical_keys D) = dom (generateCloudWatchQueriesForInstances D)"
  unfolding generate_dom canonical_keys_def by fastforce

lemma canonical_keys_length: "length (canonical_keys D) = 24 * length D"
  by (simp add: canonical_keys_def length_concat comp_def getCloudWatchMetricsName_length sum_list_triv)

lemma canonical_keys_distinct: "distinct (canonical_keys D)"
  by (rule card_distinct)
     (simp add: canonical_keys_set generate_card canonical_keys_length)

lemma canonical_keys_order:
  "range_order (generateCloudWatchQueriesForInstances D) (canonical_keys D)"
  by (simp add: range_order_def canonical_keys_set canonical_keys_distinct)

lemma process_results_good:
  assumes "\<forall>r \<in> set resp. Values r = None \<or> Values r = Some [] \<or>
             MetricName (lookup_request reqs (Result_Id r)) \<in> set getCloudWatchMetricsName"
  shows "snd (process_results reqs resp ms) = None"
  using assms
proof (induction resp arbitrary: ms)
  case Nil
  then show ?case by simp
next
  case (Cons a resp)
  then have IH: "\<And>ms. snd (process_results reqs resp ms) = None" by simp
  show ?case
  proof (cases "Values a")
    case None
    with IH show ?thesis by (simp add: process_results_nil_values)
  next
    case (Some vals)
    show ?thesis
    proof (cases vals)
      case Nil
      with Some IH show ?thesis by (simp only: process_results_empty_values)
    next
      case (Cons w ws)
      with Some Cons.prems have k: "MetricName (lookup_request reqs (Result_Id a)) \<in> set getCloudWatchMetricsName"
        and v: "Values a = Some (w # ws)" by auto
      show ?thesis by (simp only: process_results_known [OF v k] IH)
    qed
  qed
qed

lemma updateMetrics_good:
  assumes "\<forall>p. \<exists>resp. client c p = Inr resp \<and>
             (\<forall>r \<in> set resp. Values r = None \<or> Values r = Some [] \<or>
                MetricName (lookup_request reqs (Result_Id r)) \<in> set getCloudWatchMetricsName)"
  shows "snd (fst (updateMetricsWithCloudWatchQueriesResult c ms reqs s e ch)) = None"
proof -
  from assms obtain resp where "client c (GetMetricDataInput_of reqs s e ch) = Inr resp"
    and "\<forall>r \<in> set resp. Values r = None \<or> Values r = Some [] \<or>
                MetricName (lookup_request reqs (Result_Id r)) \<in> set getCloudWatchMetricsName"
    by blast
  then show ?thesis
    by (simp add: updateMetrics_result process_results_good)
qed

lemma range_cloudWatchQueries_good:
  assumes "\<forall>p. \<exists>resp. client (fetcher st) p = Inr resp \<and>
             (\<forall>r \<in> set resp. Values r = None \<or> Values r = Some [] \<or>
                MetricName (lookup_request reqs (Result_Id r)) \<in> set getCloudWatchMetricsName)"
  shows "snd (range_cloudWatchQueries reqs s e keys st) = None"
  using assms
proof (induction keys arbitrary: st)
  case Nil
  then show ?case by simp
next
  case (Cons q keys)
  let ?chunk1 = "chunk st @ [q]"
  show ?case
  proof (cases "length ?chunk1 = MaxQueriesPerCloudwatchRequest")
    case full: True
    obtain ms1 e1 c1 where u:
      "updateMetricsWithCloudWatchQueriesResult (fetcher st) (metrics_map st) reqs s e ?chunk1 = ((ms1, e1), c1)"
      by (metis prod.exhaust)
    have c1: "c1 = (fetcher st)\<lparr>sent := sent (fetcher st) @ [GetMetricDataInput_of reqs s e ?chunk1]\<rparr>"
      using updateMetrics_fetcher [of "fetcher st" "metrics_map st" reqs s e ?chunk1] u by simp
    have e1: "e1 = None"
      using updateMetrics_good [OF Cons.prems, of "metrics_map st" s e ?chunk1] u by simp
    let ?st2 = "st\<lparr>fetcher := c1, metrics_map := ms1, chunk := [],
                    cloudWatchAPICalls := cloudWatchAPICalls st + 1\<rparr>"
    have "snd (range_cloudWatchQueries reqs s e keys ?st2) = None"
      by (rule Cons.IH) (use Cons.prems c1 in simp)
    with full u e1 show ?thesis by (simp add: Let_def)
  next
    case notfull: False
    let ?st2 = "st\<lparr>chunk := ?chunk1\<rparr>"
    have "snd (range_cloudWatchQueries reqs s e keys ?st2) = None"
      by (rule Cons.IH) (use Cons.prems in simp)
    with notfull show ?thesis by (simp add: Let_def)
  qed
qed

lemma GetRDSInstanceMetrics_good:
  assumes "\<forall>p. \<exists>resp. client c p = Inr resp \<and>
             (\<forall>r \<in> set resp. Values r = None \<or> Values r = Some [] \<or>
                MetricName (lookup_request (generateCloudWatchQueriesForInstances D) (Result_Id r))
                  \<in> set getCloudWatchMetricsName)"
  shows "snd (fst (GetRDSInstanceMetrics n1 n2 keys c D)) = None"
proof -
  let ?reqs = "generateCloudWatchQueriesForInstances D"
  let ?s = "n1 - three_minutes"
  let ?st0 = "\<lparr> fetcher = c, metrics_map = Map.empty, chunk = [], cloudWatchAPICalls = 0 \<rparr>"
  obtain st err0 where loop: "range_cloudWatchQueries ?reqs ?s n2 keys ?st0 = (st, err0)"
    by (metis prod.exhaust)
  have "snd (range_cloudWatchQueries ?reqs ?s n2 keys ?st0) = None"
    by (rule range_cloudWatchQueries_good) (use assms in simp)
  with loop have err0: "err0 = None" by simp
  have cl: "client (fetcher st) = client c"
    using range_cloudWatchQueries_client [OF loop] by simp
  obtain ms1 e1 c1 where u:
    "updateMetricsWithCloudWatchQueriesResult (fetcher st) (metrics_map st) ?reqs ?s n2 (chunk st) = ((ms1, e1), c1)"
    by (metis prod.exhaust)
  have "snd (fst (updateMetricsWithCloudWatchQueriesResult (fetcher st) (metrics_map st) ?reqs ?s n2 (chunk st))) = None"
    by (rule updateMetrics_good) (use assms cl in simp)
  with u have "e1 = None" by simp
  with loop err0 u show ?thesis
    by (simp add: GetRDSInstanceMetrics_def Let_def)
qed

lemma range_cloudWatchQueries_short:
  "length (chunk st) + length keys < MaxQueriesPerCloudwatchRequest \<Longrightarrow>
   range_cloudWatchQueries reqs s e keys st = (st\<lparr>chunk := chunk st @ keys\<rparr>, None)"
proof (induction keys arbitrary: st)
  case Nil
  then show ?case by simp
next
  case (Cons q keys)
  let ?st2 = "st\<lparr>chunk := chunk st @ [q]\<rparr>"
  have "range_cloudWatchQueries reqs s e keys ?st2 = (?st2\<lparr>chunk := chunk ?st2 @ keys\<rparr>, None)"
    by (rule Cons.IH) (use Cons.prems in simp)
  with Cons.prems show ?case by (simp add: Let_def)
qed


lemma Query_of_generated:
  assumes "k \<in> dom (generateCloudWatchQueriesForInstances D)"
  shows "Query_Id (Query (lookup_request (generateCloudWatchQueriesForInstances D) k)) = k"
    and "generateCloudWatchQueriesForInstances D k =
           Some (lookup_request (generateCloudWatchQueriesForInstances D) k)"
proof -
  from assms obtain m i where k: "k = query_id m i" "m \<in> set getCloudWatchMetricsName" "i < length D"
    unfolding generate_dom by blast
  then show "Query_Id (Query (lookup_request (generateCloudWatchQueriesForInstances D) k)) = k"
    by (simp add: lookup_request_generated generateCloudWatchQueryForInstance_def)
  from assms show "generateCloudWatchQueriesForInstances D k =
           Some (lookup_request (generateCloudWatchQueriesForInstances D) k)"
    by (auto simp: lookup_request_def)
qed

lemma queries_of_keys:
  assumes "range_order (generateCloudWatchQueriesForInstances D) keys"
  shows "distinct (map (\<lambda>k. Query (lookup_request (generateCloudWatchQueriesForInstances D) k)) keys)"
    and "set (map (\<lambda>k. Query (lookup_request (generateCloudWatchQueriesForInstances D) k)) keys)
           = Query ` ran (generateCloudWatchQueriesForInstances D)"
proof -
  let ?reqs = "generateCloudWatchQueriesForInstances D"
  let ?Q = "\<lambda>k. Query (lookup_request ?reqs k)"
  from assms have d: "distinct keys" and s: "set keys = dom ?reqs"
    by (simp_all add: range_order_def)
  have "inj_on ?Q (set keys)"
  proof (rule inj_onI)
    fix x y assume xy: "x \<in> set keys" "y \<in> set keys" and e: "?Q x = ?Q y"
    from xy s have "Query_Id (?Q x) = x" "Query_Id (?Q y) = y"
      by (simp_all only: Query_of_generated(1))
    with e show "x = y" by metis
  qed
  with d show "distinct (map ?Q keys)" by (simp add: distinct_map)
  have "lookup_request ?reqs ` dom ?reqs = ran ?reqs"
  proof (intro set_eqI iffI)
    fix x assume "x \<in> lookup_request ?reqs ` dom ?reqs"
    then obtain k where "k \<in> dom ?reqs" "x = lookup_request ?reqs k" by blast
    with Query_of_generated(2) [of k D] show "x \<in> ran ?reqs" by (auto simp: ran_def)
  next
    fix x assume "x \<in> ran ?reqs"
    then obtain k where k: "?reqs k = Some x" by (auto simp: ran_def)
    then have "lookup_request ?reqs k = x" by (simp add: lookup_request_def)
    with k show "x \<in> lookup_request ?reqs ` dom ?reqs" by force
  qed
  then show "set (map ?Q keys) = Query ` ran ?reqs"
    using s by (simp add: image_image [symmetric])
qed

section \<open>Chunks of at most 500 queries\<close>

text \<open>
  C7. For every list of instance identifiers and every order in which the range loop
  visits the generated queries, every request that \<open>GetRDSInstanceMetrics\<close> sends
  carries at most 500 queries, and the queries sent, request after request, are a prefix
  of the queries in the order of the visit. When the call returns no error they are all
  of them, each exactly once: the requests number \<open>\<lceil>24 N / 500\<rceil>\<close>, all but the last
  hold 500 queries, and the last holds the remainder when 24 N is not a multiple of 500.
  The requests are sent one after the other: \<open>sent\<close> is the sequence of the calls.
\<close>

theorem GetRDSInstanceMetrics_requests:
  assumes "range_order (generateCloudWatchQueriesForInstances D) keys"
    and "GetRDSInstanceMetrics n1 n2 keys (NewRDSFetcher cl) D = ((res, err), c')"
  shows "(\<forall>p \<in> set (sent c'). length (MetricDataQueries p) \<le> MaxQueriesPerCloudwatchRequest) \<and>
         prefix (concat (map MetricDataQueries (sent c')))
           (map (\<lambda>k. Query (lookup_request (generateCloudWatchQueriesForInstances D) k)) keys) \<and>
         (err = None \<longrightarrow>
            concat (map MetricDataQueries (sent c')) =
              map (\<lambda>k. Query (lookup_request (generateCloudWatchQueriesForInstances D) k)) keys \<and>
            distinct (concat (map MetricDataQueries (sent c'))) \<and>
            set (concat (map MetricDataQueries (sent c'))) =
              Query ` ran (generateCloudWatchQueriesForInstances D) \<and>
            length (sent c') = (24 * length D + 499) div 500 \<and>
            (\<forall>p \<in> set (butlast (sent c')).
               length (MetricDataQueries p) = MaxQueriesPerCloudwatchRequest) \<and>
            ((24 * length D) mod 500 \<noteq> 0 \<longrightarrow>
               length (MetricDataQueries (last (sent c'))) = (24 * length D) mod 500))"
proof -
  let ?reqs = "generateCloudWatchQueriesForInstances D"
  let ?Q = "\<lambda>k. Query (lookup_request ?reqs k)"
  let ?P = "GetMetricDataInput_of ?reqs (n1 - three_minutes) n2"
  from GetRDSInstanceMetrics_chunks [OF assms(2)] obtain cs where cs:
    "sent c' = map ?P cs"
    "\<forall>ch \<in> set cs. 0 < length ch \<and> length ch \<le> MaxQueriesPerCloudwatchRequest"
    "\<forall>ch \<in> set (butlast cs). length ch = MaxQueriesPerCloudwatchRequest"
    "prefix (concat cs) keys"
    "err = None \<longrightarrow> concat cs = keys \<and> length cs = (length keys + 499) div 500"
    by (auto simp: NewRDSFetcher_def)
  have mdq: "\<And>ch. MetricDataQueries (?P ch) = map ?Q ch"
    by (simp add: GetMetricDataInput_of_def)
  have cat: "concat (map MetricDataQueries (sent c')) = map ?Q (concat cs)"
    by (simp add: cs(1) comp_def mdq map_concat)
  have len: "length keys = 24 * length D" by (rule range_order_length [OF assms(1)])
  have a: "\<forall>p \<in> set (sent c'). length (MetricDataQueries p) \<le> MaxQueriesPerCloudwatchRequest"
    using cs(1,2) mdq by auto
  have b: "prefix (concat (map MetricDataQueries (sent c'))) (map ?Q keys)"
    unfolding cat using cs(4) by (rule map_mono_prefix)
  have c: "concat (map MetricDataQueries (sent c')) = map ?Q keys
        \<and> distinct (concat (map MetricDataQueries (sent c')))
        \<and> set (concat (map MetricDataQueries (sent c'))) = Query ` ran ?reqs
        \<and> length (sent c') = (24 * length D + 499) div 500
        \<and> (\<forall>p \<in> set (butlast (sent c')). length (MetricDataQueries p) = MaxQueriesPerCloudwatchRequest)
        \<and> ((24 * length D) mod 500 \<noteq> 0 \<longrightarrow>
               length (MetricDataQueries (last (sent c'))) = (24 * length D) mod 500)"
    if ok: "err = None"
  proof -
    from ok cs(5) have k: "concat cs = keys" and n: "length cs = (length keys + 499) div 500"
      by simp_all
    have c1: "concat (map MetricDataQueries (sent c')) = map ?Q keys"
      using cat k by simp
    have c4: "length (sent c') = (24 * length D + 499) div 500"
      using cs(1) n len by simp
    have c5: "\<forall>p \<in> set (butlast (sent c')). length (MetricDataQueries p) = MaxQueriesPerCloudwatchRequest"
      using cs(3) mdq by (auto simp: cs(1) map_butlast [symmetric])
    have c6: "length (MetricDataQueries (last (sent c'))) = (24 * length D) mod 500"
      if nz: "(24 * length D) mod 500 \<noteq> 0"
    proof -
      from nz len have "keys \<noteq> []" by auto
      with k have ne: "cs \<noteq> []" by auto
      then have split: "cs = butlast cs @ [last cs]" by simp
      have "length (concat cs) = length (concat (butlast cs)) + length (last cs)"
        by (subst split) simp
      also have "length (concat (butlast cs)) = 500 * length (butlast cs)"
        using length_concat_const [of "butlast cs" 500] cs(3)
        by (simp add: MaxQueriesPerCloudwatchRequest_def)
      finally have tot: "24 * length D = 500 * length (butlast cs) + length (last cs)"
        using k len by simp
      have "last cs \<in> set cs" using ne by simp
      with cs(2) have le: "length (last cs) \<le> 500"
        by (auto simp: MaxQueriesPerCloudwatchRequest_def)
      have "length (last cs) \<noteq> 500"
      proof
        assume "length (last cs) = 500"
        with tot have "24 * length D = 500 * (length (butlast cs) + 1)" by simp
        then have "(24 * length D) mod 500 = 0" by (metis mod_mult_self1_is_0)
        with nz show False by simp
      qed
      with le have "length (last cs) < 500" by simp
      with tot have "(24 * length D) mod 500 = length (last cs)" by simp
      moreover have "last (sent c') = ?P (last cs)"
        using ne by (simp add: cs(1) last_map)
      ultimately show ?thesis by (simp add: mdq)
    qed
    from c1 c4 c5 c6 queries_of_keys [OF assms(1)] show ?thesis by simp
  qed
  from a b c show ?thesis by blast
qed

theorem GetRDSInstanceMetrics_requests_witness:
  "(let D = map (\<lambda>i. ''db-'' @ Sprintf_d i) [0..<21];
        X = GetRDSInstanceMetrics 0 0 (canonical_keys D) (NewRDSFetcher (\<lambda>p. Inr [])) D
    in range_order (generateCloudWatchQueriesForInstances D) (canonical_keys D) \<and>
       snd (fst X) = None \<and>
       length (sent (snd X)) = 2 \<and>
       length (MetricDataQueries (last (sent (snd X)))) = 4 \<and>
       distinct (concat (map MetricDataQueries (sent (snd X)))))"
proof -
  define D where "D = map (\<lambda>i. ''db-'' @ Sprintf_d i) [0..<21]"
  define X where "X = GetRDSInstanceMetrics 0 0 (canonical_keys D) (NewRDSFetcher (\<lambda>p. Inr [])) D"
  have n: "length D = 21" by (simp add: D_def)
  have o: "range_order (generateCloudWatchQueriesForInstances D) (canonical_keys D)"
    by (rule canonical_keys_order)
  have g: "snd (fst X) = None"
    unfolding X_def by (rule GetRDSInstanceMetrics_good) (simp add: NewRDSFetcher_def)
  then have eq: "GetRDSInstanceMetrics 0 0 (canonical_keys D) (NewRDSFetcher (\<lambda>p. Inr [])) D
                   = ((fst (fst X), None), snd X)"
    unfolding X_def by (metis prod.collapse)
  note r = GetRDSInstanceMetrics_requests [OF o eq]
  have "length (sent (snd X)) = 2"
    using r n by simp
  moreover have "length (MetricDataQueries (last (sent (snd X)))) = 4"
    using r n by simp
  moreover have "distinct (concat (map MetricDataQueries (sent (snd X))))"
    using r by blast
  ultimately show ?thesis using o g
    unfolding Let_def D_def [symmetric] X_def [symmetric] by simp
qed

text \<open>
  The statistic after a call that returns no error: one when the number of queries is
  not a multiple of 500, zero when it is, however many requests were sent.
\<close>

lemma GetRDSInstanceMetrics_statistic:
  assumes "range_order (generateCloudWatchQueriesForInstances D) keys"
    and "GetRDSInstanceMetrics n1 n2 keys c D = ((res, None), c')"
  shows "CloudWatchAPICall c' = CloudWatchAPICall c + (if (24 * length D) mod 500 = 0 then 0 else 1)"
    and "length (sent c') = length (sent c) + (24 * length D + 499) div 500"
  using GetRDSInstanceMetrics_chunks [OF assms(2)] range_order_length [OF assms(1)]
  by auto

section \<open>An unknown metric name is a fetch failure\<close>



lemma lookup_request_pair:
  assumes "m \<in> set getCloudWatchMetricsName" and "i < length D"
  shows "Dbidentifier (lookup_request (generateCloudWatchQueriesForInstances D) (query_id m i)) = D ! i"
    and "MetricName (lookup_request (generateCloudWatchQueriesForInstances D) (query_id m i)) = m"
  using assms by (simp_all add: lookup_request_generated generateCloudWatchQueryForInstance_def)

lemma process_results_first_value:
  assumes dD: "distinct D"
    and ids: "distinct (map Result_Id resp)"
    and own: "\<forall>a \<in> set resp. Result_Id a \<in> dom (generateCloudWatchQueriesForInstances D)"
    and r: "r \<in> set resp" "Result_Id r = query_id m i"
    and m: "m \<in> set getCloudWatchMetricsName" and i: "i < length D"
  shows "sample_field (fst (process_results (generateCloudWatchQueriesForInstances D) resp ms)) (D ! i) m =
           (case Values r of
              None \<Rightarrow> sample_field ms (D ! i) m
            | Some [] \<Rightarrow> sample_field ms (D ! i) m
            | Some (v # vs) \<Rightarrow> Some v)"
  using ids own r(1)
proof (induction resp arbitrary: ms)
  case Nil
  then show ?case by simp
next
  case (Cons a resp)
  let ?reqs = "generateCloudWatchQueriesForInstances D"
  let ?d = "Dbidentifier (lookup_request ?reqs (Result_Id a))"
  let ?n = "MetricName (lookup_request ?reqs (Result_Id a))"
  from Cons.prems have ida: "Result_Id a \<notin> Result_Id ` set resp" and ids': "distinct (map Result_Id resp)"
    and own': "\<forall>b \<in> set resp. Result_Id b \<in> dom ?reqs" and owna: "Result_Id a \<in> dom ?reqs"
    by simp_all
  from owna obtain m' i' where a: "Result_Id a = query_id m' i'" "m' \<in> set getCloudWatchMetricsName" "i' < length D"
    unfolding generate_dom by blast
  have da: "?d = D ! i'" and na: "?n = m'"
    using lookup_request_pair [OF a(2,3)] a(1) by simp_all
  have known: "?n \<in> set getCloudWatchMetricsName" using na a(2) by simp
  have other: "\<not> (D ! i = ?d \<and> m = ?n)" if "a \<noteq> r \<or> Result_Id a \<noteq> Result_Id r"
  proof
    assume e: "D ! i = ?d \<and> m = ?n"
    with da na have "m = m'" "D ! i = D ! i'" by simp_all
    with dD i a(3) have "i = i'" by (simp add: nth_eq_iff_index_eq)
    with \<open>m = m'\<close> a(1) r(2) have same: "Result_Id a = Result_Id r" by simp
    with that have "a \<noteq> r" by blast
    with Cons.prems(3) have "r \<in> set resp" by simp
    with ida same show False by (metis imageI)
  qed
  have rest_quiet: "\<forall>b \<in> set resp. Dbidentifier (lookup_request ?reqs (Result_Id b)) = D ! i \<longrightarrow>
             MetricName (lookup_request ?reqs (Result_Id b)) = m \<longrightarrow>
             Values b = None \<or> Values b = Some []" if "a = r"
  proof (intro ballI impI)
    fix b assume b: "b \<in> set resp"
      and h: "Dbidentifier (lookup_request ?reqs (Result_Id b)) = D ! i"
             "MetricName (lookup_request ?reqs (Result_Id b)) = m"
    from own' b obtain m2 i2 where b2: "Result_Id b = query_id m2 i2" "m2 \<in> set getCloudWatchMetricsName" "i2 < length D"
      unfolding generate_dom by blast
    from lookup_request_pair [OF b2(2,3)] b2(1) h have "m2 = m" "D ! i2 = D ! i" by simp_all
    with dD i b2(3) have "i2 = i" by (simp add: nth_eq_iff_index_eq)
    with \<open>m2 = m\<close> b2(1) r(2) that have "Result_Id b = Result_Id a" by simp
    with b ida have False by (metis imageI)
    then show "Values b = None \<or> Values b = Some []" ..
  qed
  show ?case
  proof (cases "a = r")
    case True
    note q = process_results_quiet [OF rest_quiet [OF True]]
    have dr: "?d = D ! i" and nr: "?n = m"
      using lookup_request_pair [OF m i] r(2) True by simp_all
    show ?thesis
    proof (cases "Values a")
      case None
      with True q [of ms] show ?thesis by (simp add: process_results_nil_values)
    next
      case (Some vals)
      show ?thesis
      proof (cases vals)
        case Nil
        with Some have "process_results ?reqs (a # resp) ms =
            process_results ?reqs resp (ms(?d \<mapsto> current_sample ms ?d))"
          by (simp only: process_results_empty_values)
        with q [of "ms(?d \<mapsto> current_sample ms ?d)"]
        have "sample_field (fst (process_results ?reqs (a # resp) ms)) (D ! i) m =
              sample_field ms (D ! i) m"
          by (simp only: sample_field_touch)
        with True Some Nil show ?thesis by simp
      next
        case (Cons w ws)
        with Some have v: "Values a = Some (w # ws)" by simp
        have "process_results ?reqs (a # resp) ms =
            process_results ?reqs resp (ms(?d \<mapsto> fst (Update ?n w (current_sample ms ?d))))"
          by (rule process_results_known [OF v known])
        with q [of "ms(?d \<mapsto> fst (Update ?n w (current_sample ms ?d)))"]
        have "sample_field (fst (process_results ?reqs (a # resp) ms)) (D ! i) m =
              sample_field (ms(?d \<mapsto> fst (Update ?n w (current_sample ms ?d)))) (D ! i) m"
          by (simp only:)
        also have "\<dots> = Some w"
          unfolding dr nr by (simp only: sample_field_Update [OF m] simp_thms if_True)
        finally show ?thesis using True v by simp
      qed
    qed
  next
    case False
    with Cons.prems(3) have rin: "r \<in> set resp" by simp
    note IH = Cons.IH [OF ids' own' rin]
    from False have miss: "\<not> (D ! i = ?d \<and> m = ?n)" by (rule other [OF disjI1])
    show ?thesis
    proof (cases "Values a")
      case None
      with IH [of ms] show ?thesis by (simp add: process_results_nil_values)
    next
      case (Some vals)
      show ?thesis
      proof (cases vals)
        case Nil
        with Some have "process_results ?reqs (a # resp) ms =
            process_results ?reqs resp (ms(?d \<mapsto> current_sample ms ?d))"
          by (simp only: process_results_empty_values)
        with IH [of "ms(?d \<mapsto> current_sample ms ?d)"] show ?thesis
          by (simp only: sample_field_touch)
      next
        case (Cons w ws)
        with Some have v: "Values a = Some (w # ws)" by simp
        have "process_results ?reqs (a # resp) ms =
            process_results ?reqs resp (ms(?d \<mapsto> fst (Update ?n w (current_sample ms ?d))))"
          by (rule process_results_known [OF v known])
        with IH [of "ms(?d \<mapsto> fst (Update ?n w (current_sample ms ?d)))"] miss show ?thesis
          by (simp only: sample_field_Update [OF known] if_False)
      qed
    qed
  qed
qed

section \<open>One query per instance and metric\<close>

text \<open>
  C6. For every list \<open>D\<close> of instance identifiers the generated map holds, for every
  position \<open>i\<close> of \<open>D\<close> and every metric name \<open>m\<close>, one request under the id
  \<open>ToLower m @ ''_'' @ Sprintf_d i\<close>, for the identifier at \<open>i\<close> and the metric \<open>m\<close>
  (statistic Average, period 60), and nothing else: \<open>24 * length D\<close> ids in all, so an
  id stands for one position and one metric. A result whose id is such an id and that
  holds values sets the field \<open>m\<close> of the sample of the identifier at \<open>i\<close> to its first
  value. When the identifiers differ pairwise and a response has one result per id, all
  ids generated ones, processing it raises no error and leaves every such field at the
  first value of its result, or as it was when the result has no value.
\<close>

theorem one_query_per_instance_and_metric:
  "(\<forall>i < length D. \<forall>m \<in> set getCloudWatchMetricsName.
      generateCloudWatchQueriesForInstances D (ToLower m @ ''_'' @ Sprintf_d i) =
        Some \<lparr> Dbidentifier = D ! i, MetricName = m,
               Query = \<lparr> Query_Id = ToLower m @ ''_'' @ Sprintf_d i, Namespace = ''AWS/RDS'',
                         Stat_MetricName = m, Dimensions = [(''DBInstanceIdentifier'', D ! i)],
                         Stat = ''Average'', Period = 60 \<rparr> \<rparr>) \<and>
   dom (generateCloudWatchQueriesForInstances D) =
     {ToLower m @ ''_'' @ Sprintf_d i | m i. m \<in> set getCloudWatchMetricsName \<and> i < length D} \<and>
   card (dom (generateCloudWatchQueriesForInstances D)) = 24 * length D \<and>
   (\<forall>r v vs rest ms. \<forall>i < length D. \<forall>m \<in> set getCloudWatchMetricsName.
      Result_Id r = ToLower m @ ''_'' @ Sprintf_d i \<longrightarrow> Values r = Some (v # vs) \<longrightarrow>
      (\<exists>ms1. process_results (generateCloudWatchQueriesForInstances D) (r # rest) ms =
               process_results (generateCloudWatchQueriesForInstances D) rest ms1 \<and>
             sample_field ms1 (D ! i) m = Some v)) \<and>
   (distinct D \<longrightarrow>
      (\<forall>resp ms. distinct (map Result_Id resp) \<longrightarrow>
         (\<forall>a \<in> set resp. Result_Id a \<in> dom (generateCloudWatchQueriesForInstances D)) \<longrightarrow>
         snd (process_results (generateCloudWatchQueriesForInstances D) resp ms) = None \<and>
         (\<forall>r \<in> set resp. \<forall>i < length D. \<forall>m \<in> set getCloudWatchMetricsName.
            Result_Id r = ToLower m @ ''_'' @ Sprintf_d i \<longrightarrow>
            sample_field (fst (process_results (generateCloudWatchQueriesForInstances D) resp ms)) (D ! i) m =
              (case Values r of
                 None \<Rightarrow> sample_field ms (D ! i) m
               | Some [] \<Rightarrow> sample_field ms (D ! i) m
               | Some (v # vs) \<Rightarrow> Some v))))"
proof -
  let ?reqs = "generateCloudWatchQueriesForInstances D"
  have id: "\<And>m i. ToLower m @ ''_'' @ Sprintf_d i = query_id m i"
    by (simp add: query_id_def)
  have a: "\<forall>i < length D. \<forall>m \<in> set getCloudWatchMetricsName.
      ?reqs (query_id m i) =
        Some \<lparr> Dbidentifier = D ! i, MetricName = m,
               Query = \<lparr> Query_Id = query_id m i, Namespace = ''AWS/RDS'',
                         Stat_MetricName = m, Dimensions = [(''DBInstanceIdentifier'', D ! i)],
                         Stat = ''Average'', Period = 60 \<rparr> \<rparr>"
    by (simp add: generate_lookup generateCloudWatchQueryForInstance_def Minute_def)
  have d: "\<exists>ms1. process_results ?reqs (r # rest) ms = process_results ?reqs rest ms1 \<and>
             sample_field ms1 (D ! i) m = Some v"
    if "i < length D" "m \<in> set getCloudWatchMetricsName" "Result_Id r = query_id m i"
       "Values r = Some (v # vs)" for r v vs rest ms i m
  proof -
    have dn: "Dbidentifier (lookup_request ?reqs (Result_Id r)) = D ! i"
             "MetricName (lookup_request ?reqs (Result_Id r)) = m"
      using lookup_request_pair [OF that(2,1)] that(3) by simp_all
    have "process_results ?reqs (r # rest) ms =
            process_results ?reqs rest (ms(D ! i \<mapsto> fst (Update m v (current_sample ms (D ! i)))))"
      using process_results_known [of r v vs ?reqs rest ms] that(2,4) dn by simp
    moreover have "sample_field (ms(D ! i \<mapsto> fst (Update m v (current_sample ms (D ! i))))) (D ! i) m = Some v"
      by (simp add: sample_field_Update [OF that(2)])
    ultimately show ?thesis by blast
  qed
  have e1: "snd (process_results ?reqs resp ms) = None"
    if "\<forall>a \<in> set resp. Result_Id a \<in> dom ?reqs" for resp ms
    by (rule process_results_good) (use that in \<open>simp add: lookup_request_name\<close>)
  have e2: "sample_field (fst (process_results ?reqs resp ms)) (D ! i) m =
              (case Values r of
                 None \<Rightarrow> sample_field ms (D ! i) m
               | Some [] \<Rightarrow> sample_field ms (D ! i) m
               | Some (v # vs) \<Rightarrow> Some v)"
    if "distinct D" "distinct (map Result_Id resp)" "\<forall>a \<in> set resp. Result_Id a \<in> dom ?reqs"
       "r \<in> set resp" "i < length D" "m \<in> set getCloudWatchMetricsName" "Result_Id r = query_id m i"
    for resp ms r i m
    by (rule process_results_first_value [OF that(1,2,3,4,7,6,5)])
  show ?thesis
    unfolding id
    using a d e1 e2 generate_dom [of D] generate_card [of D]
    by (intro conjI allI impI ballI) blast+
qed

theorem one_query_per_instance_and_metric_witness:
  "(let D = [''db-a'', ''db-b''];
        resp = [\<lparr> Result_Id = ''cpuutilization_1'', Label = ''CPUUtilization'', Values = Some [25 / 2, 11] \<rparr>,
                \<lparr> Result_Id = ''databaseconnections_1'', Label = ''DatabaseConnections'', Values = Some [] \<rparr>];
        out = process_results (generateCloudWatchQueriesForInstances D) resp Map.empty
    in generateCloudWatchQueriesForInstances D ''cpuutilization_1'' =
         Some \<lparr> Dbidentifier = ''db-b'', MetricName = ''CPUUtilization'',
                Query = \<lparr> Query_Id = ''cpuutilization_1'', Namespace = ''AWS/RDS'',
                          Stat_MetricName = ''CPUUtilization'',
                          Dimensions = [(''DBInstanceIdentifier'', ''db-b'')],
                          Stat = ''Average'', Period = 60 \<rparr> \<rparr> \<and>
       card (dom (generateCloudWatchQueriesForInstances D)) = 48 \<and>
       snd out = None \<and>
       sample_field (fst out) ''db-b'' ''CPUUtilization'' = Some (25 / 2) \<and>
       sample_field (fst out) ''db-b'' ''DatabaseConnections'' = None)"
proof -
  define D where "D = [''db-a'', ''db-b'']"
  define r1 where "r1 = \<lparr> Result_Id = ''cpuutilization_1'', Label = ''CPUUtilization'', Values = Some [25 / 2, 11 :: real] \<rparr>"
  define r2 where "r2 = \<lparr> Result_Id = ''databaseconnections_1'', Label = ''DatabaseConnections'', Values = Some ([] :: real list) \<rparr>"
  define out where "out = process_results (generateCloudWatchQueriesForInstances D) [r1, r2] Map.empty"
  have q1: "ToLower ''CPUUtilization'' @ ''_'' @ Sprintf_d 1 = ''cpuutilization_1''"
    by code_simp
  have q2: "ToLower ''DatabaseConnections'' @ ''_'' @ Sprintf_d 1 = ''databaseconnections_1''"
    by code_simp
  have n1: "''CPUUtilization'' \<in> set getCloudWatchMetricsName"
    and n2: "''DatabaseConnections'' \<in> set getCloudWatchMetricsName"
    by (simp_all add: getCloudWatchMetricsName_def)
  have len: "1 < length D" and len2: "length D = 2" and dD: "distinct D" and nth: "D ! 1 = ''db-b''"
    by (simp_all add: D_def)
  note t = one_query_per_instance_and_metric [of D]
  note ta = t [THEN conjunct1, rule_format, OF len]
  note tb = t [THEN conjunct2, THEN conjunct1]
  note tc = t [THEN conjunct2, THEN conjunct2, THEN conjunct1]
  note te = t [THEN conjunct2, THEN conjunct2, THEN conjunct2, THEN conjunct2, rule_format, OF dD]
  have g: "generateCloudWatchQueriesForInstances D ''cpuutilization_1'' =
         Some \<lparr> Dbidentifier = ''db-b'', MetricName = ''CPUUtilization'',
                Query = \<lparr> Query_Id = ''cpuutilization_1'', Namespace = ''AWS/RDS'',
                          Stat_MetricName = ''CPUUtilization'',
                          Dimensions = [(''DBInstanceIdentifier'', ''db-b'')],
                          Stat = ''Average'', Period = 60 \<rparr> \<rparr>"
    using ta [OF n1] unfolding q1 nth .
  have c: "card (dom (generateCloudWatchQueriesForInstances D)) = 48"
    using tc len2 by simp
  have d1: "''cpuutilization_1'' \<in> dom (generateCloudWatchQueriesForInstances D)"
    using g by (rule domI)
  have d2: "''databaseconnections_1'' \<in> dom (generateCloudWatchQueriesForInstances D)"
    using ta [OF n2] unfolding q2 by (rule domI)
  have ids: "distinct (map Result_Id [r1, r2])"
    by (simp add: r1_def r2_def)
  have own: "\<And>a. a \<in> set [r1, r2] \<Longrightarrow> Result_Id a \<in> dom (generateCloudWatchQueriesForInstances D)"
    using d1 d2 by (auto simp: r1_def r2_def)
  have q1s: "Result_Id r1 = ToLower ''CPUUtilization'' @ ''_'' @ Sprintf_d 1"
    by (simp only: q1 r1_def MetricDataResult.select_convs)
  have q2s: "Result_Id r2 = ToLower ''DatabaseConnections'' @ ''_'' @ Sprintf_d 1"
    by (simp only: q2 r2_def MetricDataResult.select_convs)
  have in1: "r1 \<in> set [r1, r2]" and in2: "r2 \<in> set [r1, r2]"
    by simp_all
  have e0: "snd out = None"
    unfolding out_def by (rule te [THEN conjunct1, OF ids own])
  have f1: "sample_field (fst out) (D ! 1) ''CPUUtilization'' =
              (case Values r1 of
                 None \<Rightarrow> sample_field Map.empty (D ! 1) ''CPUUtilization''
               | Some [] \<Rightarrow> sample_field Map.empty (D ! 1) ''CPUUtilization''
               | Some (v # vs) \<Rightarrow> Some v)"
    unfolding out_def
    by (rule te [THEN conjunct2, rule_format, OF ids own in1 len n1 q1s])
  have f2: "sample_field (fst out) (D ! 1) ''DatabaseConnections'' =
              (case Values r2 of
                 None \<Rightarrow> sample_field Map.empty (D ! 1) ''DatabaseConnections''
               | Some [] \<Rightarrow> sample_field Map.empty (D ! 1) ''DatabaseConnections''
               | Some (v # vs) \<Rightarrow> Some v)"
    unfolding out_def
    by (rule te [THEN conjunct2, rule_format, OF ids own in2 len n2 q2s])
  have f1': "sample_field (fst out) ''db-b'' ''CPUUtilization'' = Some (25 / 2)"
    using f1 unfolding nth by (simp add: r1_def)
  have f2': "sample_field (fst out) ''db-b'' ''DatabaseConnections'' = None"
    using f2 unfolding nth by (simp add: r2_def sample_field_def)
  from g c e0 f1' f2' show ?thesis
    unfolding Let_def D_def [symmetric] r1_def [symmetric] r2_def [symmetric] out_def [symmetric]
    by simp
qed

section \<open>Update touches the named field only\<close>

text \<open>
  C10. For every sample, every known field name \<open>f\<close> and every value \<open>v\<close>,
  \<open>Update f v\<close> returns no error, sets the field named \<open>f\<close> to \<open>v\<close> and leaves every
  other field as it was; for a name outside the 24 it leaves the whole sample as it was.
\<close>

theorem Update_sets_only_named_field:
  "(f \<in> set getCloudWatchMetricsName \<longrightarrow>
      snd (Update f v m) = None \<and>
      metric_field f (fst (Update f v m)) = Some v \<and>
      (\<forall>g. g \<noteq> f \<longrightarrow> metric_field g (fst (Update f v m)) = metric_field g m)) \<and>
   (f \<notin> set getCloudWatchMetricsName \<longrightarrow> fst (Update f v m) = m)"
  by (simp add: Update_known Update_unknown)

theorem Update_sets_only_named_field_witness:
  "''DBLoad'' \<in> set getCloudWatchMetricsName \<and>
   snd (Update ''DBLoad'' 7 empty_RdsMetrics) = None \<and>
   metric_field ''DBLoad'' (fst (Update ''DBLoad'' 7 empty_RdsMetrics)) = Some 7 \<and>
   metric_field ''DBLoadCPU'' (fst (Update ''DBLoad'' 7 empty_RdsMetrics)) = None \<and>
   ''dbload'' \<notin> set getCloudWatchMetricsName \<and>
   fst (Update ''dbload'' 7 empty_RdsMetrics) = empty_RdsMetrics"
proof -
  have k: "''DBLoad'' \<in> set getCloudWatchMetricsName"
    and u: "''dbload'' \<notin> set getCloudWatchMetricsName"
    by (simp_all add: getCloudWatchMetricsName_def)
  have e: "metric_field ''DBLoadCPU'' empty_RdsMetrics = None"
    by (simp add: metric_field_eqs empty_RdsMetrics_def)
  from Update_sets_only_named_field [of "''DBLoad''" 7 empty_RdsMetrics] k e
  have "snd (Update ''DBLoad'' 7 empty_RdsMetrics) = None \<and>
        metric_field ''DBLoad'' (fst (Update ''DBLoad'' 7 empty_RdsMetrics)) = Some 7 \<and>
        metric_field ''DBLoadCPU'' (fst (Update ''DBLoad'' 7 empty_RdsMetrics)) = None"
    by auto
  moreover from Update_sets_only_named_field [of "''dbload''" 7 empty_RdsMetrics] u
  have "fst (Update ''dbload'' 7 empty_RdsMetrics) = empty_RdsMetrics" by simp
  ultimately show ?thesis using k u by simp
qed

section \<open>Facts about a scrape\<close>

lemma getQuotasMetrics_eq:
  "getQuotasMetrics w c =
     c\<lparr>counters := (counters c)\<lparr>
            Errors := Errors (counters c) + (if snd (fst (GetRDSQuotas w)) \<noteq> None then 1 else 0),
            ServiceQuotasAPICalls := ServiceQuotasAPICalls (counters c) + snd (GetRDSQuotas w)\<rparr>,
        metrics := (metrics c)\<lparr>ServiceQuota := fst (fst (GetRDSQuotas w))\<rparr>\<rparr>"
  by (cases "GetRDSQuotas w" rule: prod.exhaust [case_product prod.exhaust])
     (auto simp: getQuotasMetrics_def add_error_def Let_def split: prod.split)

lemma getUsagesMetrics_eq:
  "getUsagesMetrics w c =
     c\<lparr>counters := (counters c)\<lparr>
            Errors := Errors (counters c) + (if snd (fst (GetUsageMetrics w)) \<noteq> None then 1 else 0),
            UsageAPIcalls := UsageAPIcalls (counters c) + snd (GetUsageMetrics w)\<rparr>,
        metrics := (metrics c)\<lparr>CloudWatchUsage := fst (fst (GetUsageMetrics w))\<rparr>\<rparr>"
  by (auto simp: getUsagesMetrics_def add_error_def Let_def split: prod.split)

lemma getEC2Metrics_eq:
  "getEC2Metrics w c ts =
     c\<lparr>counters := (counters c)\<lparr>
            Errors := Errors (counters c) +
              (if snd (fst (GetDBInstanceTypeInformation w ts)) \<noteq> None then 1 else 0),
            EC2APIcalls := EC2APIcalls (counters c) + snd (GetDBInstanceTypeInformation w ts)\<rparr>,
        metrics := (metrics c)\<lparr>EC2 := fst (fst (GetDBInstanceTypeInformation w ts))\<rparr>\<rparr>"
  by (auto simp: getEC2Metrics_def add_error_def Let_def split: prod.split)

lemma getCloudwatchMetrics_eq:
  "getCloudwatchMetrics w c ids =
     (let X = GetRDSInstanceMetrics (now1 w) (now2 w) (range_queries w)
                (NewRDSFetcher (GetMetricData w)) ids in
      c\<lparr>counters := (counters c)\<lparr>
            Errors := Errors (counters c) + (if snd (fst X) \<noteq> None then 1 else 0),
            CloudwatchAPICalls := CloudwatchAPICalls (counters c) + CloudWatchAPICall (snd X)\<rparr>,
        metrics := (metrics c)\<lparr>CloudwatchInstances := fst (fst X)\<rparr>\<rparr>)"
  by (auto simp: getCloudwatchMetrics_def add_error_def Let_def split: prod.split)

lemma length_failed_subtasks:
  "real (length (failed_subtasks w c)) =
     (if subtask_fails w c Quotas then 1 else 0) + (if subtask_fails w c Usages then 1 else 0) +
     (if subtask_fails w c InstanceTypes then 1 else 0) +
     (if subtask_fails w c InstanceMetrics then 1 else 0)"
  by (simp add: failed_subtasks_def)

lemma subtask_frame:
  "configuration (getQuotasMetrics w c) = configuration c"
  "configuration (getUsagesMetrics w c) = configuration c"
  "configuration (getEC2Metrics w c ts) = configuration c"
  "configuration (getCloudwatchMetrics w c ids) = configuration c"
  "awsRegion (getQuotasMetrics w c) = awsRegion c"
  "awsRegion (getUsagesMetrics w c) = awsRegion c"
  "awsRegion (getEC2Metrics w c ts) = awsRegion c"
  "awsRegion (getCloudwatchMetrics w c ids) = awsRegion c"
  "awsAccountID (getQuotasMetrics w c) = awsAccountID c"
  "awsAccountID (getUsagesMetrics w c) = awsAccountID c"
  "awsAccountID (getEC2Metrics w c ts) = awsAccountID c"
  "awsAccountID (getCloudwatchMetrics w c ids) = awsAccountID c"
  "instanceTags (getQuotasMetrics w c) = instanceTags c"
  "instanceTags (getUsagesMetrics w c) = instanceTags c"
  "instanceTags (getEC2Metrics w c ts) = instanceTags c"
  "instanceTags (getCloudwatchMetrics w c ids) = instanceTags c"
  by (simp_all add: getQuotasMetrics_eq getUsagesMetrics_eq getEC2Metrics_eq
        getCloudwatchMetrics_eq Let_def)

lemma fetchMetrics_failed:
  assumes "snd (fst (inventory w c)) = Some e"
  shows "snd (fetchMetrics w c) = Some (Errorf ''can't fetch RDS metrics'' e)"
    and "awsRegion (fst (fetchMetrics w c)) = awsRegion c"
proof -
  obtain rdsMetrics calls where inv: "inventory w c = ((rdsMetrics, Some e), calls)"
    using assms by (metis prod.collapse)
  then have inv': "GetInstancesMetrics w (CollectLogsSize (configuration c))
                (CollectMaintenances (configuration c)) = ((rdsMetrics, Some e), calls)"
    by (simp add: inventory_def)
  show "snd (fetchMetrics w c) = Some (Errorf ''can't fetch RDS metrics'' e)"
    by (simp add: fetchMetrics_def Let_def inv' subtask_frame)
  show "awsRegion (fst (fetchMetrics w c)) = awsRegion c"
    by (simp add: fetchMetrics_def Let_def inv' subtask_frame)
qed

lemma fetchMetrics_steps:
  assumes "snd (fst (inventory w c)) = None"
  shows "fetchMetrics w c =
    (let c1 = (if subtask_launched w c Quotas then getQuotasMetrics w c else c);
         c2 = (if subtask_launched w c Usages then getUsagesMetrics w c1 else c1);
         c3 = c2\<lparr>metrics := (metrics c2)\<lparr>RDS := fst (fst (inventory w c))\<rparr>,
                 counters := (counters c2)\<lparr>RDSAPIcalls := RDSAPIcalls (counters c2) + snd (inventory w c)\<rparr>\<rparr>;
         c4 = (if subtask_launched w c InstanceTypes
               then getEC2Metrics w c3 (instanceTypes_of w c) else c3);
         c5 = (if subtask_launched w c InstanceMetrics
               then getCloudwatchMetrics w c4 (instanceIdentifiers_of w c) else c4)
     in (c5, None))"
proof -
  obtain rdsMetrics calls where inv: "inventory w c = ((rdsMetrics, None), calls)"
    using assms by (metis prod.collapse)
  obtain ids types where u: "getUniqTypeAndIdentifiers (rds_Instances rdsMetrics) = (ids, types)"
    by (metis prod.exhaust)
  have it: "instanceIdentifiers_of w c = ids" "instanceTypes_of w c = types"
    using inv u by (simp_all add: instanceIdentifiers_of_def instanceTypes_of_def)
  have inv': "GetInstancesMetrics w (CollectLogsSize (configuration c))
                (CollectMaintenances (configuration c)) = ((rdsMetrics, None), calls)"
    using inv by (simp add: inventory_def)
  have conf1: "configuration (getQuotasMetrics w c) = configuration c"
    by (simp add: getQuotasMetrics_eq)
  have conf2: "\<And>d. configuration (getUsagesMetrics w d) = configuration d"
    by (simp add: getUsagesMetrics_eq)
  have conf4: "\<And>d ts. configuration (getEC2Metrics w d ts) = configuration d"
    by (simp add: getEC2Metrics_eq)
  show ?thesis
    by (simp add: fetchMetrics_def Let_def inv inv' u it subtask_launched_def conf1 conf2 conf4)
qed

lemma fetchMetrics_ok:
  assumes ok: "snd (fst (inventory w c)) = None"
  shows "snd (fetchMetrics w c) = None"
    and "configuration (fst (fetchMetrics w c)) = configuration c"
    and "awsRegion (fst (fetchMetrics w c)) = awsRegion c"
    and "awsAccountID (fst (fetchMetrics w c)) = awsAccountID c"
    and "instanceTags (fst (fetchMetrics w c)) = instanceTags c"
    and "RDS (metrics (fst (fetchMetrics w c))) = fst (fst (inventory w c))"
    and "RDSAPIcalls (counters (fst (fetchMetrics w c))) = RDSAPIcalls (counters c) + snd (inventory w c)"
    and "ServiceQuota (metrics (fst (fetchMetrics w c))) =
           (if subtask_launched w c Quotas then fst (fst (GetRDSQuotas w)) else ServiceQuota (metrics c))"
    and "ServiceQuotasAPICalls (counters (fst (fetchMetrics w c))) =
           ServiceQuotasAPICalls (counters c) + (if subtask_launched w c Quotas then snd (GetRDSQuotas w) else 0)"
    and "CloudWatchUsage (metrics (fst (fetchMetrics w c))) =
           (if subtask_launched w c Usages then fst (fst (GetUsageMetrics w)) else CloudWatchUsage (metrics c))"
    and "UsageAPIcalls (counters (fst (fetchMetrics w c))) =
           UsageAPIcalls (counters c) + (if subtask_launched w c Usages then snd (GetUsageMetrics w) else 0)"
    and "EC2 (metrics (fst (fetchMetrics w c))) =
           (if subtask_launched w c InstanceTypes
            then fst (fst (GetDBInstanceTypeInformation w (instanceTypes_of w c))) else EC2 (metrics c))"
    and "EC2APIcalls (counters (fst (fetchMetrics w c))) =
           EC2APIcalls (counters c) +
             (if subtask_launched w c InstanceTypes
              then snd (GetDBInstanceTypeInformation w (instanceTypes_of w c)) else 0)"
    and "CloudwatchInstances (metrics (fst (fetchMetrics w c))) =
           (if subtask_launched w c InstanceMetrics then fst (fst (time_series_fetch w c))
            else CloudwatchInstances (metrics c))"
    and "CloudwatchAPICalls (counters (fst (fetchMetrics w c))) =
           CloudwatchAPICalls (counters c) +
             (if subtask_launched w c InstanceMetrics
              then CloudWatchAPICall (snd (time_series_fetch w c)) else 0)"
    and "Errors (counters (fst (fetchMetrics w c))) =
           Errors (counters c) + real (length (failed_subtasks w c))"
  unfolding fetchMetrics_steps [OF ok] length_failed_subtasks
  by (simp_all add: Let_def getQuotasMetrics_eq getUsagesMetrics_eq getEC2Metrics_eq
        getCloudwatchMetrics_eq subtask_fails_def subtask_error_def time_series_fetch_def)

lemma rds_instance_metrics_frame:
  "\<exists>d. snd (rds_instance_metrics w c dbid i) = c\<lparr>instanceTags := d\<rparr>"
proof (cases "CollectInstanceTags (configuration c)")
  case True
  then show ?thesis
    by (auto simp: rds_instance_metrics_def Let_def split: prod.split)
next
  case False
  then have "snd (rds_instance_metrics w c dbid i) = c"
    by (simp add: rds_instance_metrics_def Let_def)
  then have "snd (rds_instance_metrics w c dbid i) = c\<lparr>instanceTags := instanceTags c\<rparr>"
    by simp
  then show ?thesis by blast
qed

lemma rds_instance_metrics_tags_irrelevant:
  "fst (rds_instance_metrics w (c\<lparr>instanceTags := d\<rparr>) dbid i) = fst (rds_instance_metrics w c dbid i)"
  by (simp add: rds_instance_metrics_def Let_def getInstanceTagLabels_def instance_labels_def
        split: prod.split cong: option.case_cong)

lemma range_rds_Instances_eq:
  "fst (range_rds_Instances w c xs) =
     concat (map (\<lambda>(dbid, i). fst (rds_instance_metrics w c dbid i)) xs) \<and>
   (\<exists>d. snd (range_rds_Instances w c xs) = c\<lparr>instanceTags := d\<rparr>)"
proof (induction xs arbitrary: c)
  case Nil
  have "c = c\<lparr>instanceTags := instanceTags c\<rparr>" by simp
  then show ?case by (auto intro: exI [of _ "instanceTags c"])
next
  case (Cons x xs)
  obtain dbid i where x: "x = (dbid, i)" by (cases x)
  obtain d where d: "snd (rds_instance_metrics w c dbid i) = c\<lparr>instanceTags := d\<rparr>"
    using rds_instance_metrics_frame by blast
  from Cons.IH [of "c\<lparr>instanceTags := d\<rparr>"] obtain d' where
    r: "fst (range_rds_Instances w (c\<lparr>instanceTags := d\<rparr>) xs) =
          concat (map (\<lambda>(dbid, i). fst (rds_instance_metrics w (c\<lparr>instanceTags := d\<rparr>) dbid i)) xs)"
       "snd (range_rds_Instances w (c\<lparr>instanceTags := d\<rparr>) xs) = c\<lparr>instanceTags := d, instanceTags := d'\<rparr>"
    by blast
  have "snd (range_rds_Instances w c (x # xs)) = c\<lparr>instanceTags := d'\<rparr>"
    using d r(2) x by (auto split: prod.split)
  moreover have "fst (range_rds_Instances w c (x # xs)) =
      fst (rds_instance_metrics w c dbid i) @
      concat (map (\<lambda>(dbid, i). fst (rds_instance_metrics w c dbid i)) xs)"
    using d r(1) x by (auto simp: rds_instance_metrics_tags_irrelevant split: prod.split)
  ultimately show ?case using x by auto
qed

lemma sections_tags_irrelevant:
  "collect_cloudwatch w (c\<lparr>instanceTags := d\<rparr>) = collect_cloudwatch w c"
  "collect_usage (c\<lparr>instanceTags := d\<rparr>) = collect_usage c"
  "collect_ec2 (c\<lparr>instanceTags := d\<rparr>) = collect_ec2 c"
  "collect_quotas (c\<lparr>instanceTags := d\<rparr>) = collect_quotas c"
  by (simp_all add: collect_cloudwatch_def collect_usage_def collect_ec2_def collect_quotas_def
        cloudwatch_instance_metrics_def ec2_instance_metrics_def cong: option.case_cong)

lemma Collect_failed:
  assumes "snd (fst (inventory w c)) = Some e"
  shows "fst (Collect w c) =
     [MustNewConstMetric desc_exporterBuildInformation GaugeValue 1
        [build_Version w, build_CommitSHA w, build_Date w, awsRegion c],
      MustNewConstMetric desc_errors CounterValue (Errors (counters c)) [awsRegion c],
      MustNewConstMetric desc_up GaugeValue 0 [awsRegion c]]"
proof -
  have f: "fetchMetrics w c = (fst (fetchMetrics w c), Some (Errorf ''can't fetch RDS metrics'' e))"
    using fetchMetrics_failed(1) [OF assms] by (metis prod.collapse)
  show ?thesis
    unfolding Collect_def Let_def
    by (subst f) (simp add: exporterDownStatusCode_def fetchMetrics_failed(2) [OF assms])
qed

lemma Collect_ok:
  assumes "snd (fst (inventory w c)) = None"
  shows "fst (Collect w c) =
     [MustNewConstMetric desc_exporterBuildInformation GaugeValue 1
        [build_Version w, build_CommitSHA w, build_Date w, awsRegion c],
      MustNewConstMetric desc_errors CounterValue (Errors (counters c)) [awsRegion c],
      MustNewConstMetric desc_up GaugeValue 1 [awsRegion c]] @
     fst (collect_rds w (fst (fetchMetrics w c))) @
     collect_cloudwatch w (fst (fetchMetrics w c)) @
     collect_usage (fst (fetchMetrics w c)) @
     collect_ec2 (fst (fetchMetrics w c)) @
     collect_quotas (fst (fetchMetrics w c))"
    and "\<exists>d. snd (Collect w c) = (fst (fetchMetrics w c))\<lparr>instanceTags := d\<rparr>"
proof -
  let ?c1 = "fst (fetchMetrics w c)"
  have f: "fetchMetrics w c = (?c1, None)"
    using fetchMetrics_ok(1) [OF assms] by (metis prod.collapse)
  obtain d where d: "snd (range_rds_Instances w ?c1 (rds_Instances (RDS (metrics ?c1)))) = ?c1\<lparr>instanceTags := d\<rparr>"
    using range_rds_Instances_eq by blast
  then have c2: "snd (collect_rds w ?c1) = ?c1\<lparr>instanceTags := d\<rparr>"
    by (auto simp: collect_rds_def split: prod.split)
  then have c2': "collect_rds w ?c1 = (fst (collect_rds w ?c1), ?c1\<lparr>instanceTags := d\<rparr>)"
    by (metis prod.collapse)
  show "fst (Collect w c) =
     [MustNewConstMetric desc_exporterBuildInformation GaugeValue 1
        [build_Version w, build_CommitSHA w, build_Date w, awsRegion c],
      MustNewConstMetric desc_errors CounterValue (Errors (counters c)) [awsRegion c],
      MustNewConstMetric desc_up GaugeValue 1 [awsRegion c]] @
     fst (collect_rds w ?c1) @ collect_cloudwatch w ?c1 @ collect_usage ?c1 @ collect_ec2 ?c1 @
     collect_quotas ?c1"
    unfolding Collect_def Let_def
    by (subst f, simp only: prod.case option.case, subst c2')
       (simp add: exporterUpStatusCode_def sections_tags_irrelevant fetchMetrics_ok(3) [OF assms])
  show "\<exists>d. snd (Collect w c) = ?c1\<lparr>instanceTags := d\<rparr>"
    unfolding Collect_def Let_def
    by (subst f, simp only: prod.case option.case, subst c2') auto
qed

lemma desc_fqName:
  "fqName desc_exporterBuildInformation = ''rds_exporter_build_info''"
  "fqName desc_errors = ''rds_exporter_errors_total''"
  "fqName desc_allocatedStorage = ''rds_allocated_storage_bytes''"
  "fqName desc_information = ''rds_instance_info''"
  "fqName desc_age = ''rds_instance_age_seconds''"
  "fqName desc_maxAllocatedStorage = ''rds_max_allocated_storage_bytes''"
  "fqName desc_maxIops = ''rds_max_disk_iops_average''"
  "fqName desc_storageThroughput = ''rds_max_storage_throughput_bytes''"
  "fqName desc_readThroughput = ''rds_read_throughput_bytes''"
  "fqName desc_writeThroughput = ''rds_write_throughput_bytes''"
  "fqName desc_status = ''rds_instance_status''"
  "fqName desc_logFilesSize = ''rds_instance_log_files_size_bytes''"
  "fqName desc_instanceVCPU = ''rds_instance_vcpu_average''"
  "fqName desc_instanceMemory = ''rds_instance_memory_bytes''"
  "fqName desc_instanceTags = ''rds_instance_tags''"
  "fqName desc_cpuUtilisation = ''rds_cpu_usage_percent_average''"
  "fqName desc_instanceMaximumThroughput = ''rds_instance_max_throughput_bytes''"
  "fqName desc_instanceMaximumIops = ''rds_instance_max_iops_average''"
  "fqName desc_freeStorageSpace = ''rds_free_storage_bytes''"
  "fqName desc_databaseConnections = ''rds_database_connections_average''"
  "fqName desc_up = ''up''"
  "fqName desc_swapUsage = ''rds_swap_usage_bytes''"
  "fqName desc_writeIOPS = ''rds_write_iops_average''"
  "fqName desc_readIOPS = ''rds_read_iops_average''"
  "fqName desc_replicaLag = ''rds_replica_lag_seconds''"
  "fqName desc_replicationSlotDiskUsage = ''rds_replication_slot_disk_usage_bytes''"
  "fqName desc_maximumUsedTransactionIDs = ''rds_maximum_used_transaction_ids_average''"
  "fqName desc_freeableMemory = ''rds_freeable_memory_bytes''"
  "fqName desc_apiCall = ''rds_api_call_total''"
  "fqName desc_backupRetentionPeriod = ''rds_backup_retention_period_seconds''"
  "fqName desc_DBLoad = ''rds_dbload_average''"
  "fqName desc_dBLoadCPU = ''rds_dbload_cpu_average''"
  "fqName desc_dBLoadNonCPU = ''rds_dbload_noncpu_average''"
  "fqName desc_transactionLogsDiskUsage = ''rds_transaction_logs_disk_usage_bytes''"
  "fqName desc_certificateValidTill = ''rds_certificate_expiry_timestamp_seconds''"
  "fqName desc_quotaDBInstances = ''rds_quota_max_dbinstances_average''"
  "fqName desc_quotaTotalStorage = ''rds_quota_total_storage_bytes''"
  "fqName desc_quotaMaxDBInstanceSnapshots = ''rds_quota_maximum_db_instance_snapshots_average''"
  "fqName desc_usageAllocatedStorage = ''rds_usage_allocated_storage_bytes''"
  "fqName desc_usageDBInstances = ''rds_usage_db_instances_average''"
  "fqName desc_usageManualSnapshots = ''rds_usage_manual_snapshots_average''"
  "fqName desc_BufferCacheHitRatio = ''rds_buffer_cache_hit_ratio''"
  "fqName desc_Deadlocks = ''rds_deadlocks''"
  "fqName desc_Queries = ''rds_queries''"
  "fqName desc_EngineUptime = ''rds_engine_uptime_seconds''"
  "fqName desc_SumBinaryLogSize = ''rds_sum_binary_log_size_bytes''"
  "fqName desc_NumBinaryLogFiles = ''rds_num_binary_log_files''"
  "fqName desc_AuroraBinlogReplicaLag = ''rds_aurora_binlog_replica_lag_seconds''"
  "fqName desc_BinLogDiskUsage = ''rds_binlog_disk_usage_bytes''"
  by (simp_all add: NewDesc_def
       desc_exporterBuildInformation_def desc_errors_def desc_allocatedStorage_def
       desc_information_def desc_age_def desc_maxAllocatedStorage_def desc_maxIops_def
       desc_storageThroughput_def desc_readThroughput_def desc_writeThroughput_def
       desc_status_def desc_logFilesSize_def desc_instanceVCPU_def desc_instanceMemory_def
       desc_instanceTags_def desc_cpuUtilisation_def desc_instanceMaximumThroughput_def
       desc_instanceMaximumIops_def desc_freeStorageSpace_def desc_databaseConnections_def
       desc_up_def desc_swapUsage_def desc_writeIOPS_def desc_readIOPS_def desc_replicaLag_def
       desc_replicationSlotDiskUsage_def desc_maximumUsedTransactionIDs_def desc_freeableMemory_def
       desc_apiCall_def desc_backupRetentionPeriod_def desc_DBLoad_def desc_dBLoadCPU_def
       desc_dBLoadNonCPU_def desc_transactionLogsDiskUsage_def desc_certificateValidTill_def
       desc_quotaDBInstances_def desc_quotaTotalStorage_def desc_quotaMaxDBInstanceSnapshots_def
       desc_usageAllocatedStorage_def desc_usageDBInstances_def desc_usageManualSnapshots_def
       desc_BufferCacheHitRatio_def desc_Deadlocks_def desc_Queries_def desc_EngineUptime_def
       desc_SumBinaryLogSize_def desc_NumBinaryLogFiles_def desc_AuroraBinlogReplicaLag_def
       desc_BinLogDiskUsage_def)

lemma desc_variableLabels:
  "variableLabels desc_exporterBuildInformation = [''version'', ''commit_sha'', ''build_date'', ''aws_region'']"
  "variableLabels desc_errors = [''aws_region'']"
  "variableLabels desc_allocatedStorage = [''aws_account_id'', ''aws_region'', ''dbidentifier'']"
  "variableLabels desc_information = [''aws_account_id'', ''aws_region'', ''dbidentifier'', ''dbi_resource_id'', ''instance_class'', ''engine'', ''engine_version'', ''storage_type'', ''multi_az'', ''deletion_protection'', ''role'', ''source_dbidentifier'', ''pending_modified_values'', ''pending_maintenance'', ''performance_insights_enabled'', ''ca_certificate_identifier'', ''arn'']"
  "variableLabels desc_age = [''aws_account_id'', ''aws_region'', ''dbidentifier'']"
  "variableLabels desc_maxAllocatedStorage = [''aws_account_id'', ''aws_region'', ''dbidentifier'']"
  "variableLabels desc_maxIops = [''aws_account_id'', ''aws_region'', ''dbidentifier'']"
  "variableLabels desc_storageThroughput = [''aws_account_id'', ''aws_region'', ''dbidentifier'']"
  "variableLabels desc_readThroughput = [''aws_account_id'', ''aws_region'', ''dbidentifier'']"
  "variableLabels desc_writeThroughput = [''aws_account_id'', ''aws_region'', ''dbidentifier'']"
  "variableLabels desc_status = [''aws_account_id'', ''aws_region'', ''dbidentifier'']"
  "variableLabels desc_logFilesSize = [''aws_account_id'', ''aws_region'', ''dbidentifier'']"
  "variableLabels desc_instanceVCPU = [''aws_account_id'', ''aws_region'', ''instance_class'']"
  "variableLabels desc_instanceMemory = [''aws_account_id'', ''aws_region'', ''instance_class'']"
  "variableLabels desc_instanceTags = [''aws_account_id'', ''aws_region'', ''dbidentifier'']"
  "variableLabels desc_cpuUtilisation = [''aws_account_id'', ''aws_region'', ''dbidentifier'']"
  "variableLabels desc_instanceMaximumThroughput = [''aws_account_id'', ''aws_region'', ''instance_class'']"
  "variableLabels desc_instanceMaximumIops = [''aws_account_id'', ''aws_region'', ''instance_class'']"
  "variableLabels desc_freeStorageSpace = [''aws_account_id'', ''aws_region'', ''dbidentifier'']"
  "variableLabels desc_databaseConnections = [''aws_account_id'', ''aws_region'', ''dbidentifier'']"
  "variableLabels desc_up = [''aws_region'']"
  "variableLabels desc_swapUsage = [''aws_account_id'', ''aws_region'', ''dbidentifier'']"
  "variableLabels desc_writeIOPS = [''aws_account_id'', ''aws_region'', ''dbidentifier'']"
  "variableLabels desc_readIOPS = [''aws_account_id'', ''aws_region'', ''dbidentifier'']"
  "variableLabels desc_replicaLag = [''aws_account_id'', ''aws_region'', ''dbidentifier'']"
  "variableLabels desc_replicationSlotDiskUsage = [''aws_account_id'', ''aws_region'', ''dbidentifier'']"
  "variableLabels desc_maximumUsedTransactionIDs = [''aws_account_id'', ''aws_region'', ''dbidentifier'']"
  "variableLabels desc_freeableMemory = [''aws_account_id'', ''aws_region'', ''dbidentifier'']"
  "variableLabels desc_apiCall = [''aws_account_id'', ''aws_region'', ''api'']"
  "variableLabels desc_backupRetentionPeriod = [''aws_account_id'', ''aws_region'', ''dbidentifier'']"
  "variableLabels desc_DBLoad = [''aws_account_id'', ''aws_region'', ''dbidentifier'']"
  "variableLabels desc_dBLoadCPU = [''aws_account_id'', ''aws_region'', ''dbidentifier'']"
  "variableLabels desc_dBLoadNonCPU = [''aws_account_id'', ''aws_region'', ''dbidentifier'']"
  "variableLabels desc_transactionLogsDiskUsage = [''aws_account_id'', ''aws_region'', ''dbidentifier'']"
  "variableLabels desc_certificateValidTill = [''aws_account_id'', ''aws_region'', ''dbidentifier'']"
  "variableLabels desc_quotaDBInstances = [''aws_account_id'', ''aws_region'']"
  "variableLabels desc_quotaTotalStorage = [''aws_account_id'', ''aws_region'']"
  "variableLabels desc_quotaMaxDBInstanceSnapshots = [''aws_account_id'', ''aws_region'']"
  "variableLabels desc_usageAllocatedStorage = [''aws_account_id'', ''aws_region'']"
  "variableLabels desc_usageDBInstances = [''aws_account_id'', ''aws_region'']"
  "variableLabels desc_usageManualSnapshots = [''aws_account_id'', ''aws_region'']"
  "variableLabels desc_BufferCacheHitRatio = [''aws_account_id'', ''aws_region'', ''dbidentifier'']"
  "variableLabels desc_Deadlocks = [''aws_account_id'', ''aws_region'', ''dbidentifier'']"
  "variableLabels desc_Queries = [''aws_account_id'', ''aws_region'', ''dbidentifier'']"
  "variableLabels desc_EngineUptime = [''aws_account_id'', ''aws_region'', ''dbidentifier'']"
  "variableLabels desc_SumBinaryLogSize = [''aws_account_id'', ''aws_region'', ''dbidentifier'']"
  "variableLabels desc_NumBinaryLogFiles = [''aws_account_id'', ''aws_region'', ''dbidentifier'']"
  "variableLabels desc_AuroraBinlogReplicaLag = [''aws_account_id'', ''aws_region'', ''dbidentifier'']"
  "variableLabels desc_BinLogDiskUsage = [''aws_account_id'', ''aws_region'', ''dbidentifier'']"
  by (simp_all add: NewDesc_def
       desc_exporterBuildInformation_def desc_errors_def desc_allocatedStorage_def
       desc_information_def desc_age_def desc_maxAllocatedStorage_def desc_maxIops_def
       desc_storageThroughput_def desc_readThroughput_def desc_writeThroughput_def
       desc_status_def desc_logFilesSize_def desc_instanceVCPU_def desc_instanceMemory_def
       desc_instanceTags_def desc_cpuUtilisation_def desc_instanceMaximumThroughput_def
       desc_instanceMaximumIops_def desc_freeStorageSpace_def desc_databaseConnections_def
       desc_up_def desc_swapUsage_def desc_writeIOPS_def desc_readIOPS_def desc_replicaLag_def
       desc_replicationSlotDiskUsage_def desc_maximumUsedTransactionIDs_def desc_freeableMemory_def
       desc_apiCall_def desc_backupRetentionPeriod_def desc_DBLoad_def desc_dBLoadCPU_def
       desc_dBLoadNonCPU_def desc_transactionLogsDiskUsage_def desc_certificateValidTill_def
       desc_quotaDBInstances_def desc_quotaTotalStorage_def desc_quotaMaxDBInstanceSnapshots_def
       desc_usageAllocatedStorage_def desc_usageDBInstances_def desc_usageManualSnapshots_def
       desc_BufferCacheHitRatio_def desc_Deadlocks_def desc_Queries_def desc_EngineUptime_def
       desc_SumBinaryLogSize_def desc_NumBinaryLogFiles_def desc_AuroraBinlogReplicaLag_def
       desc_BinLogDiskUsage_def)

lemma fqName_NewDesc: "fqName (NewDesc n h l) = n"
  by (simp add: NewDesc_def)

lemma metric_simps:
  "metric_desc (MustNewConstMetric d vt v lvs) = d"
  "valueType (MustNewConstMetric d vt v lvs) = vt"
  "metric_value (MustNewConstMetric d vt v lvs) = v"
  "labelValues (MustNewConstMetric d vt v lvs) = lvs"
  by (simp_all add: MustNewConstMetric_def)

lemma MustNewConstMetric_inject:
  "MustNewConstMetric d vt v lvs = MustNewConstMetric d' vt' v' lvs' \<longleftrightarrow>
     d = d' \<and> vt = vt' \<and> v = v' \<and> lvs = lvs'"
  by (simp add: MustNewConstMetric_def)

lemma cloudwatch_desc_eqs:
  "cloudwatch_desc ''CPUUtilization'' = desc_cpuUtilisation"
  "cloudwatch_desc ''DBLoad'' = desc_DBLoad"
  "cloudwatch_desc ''DBLoadCPU'' = desc_dBLoadCPU"
  "cloudwatch_desc ''DBLoadNonCPU'' = desc_dBLoadNonCPU"
  "cloudwatch_desc ''DatabaseConnections'' = desc_databaseConnections"
  "cloudwatch_desc ''FreeStorageSpace'' = desc_freeStorageSpace"
  "cloudwatch_desc ''FreeableMemory'' = desc_freeableMemory"
  "cloudwatch_desc ''MaximumUsedTransactionIDs'' = desc_maximumUsedTransactionIDs"
  "cloudwatch_desc ''ReadIOPS'' = desc_readIOPS"
  "cloudwatch_desc ''ReadThroughput'' = desc_readThroughput"
  "cloudwatch_desc ''ReplicaLag'' = desc_replicaLag"
  "cloudwatch_desc ''ReplicationSlotDiskUsage'' = desc_replicationSlotDiskUsage"
  "cloudwatch_desc ''SwapUsage'' = desc_swapUsage"
  "cloudwatch_desc ''TransactionLogsDiskUsage'' = desc_transactionLogsDiskUsage"
  "cloudwatch_desc ''WriteIOPS'' = desc_writeIOPS"
  "cloudwatch_desc ''WriteThroughput'' = desc_writeThroughput"
  "cloudwatch_desc ''BufferCacheHitRatio'' = desc_BufferCacheHitRatio"
  "cloudwatch_desc ''Deadlocks'' = desc_Deadlocks"
  "cloudwatch_desc ''Queries'' = desc_Queries"
  "cloudwatch_desc ''EngineUptime'' = desc_EngineUptime"
  "cloudwatch_desc ''SumBinaryLogSize'' = desc_SumBinaryLogSize"
  "cloudwatch_desc ''NumBinaryLogFiles'' = desc_NumBinaryLogFiles"
  "cloudwatch_desc ''AuroraBinlogReplicaLag'' = desc_AuroraBinlogReplicaLag"
  "cloudwatch_desc ''BinLogDiskUsage'' = desc_BinLogDiskUsage"
  by (simp_all add: cloudwatch_desc_def)

lemma cloudwatch_instance_metrics_by_name:
  "cloudwatch_instance_metrics c dbid i =
     concat (map (\<lambda>n. case metric_field n i of None \<Rightarrow> []
                      | Some x \<Rightarrow> [MustNewConstMetric (cloudwatch_desc n) GaugeValue x
                                    [awsAccountID c, awsRegion c, dbid]])
       [''DatabaseConnections'',
        ''FreeStorageSpace'',
        ''FreeableMemory'',
        ''MaximumUsedTransactionIDs'',
        ''ReadThroughput'',
        ''ReplicaLag'',
        ''ReplicationSlotDiskUsage'',
        ''SwapUsage'',
        ''ReadIOPS'',
        ''WriteIOPS'',
        ''WriteThroughput'',
        ''TransactionLogsDiskUsage'',
        ''DBLoad'',
        ''CPUUtilization'',
        ''DBLoadCPU'',
        ''DBLoadNonCPU'',
        ''BufferCacheHitRatio'',
        ''Deadlocks'',
        ''Queries'',
        ''EngineUptime'',
        ''SumBinaryLogSize'',
        ''NumBinaryLogFiles'',
        ''AuroraBinlogReplicaLag'',
        ''BinLogDiskUsage''])"
  by (simp add: cloudwatch_instance_metrics_def metric_field_eqs cloudwatch_desc_eqs
        cong: option.case_cong)

lemma collect_order_names:
  "set [''DatabaseConnections'',
        ''FreeStorageSpace'',
        ''FreeableMemory'',
        ''MaximumUsedTransactionIDs'',
        ''ReadThroughput'',
        ''ReplicaLag'',
        ''ReplicationSlotDiskUsage'',
        ''SwapUsage'',
        ''ReadIOPS'',
        ''WriteIOPS'',
        ''WriteThroughput'',
        ''TransactionLogsDiskUsage'',
        ''DBLoad'',
        ''CPUUtilization'',
        ''DBLoadCPU'',
        ''DBLoadNonCPU'',
        ''BufferCacheHitRatio'',
        ''Deadlocks'',
        ''Queries'',
        ''EngineUptime'',
        ''SumBinaryLogSize'',
        ''NumBinaryLogFiles'',
        ''AuroraBinlogReplicaLag'',
        ''BinLogDiskUsage''] = set getCloudWatchMetricsName"
  by (simp add: getCloudWatchMetricsName_def insert_commute)

lemma cloudwatch_desc_fqName:
  "map (\<lambda>n. fqName (cloudwatch_desc n)) getCloudWatchMetricsName = cloudwatch_names"
  by (simp add: getCloudWatchMetricsName_def cloudwatch_names_def cloudwatch_desc_eqs desc_fqName)

lemma cloudwatch_names_distinct: "distinct cloudwatch_names"
  by (simp add: cloudwatch_names_def)

lemma cloudwatch_desc_inj:
  assumes "n \<in> set getCloudWatchMetricsName" "n' \<in> set getCloudWatchMetricsName"
    and "cloudwatch_desc n = cloudwatch_desc n'"
  shows "n = n'"
proof -
  have "distinct (map (\<lambda>n. fqName (cloudwatch_desc n)) getCloudWatchMetricsName)"
    unfolding cloudwatch_desc_fqName by (rule cloudwatch_names_distinct)
  then have "inj_on (\<lambda>n. fqName (cloudwatch_desc n)) (set getCloudWatchMetricsName)"
    by (simp add: distinct_map)
  moreover from assms(3) have "fqName (cloudwatch_desc n) = fqName (cloudwatch_desc n')" by simp
  ultimately show ?thesis using assms(1,2) by (simp add: inj_on_def)
qed

lemma cloudwatch_desc_name:
  "n \<in> set getCloudWatchMetricsName \<Longrightarrow> fqName (cloudwatch_desc n) \<in> set cloudwatch_names"
  unfolding cloudwatch_desc_fqName [symmetric] by simp

lemma cloudwatch_instance_metrics_set:
  "set (cloudwatch_instance_metrics c dbid i) =
     {MustNewConstMetric (cloudwatch_desc n) GaugeValue x [awsAccountID c, awsRegion c, dbid] | n x.
        n \<in> set getCloudWatchMetricsName \<and> metric_field n i = Some x}"
  unfolding cloudwatch_instance_metrics_by_name set_concat set_map collect_order_names
  by (auto split: option.splits) (metis option.sel)+

lemma quotas_samples: "s \<in> set (collect_quotas c) \<Longrightarrow> sample_of Quotas s"
  by (auto simp: collect_quotas_def sample_of_def api_sample_def metric_simps desc_fqName
        split: if_splits)

lemma usage_samples: "s \<in> set (collect_usage c) \<Longrightarrow> sample_of Usages s"
  by (auto simp: collect_usage_def sample_of_def api_sample_def metric_simps desc_fqName
        split: if_splits)

lemma ec2_samples: "s \<in> set (collect_ec2 c) \<Longrightarrow> sample_of InstanceTypes s"
  by (auto simp: collect_ec2_def ec2_instance_metrics_def sample_of_def api_sample_def
        metric_simps desc_fqName)

lemma cloudwatch_samples: "s \<in> set (collect_cloudwatch w c) \<Longrightarrow> sample_of InstanceMetrics s"
  by (auto simp: collect_cloudwatch_def cloudwatch_instance_metrics_set sample_of_def
        api_sample_def metric_simps desc_fqName cloudwatch_desc_name)


lemma collect_rds_eq:
  "fst (collect_rds w c) =
     MustNewConstMetric desc_apiCall CounterValue (RDSAPIcalls (counters c))
       [awsAccountID c, awsRegion c, ''rds''] #
     concat (map (\<lambda>(dbid, i). fst (rds_instance_metrics w c dbid i))
               (rds_Instances (RDS (metrics c))))"
proof -
  have "collect_rds w c =
      (MustNewConstMetric desc_apiCall CounterValue (RDSAPIcalls (counters c))
         [awsAccountID c, awsRegion c, ''rds''] #
       fst (range_rds_Instances w c (rds_Instances (RDS (metrics c)))),
       snd (range_rds_Instances w c (rds_Instances (RDS (metrics c)))))"
    by (simp add: collect_rds_def split: prod.split)
  then show ?thesis by (simp add: range_rds_Instances_eq)
qed






lemma rds_instance_metrics_eq:
  "fst (rds_instance_metrics w c dbid i) =
     [MustNewConstMetric desc_allocatedStorage GaugeValue (of_int (AllocatedStorage i))
        [awsAccountID c, awsRegion c, dbid],
      MustNewConstMetric desc_information GaugeValue 1
        [awsAccountID c, awsRegion c, dbid, DbiResourceID i, DBInstanceClass i,
         Engine i, EngineVersion i, StorageType i, FormatBool (MultiAZ i),
         FormatBool (DeletionProtection i), Role i, SourceDBInstanceIdentifier i,
         FormatBool (PendingModifiedValues i), PendingMaintenanceAction i,
         FormatBool (PerformanceInsightsEnabled i), CACertificateIdentifier i, Arn i],
      MustNewConstMetric desc_maxAllocatedStorage GaugeValue (of_int (MaxAllocatedStorage i))
        [awsAccountID c, awsRegion c, dbid],
      MustNewConstMetric desc_maxIops GaugeValue (of_int (MaxIops i))
        [awsAccountID c, awsRegion c, dbid],
      MustNewConstMetric desc_status GaugeValue (of_int (Status i))
        [awsAccountID c, awsRegion c, dbid],
      MustNewConstMetric desc_storageThroughput GaugeValue (of_int (StorageThroughput i))
        [awsAccountID c, awsRegion c, dbid],
      MustNewConstMetric desc_backupRetentionPeriod GaugeValue (of_int (BackupRetentionPeriod i))
        [awsAccountID c, awsRegion c, dbid]] @
     (if CollectInstanceTags (configuration c)
      then [MustNewConstMetric
              (NewDesc ''rds_instance_tags'' ''AWS tags attached to the instance''
                 (fst (getInstanceTagLabels c (range_labels w dbid) dbid i)))
              GaugeValue 0 (snd (getInstanceTagLabels c (range_labels w dbid) dbid i))]
      else []) @
     (case CertificateValidTill i of None \<Rightarrow> [] | Some x \<Rightarrow>
        [MustNewConstMetric desc_certificateValidTill GaugeValue (of_int x)
           [awsAccountID c, awsRegion c, dbid]]) @
     (case Age i of None \<Rightarrow> [] | Some x \<Rightarrow>
        [MustNewConstMetric desc_age GaugeValue x [awsAccountID c, awsRegion c, dbid]]) @
     (case LogFilesSize i of None \<Rightarrow> [] | Some x \<Rightarrow>
        [MustNewConstMetric desc_logFilesSize GaugeValue (of_int x)
           [awsAccountID c, awsRegion c, dbid]])"
  by (simp add: rds_instance_metrics_def Let_def split: prod.split cong: option.case_cong)

lemma rds_instance_metrics_names:
  "s \<in> set (fst (rds_instance_metrics w c dbid i)) \<Longrightarrow>
   fqName (metric_desc s) \<in> set [''rds_allocated_storage_bytes'', ''rds_instance_info'',
     ''rds_max_allocated_storage_bytes'', ''rds_max_disk_iops_average'', ''rds_instance_status'',
     ''rds_max_storage_throughput_bytes'', ''rds_backup_retention_period_seconds'',
     ''rds_instance_tags'', ''rds_certificate_expiry_timestamp_seconds'',
     ''rds_instance_age_seconds'', ''rds_instance_log_files_size_bytes'']"
  unfolding rds_instance_metrics_eq
  by (auto simp: metric_simps desc_fqName fqName_NewDesc split: option.splits if_splits)

lemma collect_rds_names:
  "s \<in> set (fst (collect_rds w c)) \<Longrightarrow>
   fqName (metric_desc s) \<in> set [''rds_api_call_total'', ''rds_allocated_storage_bytes'',
     ''rds_instance_info'',
     ''rds_max_allocated_storage_bytes'', ''rds_max_disk_iops_average'', ''rds_instance_status'',
     ''rds_max_storage_throughput_bytes'', ''rds_backup_retention_period_seconds'',
     ''rds_instance_tags'', ''rds_certificate_expiry_timestamp_seconds'',
     ''rds_instance_age_seconds'', ''rds_instance_log_files_size_bytes'']"
proof -
  assume "s \<in> set (fst (collect_rds w c))"
  then consider "fqName (metric_desc s) = ''rds_api_call_total''"
    | dbid i where "s \<in> set (fst (rds_instance_metrics w c dbid i))"
    by (auto simp: collect_rds_eq metric_simps desc_fqName)
  then show ?thesis
  proof cases
    case 1
    then show ?thesis by simp
  next
    case 2
    from rds_instance_metrics_names [OF 2] show ?thesis by simp
  qed
qed

lemma S2_collector_simps:
  "awsRegion S2_collector = ''eu-west-3''"
  "awsAccountID S2_collector = ''123456789012''"
  "configuration S2_collector =
     \<lparr> CollectInstanceMetrics = True, CollectInstanceTags = True, CollectInstanceTypes = True,
       CollectLogsSize = True, CollectMaintenances = True, CollectQuotas = True,
       CollectUsages = True \<rparr>"
  "Errors (counters S2_collector) = 0"
  by (simp_all add: S2_collector_def NewCollector_def)

lemma S2_inventory:
  "inventory S2_world S2_collector = ((\<lparr> rds_Instances = [(''db-a'', S2_instance)] \<rparr>, None), 1)"
  by (simp add: inventory_def S2_world_def)

section \<open>A failed inventory fetch stops the scrape\<close>



section \<open>Facts about the subtasks of a scrape\<close>






section \<open>A failing subtask does not stop the scrape\<close>


lemma S2_query_ids:
  "query_id ''CPUUtilization'' 0 = ''cpuutilization_0''"
  "query_id ''DatabaseConnections'' 0 = ''databaseconnections_0''"
  by code_simp+

lemma S2_lookup:
  "lookup_request (generateCloudWatchQueriesForInstances [''db-a'']) ''cpuutilization_0'' =
     generateCloudWatchQueryForInstance ''cpuutilization_0'' ''CPUUtilization'' ''db-a''"
  "lookup_request (generateCloudWatchQueriesForInstances [''db-a'']) ''databaseconnections_0'' =
     generateCloudWatchQueryForInstance ''databaseconnections_0'' ''DatabaseConnections'' ''db-a''"
  using lookup_request_generated [of "''CPUUtilization''" 0 "[''db-a'']"]
    lookup_request_generated [of "''DatabaseConnections''" 0 "[''db-a'']"]
  by (simp_all add: S2_query_ids getCloudWatchMetricsName_def)


lemma S2_identifiers:
  "inventory w c = ((\<lparr> rds_Instances = [(''db-a'', S2_instance)] \<rparr>, None), 1) \<Longrightarrow>
   instanceIdentifiers_of w c = [''db-a''] \<and> instanceTypes_of w c = [''db.t3.small'']"
  by (simp add: instanceIdentifiers_of_def instanceTypes_of_def getUniqTypeAndIdentifiers_def
        S2_instance_def)


section \<open>Facts about the optional fields\<close>

lemma set_range_entries:
  "set (range_entries m keys) = {(k, v). k \<in> set keys \<and> m k = Some v}"
  by (induction keys) (auto simp add: range_entries_def List.map_filter_def)

lemma api_not_cloudwatch: "''rds_api_call_total'' \<notin> set cloudwatch_names"
  by (simp add: cloudwatch_names_def)

lemma collect_cloudwatch_member:
  assumes n: "n \<in> set getCloudWatchMetricsName"
  shows "MustNewConstMetric (cloudwatch_desc n) GaugeValue x [awsAccountID c, awsRegion c, dbid]
           \<in> set (collect_cloudwatch w c) \<longleftrightarrow>
         dbid \<in> set (range_CloudwatchInstances w) \<and>
         sample_field (Instances (CloudwatchInstances (metrics c))) dbid n = Some x"
    (is "?S \<in> _ \<longleftrightarrow> ?R")
proof -
  let ?M = "Instances (CloudwatchInstances (metrics c))"
  have "fqName (cloudwatch_desc n) \<noteq> fqName desc_apiCall"
    using cloudwatch_desc_name [OF n] api_not_cloudwatch by (auto simp add: desc_fqName)
  then have ne: "cloudwatch_desc n \<noteq> desc_apiCall"
    by auto
  have "?S \<in> set (collect_cloudwatch w c) \<longleftrightarrow>
        (\<exists>k i. k \<in> set (range_CloudwatchInstances w) \<and> ?M k = Some i \<and>
               ?S \<in> set (cloudwatch_instance_metrics c k i))"
    using ne by (auto simp add: collect_cloudwatch_def set_range_entries MustNewConstMetric_inject)
  also have "\<dots> \<longleftrightarrow> (\<exists>i. dbid \<in> set (range_CloudwatchInstances w) \<and> ?M dbid = Some i \<and>
                          metric_field n i = Some x)"
    using n by (auto simp add: cloudwatch_instance_metrics_set MustNewConstMetric_inject
                  dest: cloudwatch_desc_inj)
  also have "\<dots> \<longleftrightarrow> ?R"
    by (auto simp add: sample_field_def split: option.splits)
  finally show ?thesis .
qed

lemma section_names:
  "s \<in> set (collect_cloudwatch w c) \<Longrightarrow>
     fqName (metric_desc s) \<in> set (''rds_api_call_total'' # cloudwatch_names)"
  "s \<in> set (collect_usage c) \<Longrightarrow>
     fqName (metric_desc s) \<in> set [''rds_api_call_total'', ''rds_usage_allocated_storage_bytes'',
       ''rds_usage_db_instances_average'', ''rds_usage_manual_snapshots_average'']"
  "s \<in> set (collect_ec2 c) \<Longrightarrow>
     fqName (metric_desc s) \<in> set [''rds_api_call_total'', ''rds_instance_max_iops_average'',
       ''rds_instance_max_throughput_bytes'', ''rds_instance_memory_bytes'',
       ''rds_instance_vcpu_average'']"
  "s \<in> set (collect_quotas c) \<Longrightarrow>
     fqName (metric_desc s) \<in> set [''rds_api_call_total'', ''rds_quota_max_dbinstances_average'',
       ''rds_quota_total_storage_bytes'', ''rds_quota_maximum_db_instance_snapshots_average'']"
  using cloudwatch_samples [of s w c] usage_samples [of s c] ec2_samples [of s c] quotas_samples [of s c]
  by (auto simp add: sample_of_def api_sample_def)

lemma Collect_cloudwatch_only:
  assumes ok: "snd (fst (inventory w c)) = None"
    and n: "fqName (metric_desc s) \<in> set cloudwatch_names"
  shows "s \<in> set (fst (Collect w c)) \<longleftrightarrow> s \<in> set (collect_cloudwatch w (fst (fetchMetrics w c)))"
proof -
  let ?c = "fst (fetchMetrics w c)"
  have 1: "s \<notin> set (fst (collect_rds w ?c))"
    using collect_rds_names [of s w ?c] n by (auto simp add: cloudwatch_names_def)
  have 2: "s \<notin> set (collect_usage ?c)"
    using section_names(2) [of s ?c] n by (auto simp add: cloudwatch_names_def)
  have 3: "s \<notin> set (collect_ec2 ?c)"
    using section_names(3) [of s ?c] n by (auto simp add: cloudwatch_names_def)
  have 4: "s \<notin> set (collect_quotas ?c)"
    using section_names(4) [of s ?c] n by (auto simp add: cloudwatch_names_def)
  have 5: "s \<noteq> MustNewConstMetric desc_exporterBuildInformation GaugeValue 1
        [build_Version w, build_CommitSHA w, build_Date w, awsRegion c]"
    "s \<noteq> MustNewConstMetric desc_errors CounterValue (Errors (counters c)) [awsRegion c]"
    "s \<noteq> MustNewConstMetric desc_up GaugeValue 1 [awsRegion c]"
    using n by (auto simp add: cloudwatch_names_def metric_simps desc_fqName)
  show ?thesis
    using 1 2 3 4 5 by (simp add: Collect_ok(1) [OF ok])
qed

lemma Collect_rds_only:
  assumes ok: "snd (fst (inventory w c)) = None"
    and n: "fqName (metric_desc s) \<in> set [''rds_instance_age_seconds'',
              ''rds_instance_log_files_size_bytes'', ''rds_certificate_expiry_timestamp_seconds'']"
  shows "s \<in> set (fst (Collect w c)) \<longleftrightarrow>
         (\<exists>(dbid, i) \<in> set (rds_Instances (fst (fst (inventory w c)))).
            s \<in> set (fst (rds_instance_metrics w (fst (fetchMetrics w c)) dbid i)))"
proof -
  let ?c = "fst (fetchMetrics w c)"
  have 1: "s \<notin> set (collect_cloudwatch w ?c)"
    using section_names(1) [of s w ?c] n by (auto simp add: cloudwatch_names_def)
  have 2: "s \<notin> set (collect_usage ?c)"
    using section_names(2) [of s ?c] n by auto
  have 3: "s \<notin> set (collect_ec2 ?c)"
    using section_names(3) [of s ?c] n by auto
  have 4: "s \<notin> set (collect_quotas ?c)"
    using section_names(4) [of s ?c] n by auto
  have 5: "s \<noteq> MustNewConstMetric desc_exporterBuildInformation GaugeValue 1
        [build_Version w, build_CommitSHA w, build_Date w, awsRegion c]"
    "s \<noteq> MustNewConstMetric desc_errors CounterValue (Errors (counters c)) [awsRegion c]"
    "s \<noteq> MustNewConstMetric desc_up GaugeValue 1 [awsRegion c]"
    "s \<noteq> MustNewConstMetric desc_apiCall CounterValue (RDSAPIcalls (counters ?c))
       [awsAccountID ?c, awsRegion ?c, ''rds'']"
    using n by (auto simp add: metric_simps desc_fqName)
  show ?thesis
    using 1 2 3 4 5
    by (simp add: Collect_ok(1) [OF ok] collect_rds_eq fetchMetrics_ok(6) [OF ok]) blast
qed

lemma rds_instance_metrics_optional:
  "MustNewConstMetric desc_age GaugeValue x [awsAccountID c, awsRegion c, d]
     \<in> set (fst (rds_instance_metrics w c dbid i)) \<longleftrightarrow> d = dbid \<and> Age i = Some x"
  "MustNewConstMetric desc_logFilesSize GaugeValue x [awsAccountID c, awsRegion c, d]
     \<in> set (fst (rds_instance_metrics w c dbid i)) \<longleftrightarrow>
   d = dbid \<and> (\<exists>y. LogFilesSize i = Some y \<and> x = of_int y)"
  "MustNewConstMetric desc_certificateValidTill GaugeValue x [awsAccountID c, awsRegion c, d]
     \<in> set (fst (rds_instance_metrics w c dbid i)) \<longleftrightarrow>
   d = dbid \<and> (\<exists>y. CertificateValidTill i = Some y \<and> x = of_int y)"
proof -
  have ne: "fqName a \<noteq> fqName b \<Longrightarrow> a \<noteq> b" for a b :: Desc
    by auto
  note d = ne [of desc_age, unfolded desc_fqName fqName_NewDesc]
    ne [of desc_logFilesSize, unfolded desc_fqName fqName_NewDesc]
    ne [of desc_certificateValidTill, unfolded desc_fqName fqName_NewDesc]
  show "MustNewConstMetric desc_age GaugeValue x [awsAccountID c, awsRegion c, d]
     \<in> set (fst (rds_instance_metrics w c dbid i)) \<longleftrightarrow> d = dbid \<and> Age i = Some x"
    by (auto simp add: rds_instance_metrics_eq MustNewConstMetric_inject d desc_fqName
          fqName_NewDesc split: option.splits)
  show "MustNewConstMetric desc_logFilesSize GaugeValue x [awsAccountID c, awsRegion c, d]
     \<in> set (fst (rds_instance_metrics w c dbid i)) \<longleftrightarrow>
   d = dbid \<and> (\<exists>y. LogFilesSize i = Some y \<and> x = of_int y)"
    by (auto simp add: rds_instance_metrics_eq MustNewConstMetric_inject d desc_fqName
          fqName_NewDesc split: option.splits)
  show "MustNewConstMetric desc_certificateValidTill GaugeValue x [awsAccountID c, awsRegion c, d]
     \<in> set (fst (rds_instance_metrics w c dbid i)) \<longleftrightarrow>
   d = dbid \<and> (\<exists>y. CertificateValidTill i = Some y \<and> x = of_int y)"
    by (auto simp add: rds_instance_metrics_eq MustNewConstMetric_inject d desc_fqName
          fqName_NewDesc split: option.splits)
qed

lemma Collect_optional_inventory:
  assumes ok: "snd (fst (inventory w c)) = None"
  shows "MustNewConstMetric desc_age GaugeValue x [awsAccountID c, awsRegion c, d]
           \<in> set (fst (Collect w c)) \<longleftrightarrow>
         (\<exists>i. (d, i) \<in> set (rds_Instances (fst (fst (inventory w c)))) \<and> Age i = Some x)"
    and "MustNewConstMetric desc_logFilesSize GaugeValue x [awsAccountID c, awsRegion c, d]
           \<in> set (fst (Collect w c)) \<longleftrightarrow>
         (\<exists>i y. (d, i) \<in> set (rds_Instances (fst (fst (inventory w c)))) \<and>
                LogFilesSize i = Some y \<and> x = of_int y)"
    and "MustNewConstMetric desc_certificateValidTill GaugeValue x [awsAccountID c, awsRegion c, d]
           \<in> set (fst (Collect w c)) \<longleftrightarrow>
         (\<exists>i y. (d, i) \<in> set (rds_Instances (fst (fst (inventory w c)))) \<and>
                CertificateValidTill i = Some y \<and> x = of_int y)"
proof -
  let ?c = "fst (fetchMetrics w c)"
  note o = rds_instance_metrics_optional [of _ ?c, unfolded fetchMetrics_ok(3,4) [OF ok]]
  show "MustNewConstMetric desc_age GaugeValue x [awsAccountID c, awsRegion c, d]
           \<in> set (fst (Collect w c)) \<longleftrightarrow>
         (\<exists>i. (d, i) \<in> set (rds_Instances (fst (fst (inventory w c)))) \<and> Age i = Some x)"
    by (subst Collect_rds_only [OF ok]) (auto simp add: metric_simps desc_fqName o)
  show "MustNewConstMetric desc_logFilesSize GaugeValue x [awsAccountID c, awsRegion c, d]
           \<in> set (fst (Collect w c)) \<longleftrightarrow>
         (\<exists>i y. (d, i) \<in> set (rds_Instances (fst (fst (inventory w c)))) \<and>
                LogFilesSize i = Some y \<and> x = of_int y)"
    by (subst Collect_rds_only [OF ok]) (auto simp add: metric_simps desc_fqName o)
  show "MustNewConstMetric desc_certificateValidTill GaugeValue x [awsAccountID c, awsRegion c, d]
           \<in> set (fst (Collect w c)) \<longleftrightarrow>
         (\<exists>i y. (d, i) \<in> set (rds_Instances (fst (fst (inventory w c)))) \<and>
                CertificateValidTill i = Some y \<and> x = of_int y)"
    by (subst Collect_rds_only [OF ok]) (auto simp add: metric_simps desc_fqName o)
qed

lemma Collect_cloudwatch_fields:
  assumes ok: "snd (fst (inventory w c)) = None"
    and n: "n \<in> set getCloudWatchMetricsName"
  shows "MustNewConstMetric (cloudwatch_desc n) GaugeValue x [awsAccountID c, awsRegion c, d]
           \<in> set (fst (Collect w c)) \<longleftrightarrow>
         d \<in> set (range_CloudwatchInstances w) \<and>
         sample_field (Instances (CloudwatchInstances (metrics (snd (Collect w c))))) d n = Some x"
proof -
  let ?c = "fst (fetchMetrics w c)"
  from Collect_ok(2) [OF ok] obtain t where t: "snd (Collect w c) = ?c\<lparr>instanceTags := t\<rparr>" ..
  have "fqName (metric_desc (MustNewConstMetric (cloudwatch_desc n) GaugeValue x
          [awsAccountID c, awsRegion c, d])) \<in> set cloudwatch_names"
    using cloudwatch_desc_name [OF n] by (simp add: metric_simps)
  from Collect_cloudwatch_only [OF ok this]
    collect_cloudwatch_member [OF n, of x ?c d w, unfolded fetchMetrics_ok(3,4) [OF ok]]
  show ?thesis
    by (simp add: t)
qed

lemma time_series_quiet:
  assumes ok: "snd (fst (inventory w c)) = None"
    and on: "CollectInstanceMetrics (configuration c)"
    and q: "\<forall>p resp. GetMetricData w p = Inr resp \<longrightarrow>
              (\<forall>r \<in> set resp.
                 Dbidentifier (lookup_request (generateCloudWatchQueriesForInstances
                    (instanceIdentifiers_of w c)) (Result_Id r)) = d \<longrightarrow>
                 MetricName (lookup_request (generateCloudWatchQueriesForInstances
                    (instanceIdentifiers_of w c)) (Result_Id r)) = n \<longrightarrow>
                 Values r = None \<or> Values r = Some [])"
  shows "sample_field (Instances (CloudwatchInstances (metrics (snd (Collect w c))))) d n = None"
proof -
  let ?c = "fst (fetchMetrics w c)"
  from Collect_ok(2) [OF ok] obtain t where t: "snd (Collect w c) = ?c\<lparr>instanceTags := t\<rparr>" ..
  have "sample_field (Instances (fst (fst (time_series_fetch w c)))) d n = None"
    unfolding time_series_fetch_def
    by (rule GetRDSInstanceMetrics_quiet) (use q in \<open>simp add: NewRDSFetcher_def\<close>)
  then show ?thesis
    using on by (simp add: t fetchMetrics_ok(14) [OF ok] subtask_launched_def)
qed

section \<open>A sample is emitted exactly when the optional value is present\<close>

text \<open>
  Claim C5. In a scrape whose inventory fetch succeeds, for every instance identifier \<open>d\<close>
  and each of the 24 time-series fields \<open>n\<close>: \<open>Collect\<close> emits the sample of \<open>n\<close> for \<open>d\<close>
  with value \<open>x\<close> only if the field \<open>n\<close> of the sample that the collector holds for \<open>d\<close> is
  present and is \<open>x\<close>; and it does emit it when the field is present, the loop over the
  map of samples visiting every key of the map. When the time-series subtask runs and the
  upstream returns, for the query of \<open>d\<close> and \<open>n\<close>, only results with no values, the field
  stays unset and no sample of \<open>n\<close> for \<open>d\<close> is emitted, whatever the value (so no zero).
  For the optional inventory fields: a sample of the age, of the size of the log files and of
  the certificate expiry is emitted for \<open>d\<close> exactly when the inventory holds an instance
  \<open>d\<close> whose field is present, with the value of the field.
\<close>

theorem sample_iff_optional_value_present:
  assumes ok: "snd (fst (inventory w c)) = None"
  shows
    "(\<forall>d n x. n \<in> set getCloudWatchMetricsName \<longrightarrow>
        (MustNewConstMetric (cloudwatch_desc n) GaugeValue x [awsAccountID c, awsRegion c, d]
           \<in> set (fst (Collect w c)) \<longrightarrow>
         sample_field (Instances (CloudwatchInstances (metrics (snd (Collect w c))))) d n = Some x) \<and>
        (range_order (Instances (CloudwatchInstances (metrics (snd (Collect w c)))))
           (range_CloudwatchInstances w) \<longrightarrow>
         sample_field (Instances (CloudwatchInstances (metrics (snd (Collect w c))))) d n = Some x \<longrightarrow>
         MustNewConstMetric (cloudwatch_desc n) GaugeValue x [awsAccountID c, awsRegion c, d]
           \<in> set (fst (Collect w c))) \<and>
        (CollectInstanceMetrics (configuration c) \<longrightarrow>
         (\<forall>p resp. GetMetricData w p = Inr resp \<longrightarrow>
            (\<forall>r \<in> set resp.
               Dbidentifier (lookup_request (generateCloudWatchQueriesForInstances
                  (instanceIdentifiers_of w c)) (Result_Id r)) = d \<longrightarrow>
               MetricName (lookup_request (generateCloudWatchQueriesForInstances
                  (instanceIdentifiers_of w c)) (Result_Id r)) = n \<longrightarrow>
               Values r = None \<or> Values r = Some [])) \<longrightarrow>
         sample_field (Instances (CloudwatchInstances (metrics (snd (Collect w c))))) d n = None \<and>
         (\<forall>v. MustNewConstMetric (cloudwatch_desc n) GaugeValue v [awsAccountID c, awsRegion c, d]
                \<notin> set (fst (Collect w c))))) \<and>
     (\<forall>d x. MustNewConstMetric desc_age GaugeValue x [awsAccountID c, awsRegion c, d]
               \<in> set (fst (Collect w c)) \<longleftrightarrow>
             (\<exists>i. (d, i) \<in> set (rds_Instances (fst (fst (inventory w c)))) \<and> Age i = Some x)) \<and>
     (\<forall>d x. MustNewConstMetric desc_logFilesSize GaugeValue x [awsAccountID c, awsRegion c, d]
               \<in> set (fst (Collect w c)) \<longleftrightarrow>
             (\<exists>i y. (d, i) \<in> set (rds_Instances (fst (fst (inventory w c)))) \<and>
                    LogFilesSize i = Some y \<and> x = of_int y)) \<and>
     (\<forall>d x. MustNewConstMetric desc_certificateValidTill GaugeValue x [awsAccountID c, awsRegion c, d]
               \<in> set (fst (Collect w c)) \<longleftrightarrow>
             (\<exists>i y. (d, i) \<in> set (rds_Instances (fst (fst (inventory w c)))) \<and>
                    CertificateValidTill i = Some y \<and> x = of_int y))"
proof (intro conjI allI impI)
  fix d n x
  assume n: "n \<in> set getCloudWatchMetricsName"
  note f = Collect_cloudwatch_fields [OF ok n]
  let ?M = "Instances (CloudwatchInstances (metrics (snd (Collect w c))))"
  {
    assume "MustNewConstMetric (cloudwatch_desc n) GaugeValue x [awsAccountID c, awsRegion c, d]
           \<in> set (fst (Collect w c))"
    then show "sample_field ?M d n = Some x"
      by (simp add: f)
  }
  {
    assume r: "range_order ?M (range_CloudwatchInstances w)" and s: "sample_field ?M d n = Some x"
    from s have "d \<in> dom ?M"
      by (auto simp add: sample_field_def split: option.splits)
    with r have "d \<in> set (range_CloudwatchInstances w)"
      by (simp add: range_order_def)
    with s show "MustNewConstMetric (cloudwatch_desc n) GaugeValue x [awsAccountID c, awsRegion c, d]
           \<in> set (fst (Collect w c))"
      by (simp add: f)
  }
  {
    assume on: "CollectInstanceMetrics (configuration c)"
      and q: "\<forall>p resp. GetMetricData w p = Inr resp \<longrightarrow>
            (\<forall>r \<in> set resp.
               Dbidentifier (lookup_request (generateCloudWatchQueriesForInstances
                  (instanceIdentifiers_of w c)) (Result_Id r)) = d \<longrightarrow>
               MetricName (lookup_request (generateCloudWatchQueriesForInstances
                  (instanceIdentifiers_of w c)) (Result_Id r)) = n \<longrightarrow>
               Values r = None \<or> Values r = Some [])"
    from time_series_quiet [OF ok on q] show none: "sample_field ?M d n = None" .
    fix v
    from none show "MustNewConstMetric (cloudwatch_desc n) GaugeValue v [awsAccountID c, awsRegion c, d]
                \<notin> set (fst (Collect w c))"
      by (simp add: f)
  }
qed (simp_all only: Collect_optional_inventory [OF ok])

lemma S2_process:
  "process_results (generateCloudWatchQueriesForInstances [''db-a'']) S2_response Map.empty =
     ([''db-a'' \<mapsto> fst (Update ''CPUUtilization'' (25 / 2) empty_RdsMetrics)], None)"
proof -
  let ?reqs = "generateCloudWatchQueriesForInstances [''db-a'']"
  let ?r1 = "\<lparr> Result_Id = ''cpuutilization_0'', Label = ''CPUUtilization'', Values = Some [25 / 2 :: real] \<rparr>"
  let ?r2 = "\<lparr> Result_Id = ''databaseconnections_0'', Label = ''DatabaseConnections'',
               Values = Some ([] :: real list) \<rparr>"
  let ?m = "[''db-a'' \<mapsto> fst (Update ''CPUUtilization'' (25 / 2) empty_RdsMetrics)]"
  have 1: "process_results ?reqs [?r1, ?r2] Map.empty = process_results ?reqs [?r2] ?m"
    by (subst process_results_known [where v = "25 / 2" and vs = "[]"])
       (simp_all add: S2_lookup generateCloudWatchQueryForInstance_def getCloudWatchMetricsName_def
          current_sample_def)
  have 2: "process_results ?reqs [?r2] ?m = process_results ?reqs [] ?m"
    by (subst process_results_empty_values)
       (simp_all add: S2_lookup generateCloudWatchQueryForInstance_def current_sample_def)
  show ?thesis
    unfolding S2_response_def 1 2 by simp
qed

lemma S2_fetch:
  "fst (GetRDSInstanceMetrics n1 n2 (canonical_keys [''db-a''])
          (NewRDSFetcher (\<lambda>p. Inr S2_response)) [''db-a'']) =
     (\<lparr> Instances = [''db-a'' \<mapsto> fst (Update ''CPUUtilization'' (25 / 2) empty_RdsMetrics)] \<rparr>, None)"
proof -
  have len: "length (canonical_keys [''db-a'']) = 24"
    by (simp add: canonical_keys_length)
  have short: "range_cloudWatchQueries reqs s e (canonical_keys [''db-a''])
           \<lparr> fetcher = c, metrics_map = Map.empty, chunk = [], cloudWatchAPICalls = 0 \<rparr> =
         (\<lparr> fetcher = c, metrics_map = Map.empty, chunk = canonical_keys [''db-a''],
            cloudWatchAPICalls = 0 \<rparr>, None)" for reqs s e c
    by (subst range_cloudWatchQueries_short) (simp_all add: len MaxQueriesPerCloudwatchRequest_def)
  from len have ne: "canonical_keys [''db-a''] \<noteq> []"
    by auto
  show ?thesis
    by (simp add: GetRDSInstanceMetrics_def short ne
          updateMetricsWithCloudWatchQueriesResult_def NewRDSFetcher_def S2_process)
qed

lemma S2_held:
  "Instances (CloudwatchInstances (metrics (snd (Collect S2_world S2_collector)))) =
     [''db-a'' \<mapsto> fst (Update ''CPUUtilization'' (25 / 2) empty_RdsMetrics)]"
proof -
  have ok: "snd (fst (inventory S2_world S2_collector)) = None"
    by (simp add: S2_inventory)
  from Collect_ok(2) [OF ok] obtain t
    where t: "snd (Collect S2_world S2_collector) =
                (fst (fetchMetrics S2_world S2_collector))\<lparr>instanceTags := t\<rparr>" ..
  have ts: "fst (time_series_fetch S2_world S2_collector) =
     (\<lparr> Instances = [''db-a'' \<mapsto> fst (Update ''CPUUtilization'' (25 / 2) empty_RdsMetrics)] \<rparr>, None)"
    by (simp add: time_series_fetch_def S2_identifiers [OF S2_inventory])
       (simp add: S2_world_def S2_fetch)
  show ?thesis
    by (simp add: t fetchMetrics_ok(14) [OF ok] subtask_launched_def S2_collector_simps ts)
qed

theorem sample_iff_optional_value_present_witness:
  "snd (fst (inventory S2_world S2_collector)) = None \<and>
   MustNewConstMetric desc_cpuUtilisation GaugeValue (25 / 2) [''123456789012'', ''eu-west-3'', ''db-a'']
     \<in> set (fst (Collect S2_world S2_collector)) \<and>
   MustNewConstMetric desc_databaseConnections GaugeValue 0 [''123456789012'', ''eu-west-3'', ''db-a'']
     \<notin> set (fst (Collect S2_world S2_collector)) \<and>
   MustNewConstMetric desc_age GaugeValue 3600 [''123456789012'', ''eu-west-3'', ''db-a'']
     \<in> set (fst (Collect S2_world S2_collector)) \<and>
   MustNewConstMetric desc_logFilesSize GaugeValue 0 [''123456789012'', ''eu-west-3'', ''db-a'']
     \<notin> set (fst (Collect S2_world S2_collector))"
proof -
  let ?M = "Instances (CloudwatchInstances (metrics (snd (Collect S2_world S2_collector))))"
  have ok: "snd (fst (inventory S2_world S2_collector)) = None"
    by (simp add: S2_inventory)
  note t = sample_iff_optional_value_present [OF ok, unfolded S2_collector_simps]
  note cw = t [THEN conjunct1, THEN spec, THEN spec, THEN spec, THEN mp]
  have n1: "''CPUUtilization'' \<in> set getCloudWatchMetricsName"
    and n2: "''DatabaseConnections'' \<in> set getCloudWatchMetricsName"
    by (simp_all add: getCloudWatchMetricsName_def)
  have order: "range_order ?M (range_CloudwatchInstances S2_world)"
    by (simp add: S2_held range_order_def) (simp add: S2_world_def)
  have cpu: "sample_field ?M ''db-a'' ''CPUUtilization'' = Some (25 / 2)"
    by (simp add: S2_held sample_field_def Update_known_eqs metric_field_eqs)
  have a: "MustNewConstMetric desc_cpuUtilisation GaugeValue (25 / 2)
             [''123456789012'', ''eu-west-3'', ''db-a''] \<in> set (fst (Collect S2_world S2_collector))"
    using cw [OF n1, THEN conjunct2, THEN conjunct1, THEN mp, THEN mp, OF order cpu]
    by (simp only: cloudwatch_desc_eqs)
  have on: "CollectInstanceMetrics
     \<lparr> CollectInstanceMetrics = True, CollectInstanceTags = True, CollectInstanceTypes = True,
       CollectLogsSize = True, CollectMaintenances = True, CollectQuotas = True,
       CollectUsages = True \<rparr>"
    by simp
  have quiet: "\<forall>p resp. GetMetricData S2_world p = Inr resp \<longrightarrow>
            (\<forall>r \<in> set resp.
               Dbidentifier (lookup_request (generateCloudWatchQueriesForInstances
                  (instanceIdentifiers_of S2_world S2_collector)) (Result_Id r)) = ''db-a'' \<longrightarrow>
               MetricName (lookup_request (generateCloudWatchQueriesForInstances
                  (instanceIdentifiers_of S2_world S2_collector)) (Result_Id r)) = ''DatabaseConnections'' \<longrightarrow>
               Values r = None \<or> Values r = Some [])"
    by (simp add: S2_identifiers [OF S2_inventory])
       (auto simp add: S2_world_def S2_response_def S2_lookup generateCloudWatchQueryForInstance_def)
  have "\<forall>v. MustNewConstMetric (cloudwatch_desc ''DatabaseConnections'') GaugeValue v
             [''123456789012'', ''eu-west-3'', ''db-a''] \<notin> set (fst (Collect S2_world S2_collector))"
    using cw [OF n2, THEN conjunct2, THEN conjunct2, THEN mp, THEN mp, OF on quiet, THEN conjunct2] .
  then have b: "MustNewConstMetric desc_databaseConnections GaugeValue 0
             [''123456789012'', ''eu-west-3'', ''db-a''] \<notin> set (fst (Collect S2_world S2_collector))"
    by (simp add: cloudwatch_desc_eqs)
  have c: "MustNewConstMetric desc_age GaugeValue 3600 [''123456789012'', ''eu-west-3'', ''db-a'']
     \<in> set (fst (Collect S2_world S2_collector))"
    by (simp add: t [THEN conjunct2, THEN conjunct1, rule_format] S2_inventory S2_instance_def)
  have d: "MustNewConstMetric desc_logFilesSize GaugeValue 0 [''123456789012'', ''eu-west-3'', ''db-a'']
     \<notin> set (fst (Collect S2_world S2_collector))"
    by (simp add: t [THEN conjunct2, THEN conjunct2, THEN conjunct1, rule_format]
          S2_inventory S2_instance_def)
  from ok a b c d show ?thesis
    by (intro conjI)
qed

section \<open>Facts about the tag labels\<close>



lemma ClearPrometheusLabel_length: "length (ClearPrometheusLabel k) = length k"
  by (simp add: ClearPrometheusLabel_def)











lemma getInstanceTagLabels_cong:
  "awsAccountID c = awsAccountID c' \<Longrightarrow> awsRegion c = awsRegion c' \<Longrightarrow>
   getInstanceTagLabels c = getInstanceTagLabels c'"
  by (intro ext) (simp add: getInstanceTagLabels_def instance_labels_def)

lemma filter_none: "(\<And>s. s \<in> set xs \<Longrightarrow> \<not> P s) \<Longrightarrow> filter P xs = []"
  by (induction xs) auto

lemma instanceTags_of_instance:
  "instanceTags_samples (fst (rds_instance_metrics w c d i)) =
     (if CollectInstanceTags (configuration c)
      then [MustNewConstMetric
              (NewDesc ''rds_instance_tags'' ''AWS tags attached to the instance''
                 (fst (getInstanceTagLabels c (range_labels w d) d i)))
              GaugeValue 0 (snd (getInstanceTagLabels c (range_labels w d) d i))]
      else [])"
  by (simp add: instanceTags_samples_def rds_instance_metrics_eq metric_simps desc_fqName
        fqName_NewDesc split: option.splits)

lemma instanceTags_samples_append:
  "instanceTags_samples (xs @ ys) = instanceTags_samples xs @ instanceTags_samples ys"
  by (simp add: instanceTags_samples_def)

lemma instanceTags_samples_concat:
  "instanceTags_samples (concat xss) = concat (map instanceTags_samples xss)"
  by (induction xss) (simp_all add: instanceTags_samples_append, simp add: instanceTags_samples_def)

lemma instanceTags_other_sections:
  "instanceTags_samples (collect_cloudwatch w c) = []"
  "instanceTags_samples (collect_usage c) = []"
  "instanceTags_samples (collect_ec2 c) = []"
  "instanceTags_samples (collect_quotas c) = []"
proof -
  show "instanceTags_samples (collect_cloudwatch w c) = []"
    unfolding instanceTags_samples_def
    by (rule filter_none) (auto dest!: section_names(1) simp add: cloudwatch_names_def)
  show "instanceTags_samples (collect_usage c) = []"
    unfolding instanceTags_samples_def
    by (rule filter_none) (auto dest!: section_names(2))
  show "instanceTags_samples (collect_ec2 c) = []"
    unfolding instanceTags_samples_def
    by (rule filter_none) (auto dest!: section_names(3))
  show "instanceTags_samples (collect_quotas c) = []"
    unfolding instanceTags_samples_def
    by (rule filter_none) (auto dest!: section_names(4))
qed

lemma instanceTags_samples_Collect:
  assumes ok: "snd (fst (inventory w c)) = None"
  shows "instanceTags_samples (fst (Collect w c)) =
     (if CollectInstanceTags (configuration c)
      then map (\<lambda>(d, i).
             MustNewConstMetric
               (NewDesc ''rds_instance_tags'' ''AWS tags attached to the instance''
                  (fst (getInstanceTagLabels c (range_labels w d) d i)))
               GaugeValue 0 (snd (getInstanceTagLabels c (range_labels w d) d i)))
             (rds_Instances (fst (fst (inventory w c))))
      else [])"
proof -
  let ?c = "fst (fetchMetrics w c)"
  have g: "getInstanceTagLabels ?c = getInstanceTagLabels c"
    by (rule getInstanceTagLabels_cong) (simp_all add: fetchMetrics_ok [OF ok])
  have first: "instanceTags_samples
     [MustNewConstMetric desc_exporterBuildInformation GaugeValue 1
        [build_Version w, build_CommitSHA w, build_Date w, awsRegion c],
      MustNewConstMetric desc_errors CounterValue (Errors (counters c)) [awsRegion c],
      MustNewConstMetric desc_up GaugeValue 1 [awsRegion c]] = []"
    by (simp add: instanceTags_samples_def metric_simps desc_fqName)
  have api: "instanceTags_samples (x # xs) = instanceTags_samples xs"
    if "fqName (metric_desc x) = ''rds_api_call_total''" for x xs
    using that by (simp add: instanceTags_samples_def)
  have rds: "instanceTags_samples (fst (collect_rds w ?c)) =
     concat (map (\<lambda>(d, i). instanceTags_samples (fst (rds_instance_metrics w ?c d i)))
               (rds_Instances (fst (fst (inventory w c)))))"
    by (simp add: collect_rds_eq api metric_simps desc_fqName instanceTags_samples_concat
          fetchMetrics_ok(6) [OF ok] comp_def case_prod_unfold)
  show ?thesis
    unfolding Collect_ok(1) [OF ok] instanceTags_samples_append first
      instanceTags_other_sections rds
    by (simp add: instanceTags_of_instance g fetchMetrics_ok(2) [OF ok] case_prod_unfold
          concat_map_singleton)
qed

section \<open>One tags sample per instance\<close>


lemma S2_clear:
  "ClearPrometheusLabel ''Team'' = ''Team''"
  "ClearPrometheusLabel ''cost-center'' = ''cost_center''"
  by code_simp+

lemma S2_instance_labels:
  "instance_labels S2_collector ''db-a'' S2_instance =
     [''aws_account_id'' \<mapsto> ''123456789012'', ''aws_region'' \<mapsto> ''eu-west-3'',
      ''dbidentifier'' \<mapsto> ''db-a'', ''tag_Team'' \<mapsto> ''payments'', ''tag_cost_center'' \<mapsto> ''42'']"
  by (simp add: instance_labels_def S2_instance_def S2_clear S2_collector_simps)

lemma S2_tag_labels:
  "getInstanceTagLabels S2_collector (range_labels S2_world ''db-a'') ''db-a'' S2_instance =
     ([''tag_cost_center'', ''aws_region'', ''dbidentifier'', ''tag_Team'', ''aws_account_id''],
      [''42'', ''eu-west-3'', ''db-a'', ''payments'', ''123456789012''])"
  by (simp add: getInstanceTagLabels_def S2_instance_labels range_entries_def List.map_filter_def)
     (simp add: S2_world_def)



section \<open>Facts about Describe\<close>

lemma Describe_names:
  "''rds_instance_tags'' \<notin> fqName ` set (Describe c)"
  by (simp add: Describe_def desc_fqName)

lemma cloudwatch_desc_described:
  "n \<in> set getCloudWatchMetricsName \<Longrightarrow> cloudwatch_desc n \<in> set (Describe c)"
  by (auto simp add: getCloudWatchMetricsName_def cloudwatch_desc_eqs Describe_def)

lemma rds_instance_metrics_described:
  assumes "s \<in> set (fst (rds_instance_metrics w c d i))"
    and "fqName (metric_desc s) \<noteq> ''rds_instance_tags''"
  shows "metric_desc s \<in> set (Describe c')"
  using assms
  by (auto simp add: rds_instance_metrics_eq metric_simps fqName_NewDesc Describe_def
        split: if_splits option.splits)

lemma collect_rds_described:
  assumes "s \<in> set (fst (collect_rds w c))"
    and "fqName (metric_desc s) \<noteq> ''rds_instance_tags''"
  shows "metric_desc s \<in> set (Describe c')"
  using assms
  by (auto simp add: collect_rds_eq metric_simps dest: rds_instance_metrics_described)
     (simp add: Describe_def)

lemma collect_cloudwatch_described:
  "s \<in> set (collect_cloudwatch w c) \<Longrightarrow> metric_desc s \<in> set (Describe c')"
  by (auto simp add: collect_cloudwatch_def cloudwatch_instance_metrics_set metric_simps
        cloudwatch_desc_described)
     (simp add: Describe_def)

lemma collect_others_described:
  "s \<in> set (collect_usage c) \<Longrightarrow> metric_desc s \<in> set (Describe c')"
  "s \<in> set (collect_ec2 c) \<Longrightarrow> metric_desc s \<in> set (Describe c')"
  "s \<in> set (collect_quotas c) \<Longrightarrow> metric_desc s \<in> set (Describe c')"
  by (auto simp add: collect_usage_def collect_ec2_def collect_quotas_def ec2_instance_metrics_def
        metric_simps Describe_def split: if_splits)

lemma Collect_described:
  assumes s: "s \<in> set (fst (Collect w c))"
    and n: "fqName (metric_desc s) \<noteq> ''rds_instance_tags''"
  shows "metric_desc s \<in> set (Describe c)"
proof (cases "snd (fst (inventory w c))")
  case None
  have first: "metric_desc s \<in> set (Describe c)"
    if "s \<in> set [MustNewConstMetric desc_exporterBuildInformation GaugeValue 1
        [build_Version w, build_CommitSHA w, build_Date w, awsRegion c],
      MustNewConstMetric desc_errors CounterValue (Errors (counters c)) [awsRegion c],
      MustNewConstMetric desc_up GaugeValue 1 [awsRegion c]]"
    using that by (auto simp add: metric_simps Describe_def)
  from s show ?thesis
    unfolding Collect_ok(1) [OF None] set_append Un_iff
    using first n collect_rds_described collect_cloudwatch_described collect_others_described
    by blast
next
  case (Some e)
  from s show ?thesis
    unfolding Collect_failed [OF Some] by (auto simp add: metric_simps Describe_def)
qed

section \<open>Describe and the descriptors of a scrape\<close>

text \<open>
  Claim C2 has every descriptor that \<open>Collect\<close> uses, the one of \<open>rds_instance_tags\<close>
  included, among those that \<open>Describe\<close> sends. \<open>Describe\<close> sends 49 descriptors and
  \<^verbatim>\<open>c.instanceTags\<close> is not one of them; \<open>Collect\<close> builds the descriptor of the tags
  sample anew for each instance, with the label names of that instance. In the scrape of one
  instance with two tags and the collection of tags enabled: the tags sample is emitted, its
  descriptor is not in the output of \<open>Describe\<close>, nor is the descriptor of the same name
  that \<open>NewCollector\<close> builds, nor any descriptor named \<open>rds_instance_tags\<close>; every other
  descriptor of the scrape is in the output of \<open>Describe\<close>.
\<close>

theorem Describe_misses_instance_tags:
  "MustNewConstMetric
     (NewDesc ''rds_instance_tags'' ''AWS tags attached to the instance''
        [''tag_cost_center'', ''aws_region'', ''dbidentifier'', ''tag_Team'', ''aws_account_id''])
     GaugeValue 0 [''42'', ''eu-west-3'', ''db-a'', ''payments'', ''123456789012'']
     \<in> set (fst (Collect S2_world S2_collector)) \<and>
   NewDesc ''rds_instance_tags'' ''AWS tags attached to the instance''
     [''tag_cost_center'', ''aws_region'', ''dbidentifier'', ''tag_Team'', ''aws_account_id'']
     \<notin> set (Describe S2_collector) \<and>
   desc_instanceTags \<notin> set (Describe S2_collector) \<and>
   ''rds_instance_tags'' \<notin> fqName ` set (Describe S2_collector) \<and>
   metric_desc ` set (fst (Collect S2_world S2_collector)) -
     {NewDesc ''rds_instance_tags'' ''AWS tags attached to the instance''
        [''tag_cost_center'', ''aws_region'', ''dbidentifier'', ''tag_Team'', ''aws_account_id'']}
     \<subseteq> set (Describe S2_collector)"
proof -
  let ?d = "NewDesc ''rds_instance_tags'' ''AWS tags attached to the instance''
     [''tag_cost_center'', ''aws_region'', ''dbidentifier'', ''tag_Team'', ''aws_account_id'']"
  let ?s = "MustNewConstMetric ?d GaugeValue 0
              [''42'', ''eu-west-3'', ''db-a'', ''payments'', ''123456789012'']"
  let ?out = "fst (Collect S2_world S2_collector)"
  have ok: "snd (fst (inventory S2_world S2_collector)) = None"
    by (simp add: S2_inventory)
  have tags: "instanceTags_samples ?out = [?s]"
    by (simp add: instanceTags_samples_Collect [OF ok] S2_collector_simps S2_inventory S2_tag_labels)
  have "?s \<in> set (instanceTags_samples ?out)"
    unfolding tags by simp
  then have a: "?s \<in> set ?out"
    by (simp add: instanceTags_samples_def)
  note names = Describe_names [of S2_collector]
  have b: "?d \<notin> set (Describe S2_collector)"
    using names by (auto simp add: fqName_NewDesc image_iff)
  have c: "desc_instanceTags \<notin> set (Describe S2_collector)"
    using names by (auto simp add: desc_fqName image_iff)
  have e: "metric_desc ` set ?out - {?d} \<subseteq> set (Describe S2_collector)"
  proof
    fix x
    assume "x \<in> metric_desc ` set ?out - {?d}"
    then obtain s where s: "s \<in> set ?out" and x: "x = metric_desc s" and ne: "metric_desc s \<noteq> ?d"
      by blast
    have "fqName (metric_desc s) \<noteq> ''rds_instance_tags''"
    proof
      assume "fqName (metric_desc s) = ''rds_instance_tags''"
      with s have "s \<in> set (instanceTags_samples ?out)"
        by (simp add: instanceTags_samples_def)
      then have "s = ?s"
        unfolding tags by simp
      with ne show False
        by (simp add: metric_simps)
    qed
    from Collect_described [OF s this] show "x \<in> set (Describe S2_collector)"
      by (simp add: x)
  qed
  from a b c names e show ?thesis
    by (intro conjI)
qed

section \<open>The API-call statistic of the time-series fetcher\<close>

lemma api_cloudwatch_sections:
  "filter (api_sample ''cloudwatch'') (fst (collect_rds w c)) = []"
  "filter (api_sample ''cloudwatch'') (collect_usage c) = []"
  "filter (api_sample ''cloudwatch'') (collect_ec2 c) = []"
  "filter (api_sample ''cloudwatch'') (collect_quotas c) = []"
proof -
  show "filter (api_sample ''cloudwatch'') (fst (collect_rds w c)) = []"
    by (rule filter_none)
       (auto simp add: collect_rds_eq api_sample_def metric_simps dest!: rds_instance_metrics_names)
  show "filter (api_sample ''cloudwatch'') (collect_usage c) = []"
    by (simp add: collect_usage_def api_sample_def metric_simps desc_fqName)
  show "filter (api_sample ''cloudwatch'') (collect_ec2 c) = []"
    by (rule filter_none)
       (auto simp add: collect_ec2_def ec2_instance_metrics_def api_sample_def metric_simps desc_fqName)
  show "filter (api_sample ''cloudwatch'') (collect_quotas c) = []"
    by (simp add: collect_quotas_def api_sample_def metric_simps desc_fqName)
qed

lemma api_cloudwatch_section:
  "filter (api_sample ''cloudwatch'') (collect_cloudwatch w c) =
     [MustNewConstMetric desc_apiCall CounterValue (CloudwatchAPICalls (counters c))
        [awsAccountID c, awsRegion c, ''cloudwatch'']]"
proof -
  have "filter (api_sample ''cloudwatch'')
          (concat (map (\<lambda>(dbidentifier, i). cloudwatch_instance_metrics c dbidentifier i)
               (range_entries (Instances (CloudwatchInstances (metrics c)))
                  (range_CloudwatchInstances w)))) = []"
    by (rule filter_none)
       (use api_not_cloudwatch in \<open>auto simp add: cloudwatch_instance_metrics_set api_sample_def
          metric_simps dest!: cloudwatch_desc_name\<close>)
  then show ?thesis
    by (simp add: collect_cloudwatch_def api_sample_def metric_simps desc_fqName)
qed

lemma api_cloudwatch_Collect:
  assumes ok: "snd (fst (inventory w c)) = None"
  shows "filter (api_sample ''cloudwatch'') (fst (Collect w c)) =
     [MustNewConstMetric desc_apiCall CounterValue
        (CloudwatchAPICalls (counters c) +
           (if CollectInstanceMetrics (configuration c)
            then CloudWatchAPICall (snd (time_series_fetch w c)) else 0))
        [awsAccountID c, awsRegion c, ''cloudwatch'']]"
  unfolding Collect_ok(1) [OF ok] filter_append api_cloudwatch_sections api_cloudwatch_section
  by (simp add: api_sample_def metric_simps desc_fqName fetchMetrics_ok [OF ok] subtask_launched_def)

text \<open>
  Claim C1. Thirty instances make 720 queries. With a client that answers every request
  (with no results), \<open>GetRDSInstanceMetrics\<close> returns no error and sends two requests, and
  the statistic \<open>CloudWatchAPICall\<close> is 1: the request of the full chunk is counted in the
  local variable \<open>cloudWatchAPICalls\<close> only. In a scrape of thirty instances by a fresh
  collector the time-series fetcher likewise sends two requests, and the one sample
  \<open>rds_api_call_total{api="cloudwatch"}\<close> of the scrape has the value 1.
\<close>

theorem thirty_instances_statistic:
  "(let D = map (\<lambda>i. ''db-'' @ Sprintf_d i) [0..<30];
        X = GetRDSInstanceMetrics 0 0 (canonical_keys D) (NewRDSFetcher (\<lambda>p. Inr [])) D;
        w = S2_world\<lparr>GetInstancesMetrics :=
                        (\<lambda>logs maintenances.
                           ((\<lparr> rds_Instances = map (\<lambda>d. (d, S2_instance)) D \<rparr>, None), 1)),
                      GetMetricData := (\<lambda>p. Inr []),
                      range_queries := canonical_keys D,
                      range_CloudwatchInstances := []\<rparr>
    in snd (fst X) = None \<and> length (sent (snd X)) = 2 \<and> CloudWatchAPICall (snd X) = 1 \<and>
       length (instanceIdentifiers_of w S2_collector) = 30 \<and>
       length (sent (snd (time_series_fetch w S2_collector))) = 2 \<and>
       filter (api_sample ''cloudwatch'') (fst (Collect w S2_collector)) =
         [MustNewConstMetric desc_apiCall CounterValue 1
            [''123456789012'', ''eu-west-3'', ''cloudwatch'']])"
proof -
  define D where "D = map (\<lambda>i. ''db-'' @ Sprintf_d i) [0..<30]"
  define X where "X = GetRDSInstanceMetrics 0 0 (canonical_keys D) (NewRDSFetcher (\<lambda>p. Inr [])) D"
  define w where "w = S2_world\<lparr>GetInstancesMetrics :=
                        (\<lambda>logs maintenances.
                           ((\<lparr> rds_Instances = map (\<lambda>d. (d, S2_instance)) D \<rparr>, None), 1)),
                      GetMetricData := (\<lambda>p. Inr []),
                      range_queries := canonical_keys D,
                      range_CloudwatchInstances := []\<rparr>"
  have n: "length D = 30" by (simp add: D_def)
  have o: "range_order (generateCloudWatchQueriesForInstances D) (canonical_keys D)"
    by (rule canonical_keys_order)
  have stat: "snd (fst Y) = None \<and> length (sent (snd Y)) = 2 \<and> CloudWatchAPICall (snd Y) = 1"
    if Y: "Y = GetRDSInstanceMetrics n1 n2 (canonical_keys D) (NewRDSFetcher (\<lambda>p. Inr [])) D"
    for Y n1 n2
  proof -
    have g: "snd (fst Y) = None"
      unfolding Y by (rule GetRDSInstanceMetrics_good) (simp add: NewRDSFetcher_def)
    then have eq: "GetRDSInstanceMetrics n1 n2 (canonical_keys D) (NewRDSFetcher (\<lambda>p. Inr [])) D
                   = ((fst (fst Y), None), snd Y)"
      unfolding Y by (metis prod.collapse)
    from GetRDSInstanceMetrics_statistic [OF o eq] n
    have "length (sent (snd Y)) = 2" "CloudWatchAPICall (snd Y) = 1"
      by (simp_all add: NewRDSFetcher_def)
    with g show ?thesis
      by simp
  qed
  have inv: "inventory w S2_collector =
               ((\<lparr> rds_Instances = map (\<lambda>d. (d, S2_instance)) D \<rparr>, None), 1)"
    by (simp add: inventory_def w_def)
  have ok: "snd (fst (inventory w S2_collector)) = None"
    by (simp add: inv)
  have ids: "instanceIdentifiers_of w S2_collector = D"
    by (simp add: instanceIdentifiers_of_def inv getUniqTypeAndIdentifiers_def comp_def)
  have ts: "time_series_fetch w S2_collector =
              GetRDSInstanceMetrics (now1 w) (now2 w) (canonical_keys D) (NewRDSFetcher (\<lambda>p. Inr [])) D"
    by (simp add: time_series_fetch_def ids) (simp add: w_def)
  note s1 = stat [OF X_def]
  note s2 = stat [OF ts]
  have c: "filter (api_sample ''cloudwatch'') (fst (Collect w S2_collector)) =
         [MustNewConstMetric desc_apiCall CounterValue 1
            [''123456789012'', ''eu-west-3'', ''cloudwatch'']]"
    by (simp add: api_cloudwatch_Collect [OF ok] S2_collector_simps s2)
       (simp add: S2_collector_def NewCollector_def)
  from s1 s2 c n show ?thesis
    unfolding Let_def D_def [symmetric] X_def [symmetric] w_def [symmetric] ids by simp
qed

end
